theory Spec2Isabelle
  imports Complex_Main "HOL-Library.Multiset"
begin

section \<open>Values, exceptions and the effect log\<close>

text \<open>
  The two scripts (\<^verbatim>\<open>02-keras-2L-diabetes-predict/keras-predictor.py\<close> and
  \<^verbatim>\<open>_homeworks_/homework_04/cardiotocographic-classification.py\<close>) consist of calls
  into pandas, scikit-learn, Keras, matplotlib and pickle. The embedding keeps the
  scripts' own control and data flow and makes the libraries explicit:
  \<^item> what a library call returns for reasons outside the script (file contents, the
    random permutation, trained weights, scaled values, float16 rounding) is a field of
    the environment record \<open>env\<close>, which also holds the command line of the process;
  \<^item> what the libraries document and the claims are about (index selection, the shape of
    a split, one-hot encoding, argmax, the shape of a prediction, accuracy as a mean of
    hits) is written out as a function;
  \<^item> every library call that is a step of the pipeline appends an event to a log, so
    the order of the steps and the files written can be read off a completed run;
  \<^item> a raised exception is the value \<open>Inl e\<close>, and sequencing stops there.

  A float cell is a real number or NaN (\<open>None\<close>); infinities are outside the model.
\<close>

type_synonym cell = "real option"
type_synonym matrix = "cell list list"

record frame =
  columns :: "string list"
  rows :: "cell list list"

datatype exn =
    FileNotFoundError | ParserError | KeyError | IndexError | ValueError
  | NotFittedError | OSError | LibraryError string

datatype activation = relu | sigmoid | softmax

record layer =
  units :: nat
  activation :: activation
  input_dim :: "nat option"
  name :: string

record sequential =
  model_name :: "string option"
  layers :: "layer list"
  loss :: "string option"
  optimizer :: "string option"
  metrics :: "string list"

datatype targets = Series "cell list" | Array "nat list list"

text \<open>A fitted Keras model is identified by what it was compiled as and trained on.\<close>

record fitted =
  arch :: sequential
  fit_X :: matrix
  fit_y :: targets
  epochs :: nat
  batch_size :: "nat option"
  validation_split :: real

record MinMaxScaler =
  fitted_on :: "matrix option"

record OneHotEncoder =
  categories :: "cell list list option"

datatype printed = Text string | Num cell

datatype event =
    E_read_csv string
  | E_read_excel string string string
  | E_train_test_split real "nat option"
  | E_scaler_fit_transform matrix
  | E_scaler_transform matrix
  | E_encoder_fit_transform "cell list list"
  | E_Sequential "string option"
  | E_add layer
  | E_summary
  | E_compile string string "string list"
  | E_fit matrix targets nat "nat option" real
  | E_evaluate matrix targets
  | E_predict matrix
  | E_print "printed list"
  | E_plt string
  | E_savefig string
  | E_model_save fitted string
  | E_open string
  | E_pickle_dump MinMaxScaler string

type_synonym 'a io = "exn + ('a \<times> event list)"

definition io_return :: "'a \<Rightarrow> 'a io" where
  "io_return v = Inr (v, [])"

definition io_bind :: "'a io \<Rightarrow> ('a \<Rightarrow> 'b io) \<Rightarrow> 'b io" where
  "io_bind m f =
     (case m of
        Inl e \<Rightarrow> Inl e
      | Inr (a, l1) \<Rightarrow>
          (case f a of Inl e \<Rightarrow> Inl e | Inr (b, l2) \<Rightarrow> Inr (b, l1 @ l2)))"

text \<open>A library call: its event is logged when it returns; when it raises, the run stops.\<close>

definition call :: "event \<Rightarrow> exn + 'a \<Rightarrow> 'a io" where
  "call ev r = (case r of Inl e \<Rightarrow> Inl e | Inr v \<Rightarrow> Inr (v, [ev]))"

text \<open>A pure operation that may raise (an indexing expression): no event.\<close>

definition pure :: "exn + 'a \<Rightarrow> 'a io" where
  "pure r = (case r of Inl e \<Rightarrow> Inl e | Inr v \<Rightarrow> Inr (v, []))"

section \<open>The environment: what the libraries and the machine supply\<close>

record env =
  sys_argv :: "string list"
  os_getcwd :: string
  read_csv_file :: "string \<Rightarrow> exn + frame"
  read_excel_file :: "string \<Rightarrow> string \<Rightarrow> string \<Rightarrow> exn + frame"
  rng_permutation :: "nat \<Rightarrow> nat list"
  seeded_permutation :: "nat \<Rightarrow> nat \<Rightarrow> nat list"
  minmax_values :: "matrix \<Rightarrow> matrix \<Rightarrow> exn + matrix"
  float16 :: "real \<Rightarrow> real"
  keras_train :: "fitted \<Rightarrow> exn + (string \<times> cell list) list"
  keras_loss :: "fitted \<Rightarrow> matrix \<Rightarrow> targets \<Rightarrow> exn + cell"
  keras_forward :: "fitted \<Rightarrow> matrix \<Rightarrow> exn + (nat \<Rightarrow> nat \<Rightarrow> cell)"
  write_error :: "string \<Rightarrow> exn option"

section \<open>os and pandas\<close>

definition os_path_join :: "string \<Rightarrow> string \<Rightarrow> string" where
  "os_path_join a b =
     (if b \<noteq> [] \<and> hd b = CHR ''/'' then b
      else if a = [] \<or> last a = CHR ''/'' then a @ b
      else a @ ''/'' @ b)"

definition pd_read_csv :: "env \<Rightarrow> string \<Rightarrow> frame io" where
  "pd_read_csv env path = call (E_read_csv path) (read_csv_file env path)"

definition pd_read_excel :: "env \<Rightarrow> string \<Rightarrow> string \<Rightarrow> string \<Rightarrow> frame io" where
  "pd_read_excel env path sheet_name usecols =
     call (E_read_excel path sheet_name usecols) (read_excel_file env path sheet_name usecols)"

text \<open>\<^verbatim>\<open>df.dropna()\<close>: the rows without a missing cell.\<close>

definition dropna :: "frame \<Rightarrow> frame" where
  "dropna df = df\<lparr>rows := filter (list_all (\<lambda>c. c \<noteq> None)) (rows df)\<rparr>"

fun first_index :: "('a \<Rightarrow> bool) \<Rightarrow> 'a list \<Rightarrow> nat" where
  "first_index P [] = 0"
| "first_index P (x # xs) = (if P x then 0 else Suc (first_index P xs))"

text \<open>\<^verbatim>\<open>df.loc[:, names]\<close>: the named columns in the given order; KeyError when one is missing.\<close>

definition loc_columns :: "frame \<Rightarrow> string list \<Rightarrow> exn + frame" where
  "loc_columns df names =
     (if set names \<subseteq> set (columns df)
      then Inr \<lparr>columns = names,
                rows = map (\<lambda>r. map (\<lambda>c. r ! first_index (\<lambda>x. x = c) (columns df)) names) (rows df)\<rparr>
      else Inl KeyError)"

text \<open>\<^verbatim>\<open>df.iloc[:, :-1]\<close> (a frame) and \<^verbatim>\<open>df.iloc[:, -1]\<close> (a series; IndexError without columns).\<close>

definition iloc_all_but_last :: "frame \<Rightarrow> frame" where
  "iloc_all_but_last df = \<lparr>columns = butlast (columns df), rows = map butlast (rows df)\<rparr>"

definition iloc_last :: "frame \<Rightarrow> exn + cell list" where
  "iloc_last df = (if columns df = [] then Inl IndexError else Inr (map last (rows df)))"

definition shape1 :: "frame \<Rightarrow> nat" where
  "shape1 df = length (columns df)"

definition to_numpy :: "frame \<Rightarrow> matrix" where
  "to_numpy df = rows df"

section \<open>scikit-learn\<close>

text \<open>
  \<^verbatim>\<open>train_test_split(df, test_size=t)\<close> with a float \<open>t\<close> and no \<^verbatim>\<open>train_size\<close>,
  \<^verbatim>\<open>random_state\<close> or \<^verbatim>\<open>stratify\<close>: \<open>n_test = ceil(t * n)\<close>, \<open>n_train = n - n_test\<close>,
  ValueError when \<open>t\<close> is outside (0,1) or the training set would be empty; the test
  rows are the first \<open>n_test\<close> positions of a random permutation, the training rows the
  next \<open>n_train\<close>. The permutation is drawn from the global random state when
  \<^verbatim>\<open>random_state\<close> is left at its default \<^verbatim>\<open>None\<close>, and is a function of the seed
  when one is passed. The product \<open>t * n\<close> is taken over the reals; the library computes
  it in binary floating point.
\<close>

definition split_indices :: "nat list \<Rightarrow> nat \<Rightarrow> real \<Rightarrow> nat list \<times> nat list" where
  "split_indices permutation n_samples test_size =
     (let n_test = nat \<lceil>test_size * real n_samples\<rceil>;
          n_train = n_samples - n_test;
          ind_test = take n_test permutation;
          ind_train = take n_train (drop n_test permutation)
      in (ind_train, ind_test))"

definition safe_indexing :: "frame \<Rightarrow> nat list \<Rightarrow> frame" where
  "safe_indexing df ind = df\<lparr>rows := map (\<lambda>i. rows df ! i) ind\<rparr>"

definition shuffle_split :: "env \<Rightarrow> frame \<Rightarrow> real \<Rightarrow> nat option \<Rightarrow> exn + (frame \<times> frame)" where
  "shuffle_split env df test_size random_state =
     (let n_samples = length (rows df);
          n_test = nat \<lceil>test_size * real n_samples\<rceil>;
          n_train = n_samples - n_test;
          permutation = (case random_state of
                           None \<Rightarrow> rng_permutation env n_samples
                         | Some seed \<Rightarrow> seeded_permutation env seed n_samples)
      in if \<not> (0 < test_size \<and> test_size < 1) then Inl ValueError
         else if n_train = 0 then Inl ValueError
         else (case split_indices permutation n_samples test_size of
                 (ind_train, ind_test) \<Rightarrow>
                   Inr (safe_indexing df ind_train, safe_indexing df ind_test)))"

definition train_test_split ::
  "env \<Rightarrow> frame \<Rightarrow> real \<Rightarrow> nat option \<Rightarrow> (frame \<times> frame) io" where
  "train_test_split env df test_size random_state =
     call (E_train_test_split test_size random_state)
       (shuffle_split env df test_size random_state)"

section \<open>Keras\<close>

definition Dense :: "nat \<Rightarrow> activation \<Rightarrow> nat option \<Rightarrow> string \<Rightarrow> layer" where
  "Dense u a d n = \<lparr>units = u, activation = a, input_dim = d, name = n\<rparr>"

definition Sequential :: "string option \<Rightarrow> sequential io" where
  "Sequential nm =
     call (E_Sequential nm)
       (Inr \<lparr>model_name = nm, layers = [], loss = None, optimizer = None, metrics = []\<rparr>)"

definition add :: "sequential \<Rightarrow> layer \<Rightarrow> sequential io" where
  "add model l = call (E_add l) (Inr (model\<lparr>layers := layers model @ [l]\<rparr>))"

definition summary :: "sequential \<Rightarrow> unit io" where
  "summary model = call E_summary (Inr ())"

definition compile :: "sequential \<Rightarrow> string \<Rightarrow> string \<Rightarrow> string list \<Rightarrow> sequential io" where
  "compile model l opt ms =
     call (E_compile l opt ms)
       (Inr (model\<lparr>loss := Some l, optimizer := Some opt, metrics := ms\<rparr>))"

text \<open>
  \<^verbatim>\<open>model.fit(X, y, epochs=.., batch_size=.., validation_split=..)\<close>: the training itself
  is the library's; it returns the history (one list of values per metric name) or raises.
\<close>

definition training ::
  "env \<Rightarrow> sequential \<Rightarrow> matrix \<Rightarrow> targets \<Rightarrow> nat \<Rightarrow> nat option \<Rightarrow> real
     \<Rightarrow> exn + ((string \<times> cell list) list \<times> fitted)" where
  "training env model X y ep bs vs =
     (let m = \<lparr>arch = model, fit_X = X, fit_y = y, epochs = ep, batch_size = bs,
               validation_split = vs\<rparr>
      in case keras_train env m of Inl e \<Rightarrow> Inl e | Inr hist \<Rightarrow> Inr (hist, m))"

definition fit ::
  "env \<Rightarrow> sequential \<Rightarrow> matrix \<Rightarrow> targets \<Rightarrow> nat \<Rightarrow> nat option \<Rightarrow> real
     \<Rightarrow> ((string \<times> cell list) list \<times> fitted) io" where
  "fit env model X y ep bs vs = call (E_fit X y ep bs vs) (training env model X y ep bs vs)"

text \<open>
  \<^verbatim>\<open>model.predict(X)\<close>: one row per input row, one value per unit of the last layer;
  the values are the library's.
\<close>

definition output_units :: "sequential \<Rightarrow> nat" where
  "output_units model = (case layers model of [] \<Rightarrow> 0 | _ \<Rightarrow> units (last (layers model)))"

definition forward :: "env \<Rightarrow> fitted \<Rightarrow> matrix \<Rightarrow> exn + matrix" where
  "forward env m X =
     (case keras_forward env m X of
        Inl e \<Rightarrow> Inl e
      | Inr out \<Rightarrow>
          Inr (map (\<lambda>i. map (\<lambda>j. out i j) [0..<output_units (arch m)]) [0..<length X]))"

definition predict :: "env \<Rightarrow> fitted \<Rightarrow> matrix \<Rightarrow> matrix io" where
  "predict env m X = call (E_predict X) (forward env m X)"

text \<open>
  Comparison with NaN is false; \<^verbatim>\<open>np.argmax\<close> returns the first index of the maximum,
  or the index of the first NaN when there is one.
\<close>

definition cell_gt :: "cell \<Rightarrow> real \<Rightarrow> bool" where
  "cell_gt c r = (case c of None \<Rightarrow> False | Some v \<Rightarrow> v > r)"

fun argmax_from :: "nat \<Rightarrow> real \<Rightarrow> nat \<Rightarrow> cell list \<Rightarrow> nat" where
  "argmax_from best_i best_v i [] = best_i"
| "argmax_from best_i best_v i (None # xs) = i"
| "argmax_from best_i best_v i (Some v # xs) =
     (if v > best_v then argmax_from i v (Suc i) xs
      else argmax_from best_i best_v (Suc i) xs)"

fun argmax_row :: "cell list \<Rightarrow> nat" where
  "argmax_row [] = 0"
| "argmax_row (None # xs) = 0"
| "argmax_row (Some v # xs) = argmax_from 0 v 1 xs"

text \<open>\<^verbatim>\<open>np.argmax(a, axis=1)\<close>: ValueError on rows of length zero.\<close>

definition np_argmax_axis1 :: "matrix \<Rightarrow> exn + nat list" where
  "np_argmax_axis1 a =
     (if \<exists>r \<in> set a. r = [] then Inl ValueError else Inr (map argmax_row a))"

text \<open>
  \<^verbatim>\<open>model.evaluate(X, y, verbose=0)\<close> returns the loss (the library's) and the compiled
  metric. Both accuracy metrics are the mean over the samples of a 0/1 hit:
  \<^verbatim>\<open>binary_accuracy\<close> compares the label with the prediction thresholded at 0.5,
  \<^verbatim>\<open>categorical_accuracy\<close> compares the argmax of the label row with the argmax of
  the prediction row. The mean is taken over the reals. Evaluating on no rows raises.
\<close>

definition as_tensor :: "targets \<Rightarrow> matrix" where
  "as_tensor y =
     (case y of
        Series ys \<Rightarrow> map (\<lambda>v. [v]) ys
      | Array a \<Rightarrow> map (map (\<lambda>b. Some (real b))) a)"

definition metric_hit :: "string list \<Rightarrow> cell list \<Rightarrow> cell list \<Rightarrow> bool" where
  "metric_hit ms y_true y_pred =
     (if ms = [''binary_accuracy'']
      then list_all2 (\<lambda>t p. t = Some (if cell_gt p 0.5 then 1 else 0)) y_true y_pred
      else argmax_row y_true = argmax_row y_pred)"

definition accuracy :: "string list \<Rightarrow> matrix \<Rightarrow> matrix \<Rightarrow> real" where
  "accuracy ms Y P =
     real (length (filter (\<lambda>(t, p). metric_hit ms t p) (zip Y P))) / real (length P)"

definition test_scores :: "env \<Rightarrow> fitted \<Rightarrow> matrix \<Rightarrow> targets \<Rightarrow> exn + (cell \<times> real)" where
  "test_scores env m X y =
     (if X = [] then Inl ValueError
      else (case keras_loss env m X y of
              Inl e \<Rightarrow> Inl e
            | Inr l \<Rightarrow>
                (case forward env m X of
                   Inl e \<Rightarrow> Inl e
                 | Inr P \<Rightarrow> Inr (l, accuracy (metrics (arch m)) (as_tensor y) P))))"

definition evaluate :: "env \<Rightarrow> fitted \<Rightarrow> matrix \<Rightarrow> targets \<Rightarrow> (cell \<times> real) io" where
  "evaluate env m X y = call (E_evaluate X y) (test_scores env m X y)"

text \<open>Writing a file: the machine may refuse.\<close>

definition write_file :: "env \<Rightarrow> string \<Rightarrow> exn + unit" where
  "write_file env path = (case write_error env path of Some e \<Rightarrow> Inl e | None \<Rightarrow> Inr ())"

definition save :: "env \<Rightarrow> fitted \<Rightarrow> string \<Rightarrow> unit io" where
  "save env m path = call (E_model_save m path) (write_file env path)"

section \<open>scikit-learn preprocessing\<close>

text \<open>
  \<^verbatim>\<open>MinMaxScaler\<close>: the fitted object is determined by the matrix it was fitted on;
  the scaled values are the library's. \<^verbatim>\<open>transform\<close> before \<^verbatim>\<open>fit\<close> raises.
\<close>

definition MinMaxScaler_new :: MinMaxScaler where
  "MinMaxScaler_new = \<lparr>fitted_on = None\<rparr>"

definition minmax_fit_transform :: "env \<Rightarrow> MinMaxScaler \<Rightarrow> matrix \<Rightarrow> exn + (MinMaxScaler \<times> matrix)" where
  "minmax_fit_transform env scaler X =
     (case minmax_values env X X of
        Inl e \<Rightarrow> Inl e
      | Inr V \<Rightarrow> Inr (scaler\<lparr>fitted_on := Some X\<rparr>, V))"

definition minmax_transform :: "env \<Rightarrow> MinMaxScaler \<Rightarrow> matrix \<Rightarrow> exn + matrix" where
  "minmax_transform env scaler X =
     (case fitted_on scaler of
        None \<Rightarrow> Inl NotFittedError
      | Some F \<Rightarrow> minmax_values env F X)"

definition scaler_fit_transform :: "env \<Rightarrow> MinMaxScaler \<Rightarrow> matrix \<Rightarrow> (MinMaxScaler \<times> matrix) io" where
  "scaler_fit_transform env scaler X =
     call (E_scaler_fit_transform X) (minmax_fit_transform env scaler X)"

definition scaler_transform :: "env \<Rightarrow> MinMaxScaler \<Rightarrow> matrix \<Rightarrow> matrix io" where
  "scaler_transform env scaler X = call (E_scaler_transform X) (minmax_transform env scaler X)"

definition astype_float16 :: "env \<Rightarrow> matrix \<Rightarrow> matrix" where
  "astype_float16 env X = map (map (map_option (float16 env))) X"

text \<open>
  \<^verbatim>\<open>OneHotEncoder(sparse_output=False, dtype='uint8')\<close>. \<^verbatim>\<open>fit_transform(X)\<close> sets
  \<^verbatim>\<open>categories_\<close> to the sorted distinct values of each column of \<open>X\<close> (NaN last) and
  returns, for each row, the indicator vectors of its values over the categories of
  their columns, concatenated. An array without rows raises ValueError.
\<close>

definition OneHotEncoder_new :: OneHotEncoder where
  "OneHotEncoder_new = \<lparr>categories = None\<rparr>"

definition unique_sorted :: "cell list \<Rightarrow> cell list" where
  "unique_sorted ys =
     map Some (sort (remdups (List.map_filter (\<lambda>c. c) ys)))
       @ (if None \<in> set ys then [None] else [])"

definition encode_row :: "cell list list \<Rightarrow> cell list \<Rightarrow> nat list" where
  "encode_row cats row =
     concat (map2 (\<lambda>c v. map (\<lambda>k. if v = k then 1 else 0) c) cats row)"

definition one_hot_fit_transform :: "OneHotEncoder \<Rightarrow> matrix \<Rightarrow> exn + (OneHotEncoder \<times> nat list list)" where
  "one_hot_fit_transform encoder X =
     (if X = [] then Inl ValueError
      else (let cats = map unique_sorted (transpose X)
            in Inr (encoder\<lparr>categories := Some cats\<rparr>, map (encode_row cats) X)))"

definition encoder_fit_transform ::
  "OneHotEncoder \<Rightarrow> matrix \<Rightarrow> (OneHotEncoder \<times> nat list list) io" where
  "encoder_fit_transform encoder X =
     call (E_encoder_fit_transform X) (one_hot_fit_transform encoder X)"

text \<open>\<^verbatim>\<open>np.array(y).reshape(-1, 1)\<close>: a column vector.\<close>

definition reshape_col :: "cell list \<Rightarrow> matrix" where
  "reshape_col ys = map (\<lambda>y. [y]) ys"

text \<open>\<^verbatim>\<open>X.shape[1]\<close> of a two-dimensional array with at least one row.\<close>

definition np_shape1 :: "matrix \<Rightarrow> nat" where
  "np_shape1 X = (case X of [] \<Rightarrow> 0 | r # _ \<Rightarrow> length r)"

section \<open>Console, plots and files\<close>

definition print :: "printed list \<Rightarrow> unit io" where
  "print parts = call (E_print parts) (Inr ())"

definition plt :: "string \<Rightarrow> unit io" where
  "plt f = call (E_plt f) (Inr ())"

definition savefig :: "env \<Rightarrow> string \<Rightarrow> unit io" where
  "savefig env path = call (E_savefig path) (write_file env path)"

text \<open>\<^verbatim>\<open>open(path, 'wb')\<close>: the handle is the path.\<close>

definition open_wb :: "env \<Rightarrow> string \<Rightarrow> string io" where
  "open_wb env path =
     call (E_open path)
       (case write_file env path of Inl e \<Rightarrow> Inl e | Inr _ \<Rightarrow> Inr path)"

definition pickle_dump :: "MinMaxScaler \<Rightarrow> string \<Rightarrow> unit io" where
  "pickle_dump obj f = call (E_pickle_dump obj f) (Inr ())"

text \<open>\<^verbatim>\<open>hist.history[key]\<close>: KeyError when the metric was not recorded.\<close>

definition history_get :: "(string \<times> cell list) list \<Rightarrow> string \<Rightarrow> exn + cell list" where
  "history_get hist key = (case map_of hist key of None \<Rightarrow> Inl KeyError | Some v \<Rightarrow> Inr v)"

text \<open>\<^verbatim>\<open>labels[i]\<close> with a non-negative index: IndexError out of range.\<close>

definition py_index :: "'a list \<Rightarrow> nat \<Rightarrow> exn + 'a" where
  "py_index xs i = (if i < length xs then Inr (xs ! i) else Inl IndexError)"

text \<open>The truth value of a numpy boolean array: defined for exactly one element.\<close>

definition array_truth :: "bool list \<Rightarrow> exn + bool" where
  "array_truth bs = (case bs of [b] \<Rightarrow> Inr b | _ \<Rightarrow> Inl ValueError)"

section \<open>keras-predictor.py\<close>

text \<open>\<^verbatim>\<open>DIVIDE_RATIO = .8\<close>, as a real number.\<close>

definition DIVIDE_RATIO :: real where
  "DIVIDE_RATIO = 8 / 10"

text \<open>Lines 42 to 55: the model of the diabetes script.\<close>

definition diabetes_model :: "nat \<Rightarrow> sequential io" where
  "diabetes_model X_train_shape1 =
     io_bind (Sequential (Some ''Pima-Indians-Diabetes-X_test'')) (\<lambda>model.
     io_bind (add model (Dense 64 relu (Some X_train_shape1) ''hidden-1'')) (\<lambda>model.
     io_bind (add model (Dense 64 relu None ''hidden-2'')) (\<lambda>model.
     io_bind (add model (Dense 1 sigmoid None ''output'')) (\<lambda>model.
     io_bind (summary model) (\<lambda>_.
     compile model ''binary_crossentropy'' ''adam'' [''binary_accuracy''])))))"

text \<open>Lines 74 and 75: one line per prediction.\<close>

fun print_predictions :: "matrix \<Rightarrow> unit io" where
  "print_predictions [] = io_return ()"
| "print_predictions (prediction # rest) =
     io_bind (pure (array_truth (map (\<lambda>p. cell_gt p (5 / 10)) prediction))) (\<lambda>b.
     io_bind (print [Text (if b then ''Person have got diabetes...''
                           else ''Person is healthy...'')]) (\<lambda>_.
     print_predictions rest))"

text \<open>The module body.\<close>

definition keras_predictor :: "env \<Rightarrow> unit io" where
  "keras_predictor env =
     (let cwd = os_getcwd env in
      io_bind (pd_read_csv env
                 (os_path_join cwd ''02-keras-2L-diabetes-predict/diabetes.csv'')) (\<lambda>diabetes_data.
      io_bind (train_test_split env diabetes_data (1 - DIVIDE_RATIO) None) (\<lambda>(train_dataset, test_set).
      let X_train = iloc_all_but_last train_dataset in
      io_bind (pure (iloc_last train_dataset)) (\<lambda>y_train.
      let X_test = iloc_all_but_last test_set in
      io_bind (pure (iloc_last test_set)) (\<lambda>y_test.
      io_bind (diabetes_model (shape1 X_train)) (\<lambda>model.
      io_bind (fit env model (rows X_train) (Series y_train) 100 (Some 32) (2 / 10)) (\<lambda>(hist, model).
      io_bind (evaluate env model (rows X_test) (Series y_test)) (\<lambda>score.
      io_bind (print [Text ''Test accuracy:'', Num (Some (snd score))]) (\<lambda>_.
      io_bind (pd_read_csv env
                 (os_path_join cwd ''02-keras-2L-diabetes-predict/predicted.csv'')) (\<lambda>df.
      let diabetes_data_to_predict = to_numpy df in
      io_bind (predict env model diabetes_data_to_predict) (\<lambda>predictions.
      print_predictions predictions)))))))))))"

section \<open>cardiotocographic-classification.py\<close>

definition create_cardiotocographic_model :: "nat \<Rightarrow> nat \<Rightarrow> string option \<Rightarrow> sequential io" where
  "create_cardiotocographic_model input_dim' num_categories nm =
     io_bind (Sequential nm) (\<lambda>model.
     io_bind (add model (Dense 64 relu (Some input_dim') ''Hidden1'')) (\<lambda>model.
     io_bind (add model (Dense 64 relu None ''Hidden2'')) (\<lambda>model.
     io_bind (add model (Dense num_categories softmax None ''output'')) (\<lambda>model.
     io_bind (summary model) (\<lambda>_.
     io_bind (compile model ''categorical_crossentropy'' ''rmsprop''
                [''categorical_accuracy'']) (\<lambda>model.
     io_return model))))))"

definition train_evaluate_save_model ::
  "env \<Rightarrow> matrix \<Rightarrow> targets \<Rightarrow> matrix \<Rightarrow> targets \<Rightarrow> matrix \<Rightarrow> nat \<Rightarrow> string \<Rightarrow> nat
     \<Rightarrow> ((string \<times> cell list) list \<times> cell \<times> real \<times> matrix) io" where
  "train_evaluate_save_model env X_train y_train X_test y_test X_to_predict num_categories nm ep =
     io_bind (create_cardiotocographic_model (np_shape1 X_train) num_categories
                (Some ''cardiotocographic-predictor'')) (\<lambda>model.
     io_bind (fit env model X_train y_train ep None (2 / 10)) (\<lambda>(hist, model).
     io_bind (evaluate env model X_test y_test) (\<lambda>(loss', category_accuracy).
     io_bind (predict env model X_to_predict) (\<lambda>predictions.
     io_bind (save env model (nm @ ''.h5'')) (\<lambda>_.
     io_return (hist, loss', category_accuracy, predictions))))))"

definition plot_metric_graph :: "env \<Rightarrow> (string \<times> cell list) list \<Rightarrow> string \<Rightarrow> string \<Rightarrow> unit io" where
  "plot_metric_graph env hist metric title =
     io_bind (plt ''figure'') (\<lambda>_.
     io_bind (pure (history_get hist metric)) (\<lambda>training.
     io_bind (plt ''plot'') (\<lambda>_.
     io_bind (pure (history_get hist (''val_'' @ metric))) (\<lambda>validation.
     io_bind (plt ''plot'') (\<lambda>_.
     io_bind (plt ''title'') (\<lambda>_.
     io_bind (plt ''xlabel'') (\<lambda>_.
     io_bind (plt ''ylabel'') (\<lambda>_.
     io_bind (plt ''grid'') (\<lambda>_.
     io_bind (plt ''legend'') (\<lambda>_.
     io_bind (savefig env (title @ ''.jpg'')) (\<lambda>_.
     plt ''show'')))))))))))"

text \<open>Lines 157 and 158: one label per prediction.\<close>

fun print_labels :: "string list \<Rightarrow> nat list \<Rightarrow> unit io" where
  "print_labels labels [] = io_return ()"
| "print_labels labels (prediction # rest) =
     io_bind (pure (py_index labels prediction)) (\<lambda>label.
     io_bind (print [Text label]) (\<lambda>_.
     print_labels labels rest))"

definition CTG_columns :: "string list" where
  "CTG_columns =
     [''LB'', ''AC'', ''FM'', ''UC'', ''DL'', ''DS'', ''DP'', ''ASTV'', ''MSTV'', ''ALTV'',
      ''MLTV'', ''Width'', ''Min'', ''Max'', ''Nmax'', ''Nzeros'', ''Mode'', ''Mean'',
      ''Median'', ''Variance'', ''Tendency'', ''NSP'']"

definition labels :: "string list" where
  "labels = [''Normal patient'', ''Suspect patient'', ''Pathologic patient'']"

text \<open>
  \<^verbatim>\<open>main()\<close>. The \<^verbatim>\<open>del\<close> statement of line 144 only unbinds names and has no
  counterpart here.
\<close>

definition main :: "env \<Rightarrow> unit io" where
  "main env =
     io_bind (pd_read_excel env ''CTG.xls'' ''Raw Data'' ''G:AN'') (\<lambda>sheet.
     let CTG_data = dropna sheet in
     io_bind (pure (loc_columns CTG_data CTG_columns)) (\<lambda>CTG_data.
     io_bind (train_test_split env CTG_data (2 / 10) None) (\<lambda>(training_set, test_set).
     let X_train = iloc_all_but_last training_set in
     io_bind (pure (iloc_last training_set)) (\<lambda>y_train.
     let X_test = iloc_all_but_last test_set in
     io_bind (pure (iloc_last test_set)) (\<lambda>y_test.
     let scaler = MinMaxScaler_new in
     io_bind (scaler_fit_transform env scaler (rows X_train)) (\<lambda>(scaler, X_train).
     let X_train = astype_float16 env X_train in
     io_bind (scaler_transform env scaler (rows X_test)) (\<lambda>X_test.
     let X_test = astype_float16 env X_test;
         encoder = OneHotEncoder_new in
     io_bind (encoder_fit_transform encoder (reshape_col y_train)) (\<lambda>(encoder, y_train).
     io_bind (encoder_fit_transform encoder (reshape_col y_test)) (\<lambda>(encoder, y_test).
     io_bind (pd_read_csv env ''predicted.csv'') (\<lambda>df.
     let cardiotocographic_data_to_predict = to_numpy df in
     io_bind (scaler_transform env scaler cardiotocographic_data_to_predict)
       (\<lambda>cardiotocographic_data_to_predict.
     let num_categories = length labels in
     io_bind (train_evaluate_save_model env X_train (Array y_train) X_test (Array y_test)
                cardiotocographic_data_to_predict num_categories
                ''cardiotocographic-predictor'' 5)
       (\<lambda>(hist, loss', categorical_accuracy, predictions).
     io_bind (plot_metric_graph env hist ''loss'' ''Epoch-Loss Graph'') (\<lambda>_.
     io_bind (plot_metric_graph env hist ''categorical_accuracy''
                ''Epoch-Categorical Accuracy Graph'') (\<lambda>_.
     io_bind (print [Text ''################################'']) (\<lambda>_.
     io_bind (print [Text ''Model Evaluation Metrics:'']) (\<lambda>_.
     io_bind (print [Text ''loss: '', Num loss', Text [CHR 0x0A], Text ''categorical_accuracy: '',
                     Num (Some categorical_accuracy)]) (\<lambda>_.
     io_bind (print [Text ''################################'']) (\<lambda>_.
     io_bind (pure (np_argmax_axis1 predictions)) (\<lambda>indices.
     io_bind (print_labels labels indices) (\<lambda>_.
     io_bind (open_wb env ''cardiotocographic.pickle'') (\<lambda>f.
     pickle_dump scaler f)))))))))))))))))))))"

text \<open>
  Both files are run as plain programs. The interpreter puts the command line of the
  process into \<^verbatim>\<open>sys.argv\<close>, where the program could read it, and then runs the module
  body (the \<^verbatim>\<open>__main__\<close> guard of the second file calls \<^verbatim>\<open>main()\<close>). What the
  libraries return is held in the other fields of the environment, so it stays the same
  when only the command line varies.
\<close>

definition run_keras_predictor :: "string list \<Rightarrow> env \<Rightarrow> unit io" where
  "run_keras_predictor argv env = keras_predictor (env\<lparr>sys_argv := argv\<rparr>)"

definition run_cardiotocographic_classification :: "string list \<Rightarrow> env \<Rightarrow> unit io" where
  "run_cardiotocographic_classification argv env = main (env\<lparr>sys_argv := argv\<rparr>)"

section \<open>Reading a completed run\<close>

text \<open>The steps of the pipeline, in the order in which the specification lists them.\<close>

datatype phase = Load | Split | Scale_encode | Build | Fit | Evaluate | Predict | Report_save

fun phase_of :: "event \<Rightarrow> phase" where
  "phase_of (E_read_csv _) = Load"
| "phase_of (E_read_excel _ _ _) = Load"
| "phase_of (E_train_test_split _ _) = Split"
| "phase_of (E_scaler_fit_transform _) = Scale_encode"
| "phase_of (E_scaler_transform _) = Scale_encode"
| "phase_of (E_encoder_fit_transform _) = Scale_encode"
| "phase_of (E_Sequential _) = Build"
| "phase_of (E_add _) = Build"
| "phase_of E_summary = Build"
| "phase_of (E_compile _ _ _) = Build"
| "phase_of (E_fit _ _ _ _ _) = Fit"
| "phase_of (E_evaluate _ _) = Evaluate"
| "phase_of (E_predict _) = Predict"
| "phase_of (E_print _) = Report_save"
| "phase_of (E_plt _) = Report_save"
| "phase_of (E_savefig _) = Report_save"
| "phase_of (E_model_save _ _) = Report_save"
| "phase_of (E_open _) = Report_save"
| "phase_of (E_pickle_dump _ _) = Report_save"

definition pipeline :: "phase list" where
  "pipeline = [Load, Split, Scale_encode, Build, Fit, Evaluate, Predict, Report_save]"

text \<open>The phases of a run, with the repetitions of one phase merged.\<close>

definition phases :: "event list \<Rightarrow> phase list" where
  "phases evs = remdups_adj (map phase_of evs)"

text \<open>The files a run writes, by kind.\<close>

definition model_files :: "event list \<Rightarrow> (fitted \<times> string) list" where
  "model_files evs =
     List.map_filter (\<lambda>e. case e of E_model_save m p \<Rightarrow> Some (m, p) | _ \<Rightarrow> None) evs"

definition scaler_files :: "event list \<Rightarrow> (MinMaxScaler \<times> string) list" where
  "scaler_files evs =
     List.map_filter (\<lambda>e. case e of E_pickle_dump s p \<Rightarrow> Some (s, p) | _ \<Rightarrow> None) evs"

definition plot_files :: "event list \<Rightarrow> string list" where
  "plot_files evs = List.map_filter (\<lambda>e. case e of E_savefig p \<Rightarrow> Some p | _ \<Rightarrow> None) evs"

definition files_written :: "event list \<Rightarrow> string list" where
  "files_written evs =
     List.map_filter
       (\<lambda>e. case e of E_model_save m p \<Rightarrow> Some p | E_savefig p \<Rightarrow> Some p
                     | E_pickle_dump s p \<Rightarrow> Some p | _ \<Rightarrow> None) evs"

text \<open>What a run passed to training and to evaluation, and the seeds it passed to the split.\<close>

definition fitted_with :: "event list \<Rightarrow> (matrix \<times> targets) list" where
  "fitted_with evs =
     List.map_filter (\<lambda>e. case e of E_fit X y _ _ _ \<Rightarrow> Some (X, y) | _ \<Rightarrow> None) evs"

definition evaluated_on :: "event list \<Rightarrow> (matrix \<times> targets) list" where
  "evaluated_on evs =
     List.map_filter (\<lambda>e. case e of E_evaluate X y \<Rightarrow> Some (X, y) | _ \<Rightarrow> None) evs"

definition seeds_passed :: "event list \<Rightarrow> nat option list" where
  "seeds_passed evs =
     List.map_filter (\<lambda>e. case e of E_train_test_split _ s \<Rightarrow> Some s | _ \<Rightarrow> None) evs"

text \<open>The log of a run that completed (an aborted run has no result to read).\<close>

definition log_of :: "'a io \<Rightarrow> event list" where
  "log_of r = (case r of Inl e \<Rightarrow> [] | Inr (v, evs) \<Rightarrow> evs)"

definition completes :: "'a io \<Rightarrow> bool" where
  "completes r = (case r of Inl e \<Rightarrow> False | Inr _ \<Rightarrow> True)"

text \<open>
  The column of the set bit in the encoding of label \<open>l\<close> by an encoder fitted on the
  labels \<open>ys\<close>.
\<close>

definition label_column :: "cell list \<Rightarrow> cell \<Rightarrow> nat" where
  "label_column ys l = first_index (\<lambda>b. b = 1) (encode_row [unique_sorted ys] [l])"

text \<open>The numbers a run prints, in order.\<close>

definition printed_numbers :: "event list \<Rightarrow> cell list" where
  "printed_numbers evs =
     concat (map (\<lambda>e. case e of
                         E_print parts \<Rightarrow>
                           List.map_filter (\<lambda>p. case p of Num c \<Rightarrow> Some c | _ \<Rightarrow> None) parts
                       | _ \<Rightarrow> []) evs)"

text \<open>The same machine with one CSV file made unreadable.\<close>

definition unreadable :: "env \<Rightarrow> string \<Rightarrow> exn \<Rightarrow> env" where
  "unreadable env path e = env\<lparr>read_csv_file := (read_csv_file env)(path := Inl e)\<rparr>"

section \<open>An example machine\<close>

text \<open>
  A small concrete environment on which both scripts run to completion: a diabetes
  table of five rows, a CTG sheet of sixteen rows (one of them with a missing cell) and
  the two files to predict. Its scaler is the min-max formula, its float16 rounding is
  exact on the values that occur, and its Keras refuses targets whose width is not the
  width of the output layer.
\<close>

definition example_diabetes_csv :: frame where
  "example_diabetes_csv =
     \<lparr>columns = [''Glucose'', ''BMI'', ''Outcome''],
      rows = [[Some 148, Some 33, Some 1], [Some 85, Some 26, Some 0],
              [Some 183, Some 23, Some 1], [Some 89, Some 28, Some 0],
              [Some 137, Some 43, Some 1]]\<rparr>"

definition example_diabetes_predicted :: frame where
  "example_diabetes_predicted =
     \<lparr>columns = [''Glucose'', ''BMI''], rows = [[Some 120, Some 30], [Some 90, Some 25]]\<rparr>"

definition example_sheet_row :: "nat \<Rightarrow> cell list" where
  "example_sheet_row i =
     Some 0 # Some 0 # replicate 21 (Some (real (i mod 9))) @ [Some (real (i mod 3 + 1))]"

definition example_CTG_xls :: frame where
  "example_CTG_xls =
     \<lparr>columns = ''b'' # ''e'' # CTG_columns,
      rows = map example_sheet_row [0..<7] @ [replicate 24 None]
             @ map example_sheet_row [7..<15]\<rparr>"

definition example_CTG_predicted :: frame where
  "example_CTG_predicted =
     \<lparr>columns = butlast CTG_columns,
      rows = [replicate 21 (Some 4), replicate 21 (Some 2)]\<rparr>"

definition example_minmax :: "matrix \<Rightarrow> matrix \<Rightarrow> exn + matrix" where
  "example_minmax F X =
     (if F = [] \<or> (\<exists>r \<in> set X. length r \<noteq> length (hd F)) then Inl ValueError
      else (let cols = map (List.map_filter (\<lambda>c. c)) (transpose F);
                lo = map (\<lambda>col. fold min col (hd col)) cols;
                hi = map (\<lambda>col. fold max col (hd col)) cols
            in Inr (map (\<lambda>r. map (\<lambda>(c, l, h). map_option
                                (\<lambda>v. (v - l) / (if h - l = 0 then 1 else h - l)) c)
                              (zip r (zip lo hi))) X)))"

definition target_width :: "targets \<Rightarrow> nat" where
  "target_width y = (case y of Series _ \<Rightarrow> 1 | Array a \<Rightarrow> length (hd a))"

definition example_env :: env where
  "example_env =
     \<lparr>sys_argv = [''script.py''],
      os_getcwd = ''/home/user/repo'',
      read_csv_file = (\<lambda>p.
        if p = ''/home/user/repo/02-keras-2L-diabetes-predict/diabetes.csv''
        then Inr example_diabetes_csv
        else if p = ''/home/user/repo/02-keras-2L-diabetes-predict/predicted.csv''
        then Inr example_diabetes_predicted
        else if p = ''predicted.csv'' then Inr example_CTG_predicted
        else Inl FileNotFoundError),
      read_excel_file = (\<lambda>p sheet cols.
        if p = ''CTG.xls'' then Inr example_CTG_xls else Inl FileNotFoundError),
      rng_permutation = (\<lambda>n.
        if n = 15 then [1, 5, 12, 0, 2, 3, 4, 6, 7, 8, 9, 10, 11, 13, 14]
        else if n = 5 then [3, 0, 4, 1, 2] else [0..<n]),
      seeded_permutation = (\<lambda>seed n. rotate seed [0..<n]),
      minmax_values = example_minmax,
      float16 = (\<lambda>x. x),
      keras_train = (\<lambda>m.
        if target_width (fit_y m) \<noteq> output_units (arch m) then Inl ValueError
        else Inr (concat (map (\<lambda>k. [(k, replicate (epochs m) (Some (1 / 2))),
                                      (''val_'' @ k, replicate (epochs m) (Some (1 / 2)))])
                           (''loss'' # metrics (arch m))))),
      keras_loss = (\<lambda>m X y.
        if target_width y \<noteq> output_units (arch m) then Inl ValueError else Inr (Some (1 / 2))),
      keras_forward = (\<lambda>m X. Inr (\<lambda>i j. if j = i mod 3 then Some (8 / 10) else Some (1 / 10))),
      write_error = (\<lambda>p. None)\<rparr>"

text \<open>The same machine with a diabetes table of a single row.\<close>

definition example_env_one_row :: env where
  "example_env_one_row =
     example_env\<lparr>read_csv_file := (\<lambda>p.
       Inr \<lparr>columns = [''Glucose'', ''BMI'', ''Outcome''],
            rows = [[Some 148, Some 33, Some 1]]\<rparr>)\<rparr>"

text \<open>The same machine with a training that ends in other weights.\<close>

definition example_env_retrained :: env where
  "example_env_retrained =
     example_env\<lparr>keras_forward := (\<lambda>m X. Inr (\<lambda>i j. Some (1 / 2)))\<rparr>"

text \<open>The same machine without the CTG workbook, and with a workbook of other columns.\<close>

definition example_env_no_sheet :: env where
  "example_env_no_sheet =
     example_env\<lparr>read_excel_file := (\<lambda>p sheet cols. Inl FileNotFoundError)\<rparr>"

definition example_env_wrong_sheet :: env where
  "example_env_wrong_sheet =
     example_env\<lparr>read_excel_file := (\<lambda>p sheet cols. Inr example_diabetes_csv)\<rparr>"

text \<open>The same machine with a scaler that refuses its input.\<close>

definition example_env_scaler_raises :: env where
  "example_env_scaler_raises = example_env\<lparr>minmax_values := (\<lambda>F X. Inl ValueError)\<rparr>"

text \<open>The same machine with a disk that refuses every write.\<close>

definition example_env_read_only :: env where
  "example_env_read_only = example_env\<lparr>write_error := (\<lambda>p. Some OSError)\<rparr>"

text \<open>The same machine after its global random state has moved on.\<close>

definition example_env_reshuffled :: env where
  "example_env_reshuffled = example_env\<lparr>rng_permutation := (\<lambda>n. [0..<n])\<rparr>"

section \<open>Sequencing and the model builders\<close>

lemma io_bind_Inr_iff:
  "io_bind m f = Inr (b, l) \<longleftrightarrow> (\<exists>a l1 l2. m = Inr (a, l1) \<and> f a = Inr (b, l2) \<and> l = l1 @ l2)"
  by (auto simp: io_bind_def split: sum.splits prod.splits)

lemma io_bind_Inl: "m = Inl e \<Longrightarrow> io_bind m f = Inl e"
  by (simp add: io_bind_def)

lemma call_Inr_iff: "call ev r = Inr (v, l) \<longleftrightarrow> r = Inr v \<and> l = [ev]"
  by (auto simp: call_def split: sum.splits)

lemma pure_Inr_iff: "pure r = Inr (v, l) \<longleftrightarrow> r = Inr v \<and> l = []"
  by (auto simp: pure_def split: sum.splits)

lemma io_return_Inr_iff: "io_return x = Inr (v, l) \<longleftrightarrow> v = x \<and> l = []"
  by (auto simp: io_return_def)

lemma diabetes_model_run:
  "diabetes_model d =
     Inr (\<lparr>model_name = Some ''Pima-Indians-Diabetes-X_test'',
           layers = [Dense 64 relu (Some d) ''hidden-1'', Dense 64 relu None ''hidden-2'',
                     Dense 1 sigmoid None ''output''],
           loss = Some ''binary_crossentropy'', optimizer = Some ''adam'',
           metrics = [''binary_accuracy'']\<rparr>,
          [E_Sequential (Some ''Pima-Indians-Diabetes-X_test''),
           E_add (Dense 64 relu (Some d) ''hidden-1''), E_add (Dense 64 relu None ''hidden-2''),
           E_add (Dense 1 sigmoid None ''output''), E_summary,
           E_compile ''binary_crossentropy'' ''adam'' [''binary_accuracy'']])"
  by (simp add: diabetes_model_def io_bind_def Sequential_def add_def summary_def compile_def call_def)

lemma create_cardiotocographic_model_run:
  "create_cardiotocographic_model d k nm =
     Inr (\<lparr>model_name = nm,
           layers = [Dense 64 relu (Some d) ''Hidden1'', Dense 64 relu None ''Hidden2'',
                     Dense k softmax None ''output''],
           loss = Some ''categorical_crossentropy'', optimizer = Some ''rmsprop'',
           metrics = [''categorical_accuracy'']\<rparr>,
          [E_Sequential nm,
           E_add (Dense 64 relu (Some d) ''Hidden1''), E_add (Dense 64 relu None ''Hidden2''),
           E_add (Dense k softmax None ''output''), E_summary,
           E_compile ''categorical_crossentropy'' ''rmsprop'' [''categorical_accuracy'']])"
  by (simp add: create_cardiotocographic_model_def io_bind_def io_return_def Sequential_def add_def
      summary_def compile_def call_def)

section \<open>The network architecture\<close>

text \<open>
  Claim C2. Every model built by either script has exactly two hidden fully-connected
  layers with 64 units and ReLU activation, followed by one output layer and nothing
  else: one sigmoid unit in the diabetes script, \<open>num_categories\<close> softmax units in the
  cardiotocographic script.
\<close>

theorem two_hidden_layers_then_output:
  "(\<exists>model evs. diabetes_model d = Inr (model, evs) \<and>
       map (\<lambda>l. (units l, activation l)) (layers model) = [(64, relu), (64, relu), (1, sigmoid)]) \<and>
   (\<exists>model evs. create_cardiotocographic_model d num_categories nm = Inr (model, evs) \<and>
       map (\<lambda>l. (units l, activation l)) (layers model)
         = [(64, relu), (64, relu), (num_categories, softmax)])"
  by (simp add: diabetes_model_run create_cardiotocographic_model_run Dense_def)

section \<open>The command line\<close>

text \<open>
  No function of either script reads \<^verbatim>\<open>sys.argv\<close>: whatever the scripts take from the
  machine (the working directory, the files, the random permutation, the library results),
  they take from the other fields of the environment. Each function that is passed the
  environment therefore returns the same for two environments that differ only in the
  command line.
\<close>

lemma pd_read_csv_argv: "pd_read_csv (env\<lparr>sys_argv := argv\<rparr>) = pd_read_csv env"
  by (simp add: pd_read_csv_def fun_eq_iff)

lemma pd_read_excel_argv: "pd_read_excel (env\<lparr>sys_argv := argv\<rparr>) = pd_read_excel env"
  by (simp add: pd_read_excel_def fun_eq_iff)

lemma train_test_split_argv: "train_test_split (env\<lparr>sys_argv := argv\<rparr>) = train_test_split env"
  by (simp add: train_test_split_def shuffle_split_def fun_eq_iff Let_def
      cong: prod.case_cong option.case_cong if_cong)

lemma fit_argv: "fit (env\<lparr>sys_argv := argv\<rparr>) = fit env"
  by (simp add: fit_def training_def fun_eq_iff Let_def)

lemma forward_argv: "forward (env\<lparr>sys_argv := argv\<rparr>) = forward env"
  by (simp add: forward_def fun_eq_iff)

lemma predict_argv: "predict (env\<lparr>sys_argv := argv\<rparr>) = predict env"
  by (simp add: predict_def forward_argv fun_eq_iff)

lemma evaluate_argv: "evaluate (env\<lparr>sys_argv := argv\<rparr>) = evaluate env"
proof -
  have "keras_loss (env\<lparr>sys_argv := argv\<rparr>) = keras_loss env" by simp
  then have "test_scores (env\<lparr>sys_argv := argv\<rparr>) = test_scores env"
    by (simp add: test_scores_def forward_argv fun_eq_iff cong: sum.case_cong if_cong)
  then show ?thesis by (simp add: evaluate_def fun_eq_iff)
qed

lemma write_file_argv: "write_file (env\<lparr>sys_argv := argv\<rparr>) = write_file env"
  by (simp add: write_file_def fun_eq_iff)

lemma save_argv: "save (env\<lparr>sys_argv := argv\<rparr>) = save env"
  by (simp add: save_def write_file_argv fun_eq_iff)

lemma savefig_argv: "savefig (env\<lparr>sys_argv := argv\<rparr>) = savefig env"
  by (simp add: savefig_def write_file_argv fun_eq_iff)

lemma open_wb_argv: "open_wb (env\<lparr>sys_argv := argv\<rparr>) = open_wb env"
  by (simp add: open_wb_def write_file_argv fun_eq_iff)

lemma scaler_argv:
  "scaler_fit_transform (env\<lparr>sys_argv := argv\<rparr>) = scaler_fit_transform env"
  "scaler_transform (env\<lparr>sys_argv := argv\<rparr>) = scaler_transform env"
  "astype_float16 (env\<lparr>sys_argv := argv\<rparr>) = astype_float16 env"
  by (simp_all add: scaler_fit_transform_def scaler_transform_def minmax_fit_transform_def
      minmax_transform_def astype_float16_def fun_eq_iff cong: option.case_cong sum.case_cong)

lemmas argv_unread = pd_read_csv_argv pd_read_excel_argv train_test_split_argv fit_argv
  predict_argv evaluate_argv save_argv savefig_argv open_wb_argv scaler_argv

lemma train_evaluate_save_model_argv:
  "train_evaluate_save_model (env\<lparr>sys_argv := argv\<rparr>) = train_evaluate_save_model env"
  by (simp add: train_evaluate_save_model_def argv_unread fun_eq_iff)

lemma plot_metric_graph_argv:
  "plot_metric_graph (env\<lparr>sys_argv := argv\<rparr>) = plot_metric_graph env"
  by (simp add: plot_metric_graph_def argv_unread fun_eq_iff)

lemma keras_predictor_argv: "keras_predictor (env\<lparr>sys_argv := argv\<rparr>) = keras_predictor env"
  by (simp add: keras_predictor_def argv_unread)

lemma main_argv: "main (env\<lparr>sys_argv := argv\<rparr>) = main env"
  by (simp add: main_def argv_unread train_evaluate_save_model_argv plot_metric_graph_argv)

text \<open>
  Claim C6. Neither script parses arguments: two invocations of the same script on the
  same machine (the same files, working directory, random state and library results) that
  differ only in their command line return the same result, raise the same exception, and
  log the same events (the console output and the files written).
\<close>

theorem command_line_ignored:
  "run_keras_predictor argv1 env = run_keras_predictor argv2 env \<and>
   run_cardiotocographic_classification argv1 env
     = run_cardiotocographic_classification argv2 env"
  by (simp add: run_keras_predictor_def run_cardiotocographic_classification_def
      keras_predictor_argv main_argv)

theorem command_line_ignored_witness:
  "run_keras_predictor [''keras-predictor.py'', ''--seed'', ''1''] example_env
     = run_keras_predictor [''keras-predictor.py''] example_env \<and>
   run_cardiotocographic_classification [''cardiotocographic-classification.py'', ''--epochs'', ''9'']
       example_env
     = run_cardiotocographic_classification [''cardiotocographic-classification.py''] example_env \<and>
   completes (run_keras_predictor [''keras-predictor.py'', ''--seed'', ''1''] example_env) \<and>
   completes (run_cardiotocographic_classification
                [''cardiotocographic-classification.py'', ''--epochs'', ''9''] example_env)"
proof -
  have "completes (run_keras_predictor [''keras-predictor.py'', ''--seed'', ''1''] example_env)"
    by code_simp
  moreover have "completes (run_cardiotocographic_classification
                [''cardiotocographic-classification.py'', ''--epochs'', ''9''] example_env)"
    by code_simp
  ultimately show ?thesis
    using command_line_ignored
      [of "[''keras-predictor.py'', ''--seed'', ''1'']" example_env "[''keras-predictor.py'']"]
      command_line_ignored
      [of "[''cardiotocographic-classification.py'', ''--epochs'', ''9'']" example_env
          "[''cardiotocographic-classification.py'']"]
    by simp
qed

section \<open>One-hot encoding\<close>

lemma set_unique_sorted: "set (unique_sorted ys) = set ys"
proof -
  have "Some ` set (List.map_filter (\<lambda>c. c) ys) = set ys - {None}"
    by (auto simp: List.map_filter_def image_iff)
  then show ?thesis by (auto simp: unique_sorted_def)
qed

lemma distinct_unique_sorted: "distinct (unique_sorted ys)"
  by (auto simp: unique_sorted_def distinct_map)

lemma sum_indicator:
  "distinct xs \<Longrightarrow> sum_list (map (\<lambda>k. if y = k then (1::nat) else 0) xs) = (if y \<in> set xs then 1 else 0)"
  by (induction xs) auto

lemma column_heads: "concat (map (case_list [] (\<lambda>h t. [h]) \<circ> (\<lambda>y. [y])) ys) = ys"
  by (induction ys) auto

lemma column_tails:
  "concat (map (case_list [] (\<lambda>h t. [t]) \<circ> (\<lambda>y. [y])) ys) = replicate (length ys) []"
  by (induction ys) auto

lemma transpose_empty_rows: "transpose (replicate n []) = []"
  by (induction n) auto

lemma transpose_column: "ys \<noteq> [] \<Longrightarrow> transpose (map (\<lambda>y. [y]) ys) = [ys]"
  by (cases ys) (simp_all add: column_heads column_tails transpose_empty_rows)

lemma encode_single: "encode_row [cats] [y] = map (\<lambda>k. if y = k then 1 else 0) cats"
  by (simp add: encode_row_def)

lemma encoder_fit_transform_column:
  assumes "encoder_fit_transform encoder (reshape_col ys) = Inr ((encoder', Y), evs)"
  shows "ys \<noteq> []" and "categories encoder' = Some [unique_sorted ys]"
    and "Y = map (\<lambda>y. map (\<lambda>k. if y = k then 1 else 0) (unique_sorted ys)) ys"
  using assms
  by (auto simp: encoder_fit_transform_def one_hot_fit_transform_def reshape_col_def call_Inr_iff
      Let_def transpose_column encode_single comp_def split: if_splits)

lemma one_hot_row_eq_iff:
  assumes "y \<in> set cats"
  shows "map (\<lambda>k. if y = k then (1::nat) else 0) cats = map (\<lambda>k. if y' = k then 1 else 0) cats
           \<longleftrightarrow> y = y'"
proof
  assume "map (\<lambda>k. if y = k then (1::nat) else 0) cats = map (\<lambda>k. if y' = k then 1 else 0) cats"
  then have "\<forall>k \<in> set cats. (if y = k then (1::nat) else 0) = (if y' = k then 1 else 0)"
    by (simp only: map_eq_conv)
  with assms have "(if y = y then (1::nat) else 0) = (if y' = y then 1 else 0)" by blast
  then show "y = y'" by (simp split: if_splits)
next
  assume "y = y'"
  then show "map (\<lambda>k. if y = k then (1::nat) else 0) cats = map (\<lambda>k. if y' = k then 1 else 0) cats"
    by simp
qed

text \<open>
  Claim C7. One-hot encoding in the cardiotocographic script (lines 128 and 129, for
  \<open>y_train\<close> and for \<open>y_test\<close> alike) returns one row for each label, in the order of the
  labels. Every row is a binary vector with exactly one set bit: each entry is 0 or 1 and
  the entries sum to 1. A row has one entry for each distinct label, and two rows are
  equal exactly when their labels are.
\<close>

theorem one_hot_rows:
  assumes "encoder_fit_transform encoder (reshape_col ys) = Inr ((encoder', Y), evs)"
  shows "length Y = length ys \<and>
         (\<forall>row \<in> set Y. (\<forall>b \<in> set row. b = 0 \<or> b = 1) \<and> sum_list row = 1) \<and>
         (\<forall>row \<in> set Y. length row = card (set ys)) \<and>
         (\<forall>i < length ys. \<forall>j < length ys. Y ! i = Y ! j \<longleftrightarrow> ys ! i = ys ! j)"
proof -
  note Y = encoder_fit_transform_column(3) [OF assms]
  have len: "length Y = length ys" by (simp add: Y)
  have rows: "(\<forall>b \<in> set row. b = 0 \<or> b = 1) \<and> sum_list row = 1 \<and> length row = card (set ys)"
    if "row \<in> set Y" for row
  proof -
    from that obtain y where y: "y \<in> set ys"
      and row: "row = map (\<lambda>k. if y = k then 1 else 0) (unique_sorted ys)"
      unfolding Y by auto
    have "sum_list row = 1"
      using y by (simp add: row sum_indicator distinct_unique_sorted set_unique_sorted)
    moreover have "\<forall>b \<in> set row. b = 0 \<or> b = 1" by (auto simp: row)
    moreover have "length row = card (set ys)"
    proof -
      have "length row = length (unique_sorted ys)" by (simp add: row)
      also have "\<dots> = card (set (unique_sorted ys))"
        by (simp add: distinct_card distinct_unique_sorted)
      finally show ?thesis by (simp add: set_unique_sorted)
    qed
    ultimately show ?thesis by simp
  qed
  have inj: "Y ! i = Y ! j \<longleftrightarrow> ys ! i = ys ! j" if "i < length ys" and "j < length ys" for i j
  proof -
    have "ys ! i \<in> set (unique_sorted ys)" using that by (simp add: set_unique_sorted)
    from one_hot_row_eq_iff [OF this, of "ys ! j"] that
    show ?thesis by (simp add: Y)
  qed
  from len rows inj show ?thesis by blast
qed

theorem one_hot_rows_witness:
  "encoder_fit_transform OneHotEncoder_new (reshape_col [Some 2, Some 1, Some 3, Some 2])
     = Inr ((\<lparr>categories = Some [[Some 1, Some 2, Some 3]]\<rparr>,
             [[0, 1, 0], [1, 0, 0], [0, 0, 1], [0, 1, 0]]),
            [E_encoder_fit_transform [[Some 2], [Some 1], [Some 3], [Some 2]]])
   \<and> length [[0, 1, 0], [1, 0, 0], [0, 0, 1], [0::nat, 1, 0]]
       = length [Some 2, Some 1, Some 3, Some (2::real)]
   \<and> list_all (\<lambda>row. list_all (\<lambda>b. b = 0 \<or> b = 1) row \<and> sum_list row = 1)
         [[0, 1, 0], [1, 0, 0], [0, 0, 1], [0::nat, 1, 0]]
   \<and> list_all (\<lambda>row. length row = card (set [Some 2, Some 1, Some 3, Some (2::real)]))
         [[0, 1, 0], [1, 0, 0], [0, 0, 1], [0::nat, 1, 0]]"
proof -
  have run: "encoder_fit_transform OneHotEncoder_new (reshape_col [Some 2, Some 1, Some 3, Some 2])
     = Inr ((\<lparr>categories = Some [[Some 1, Some 2, Some 3]]\<rparr>,
             [[0, 1, 0], [1, 0, 0], [0, 0, 1], [0, 1, 0]]),
            [E_encoder_fit_transform [[Some 2], [Some 1], [Some 3], [Some 2]]])"
    by code_simp
  from one_hot_rows [OF run]
  have "length [[0, 1, 0], [1, 0, 0], [0, 0, 1], [0::nat, 1, 0]]
          = length [Some 2, Some 1, Some 3, Some (2::real)]"
    and "\<forall>row \<in> set [[0, 1, 0], [1, 0, 0], [0, 0, 1], [0::nat, 1, 0]].
           (\<forall>b \<in> set row. b = 0 \<or> b = 1) \<and> sum_list row = 1"
    and "\<forall>row \<in> set [[0, 1, 0], [1, 0, 0], [0, 0, 1], [0::nat, 1, 0]].
           length row = card (set [Some 2, Some 1, Some 3, Some (2::real)])"
    by blast+
  with run show ?thesis unfolding list_all_iff by (intro conjI)
qed

section \<open>Printing the predicted labels\<close>

lemma argmax_from_less:
  "best_i < i \<Longrightarrow> argmax_from best_i best_v i xs < i + length xs"
proof (induction xs arbitrary: best_i best_v i)
  case Nil
  then show ?case by simp
next
  case (Cons a xs)
  show ?case
  proof (cases a)
    case None
    then show ?thesis by simp
  next
    case (Some v)
    have "argmax_from i v (Suc i) xs < Suc i + length xs"
      by (rule Cons.IH) simp
    moreover have "argmax_from best_i best_v (Suc i) xs < Suc i + length xs"
      by (rule Cons.IH) (use Cons.prems in simp)
    ultimately show ?thesis using Some by simp
  qed
qed

lemma argmax_row_less: "xs \<noteq> [] \<Longrightarrow> argmax_row xs < length xs"
proof (cases xs)
  case Nil
  assume "xs \<noteq> []"
  with Nil show ?thesis by simp
next
  case (Cons a ys)
  show ?thesis
  proof (cases a)
    case None
    with Cons show ?thesis by simp
  next
    case (Some v)
    have "argmax_from 0 v 1 ys < 1 + length ys"
      by (rule argmax_from_less) simp
    with Cons Some show ?thesis by simp
  qed
qed

lemma forward_rows:
  "forward env m X = Inr P \<Longrightarrow>
     length P = length X \<and> (\<forall>r \<in> set P. length r = output_units (arch m))"
  by (auto simp: forward_def split: sum.splits)

lemma print_labels_in_range:
  "\<forall>i \<in> set indices. i < length ls \<Longrightarrow>
     print_labels ls indices = Inr ((), map (\<lambda>i. E_print [Text (ls ! i)]) indices)"
  by (induction indices) (simp_all add: io_return_def io_bind_def pure_def py_index_def print_def call_def)

lemma train_evaluate_save_model_run:
  assumes "train_evaluate_save_model env X_train y_train X_test y_test X_to_predict k nm ep
             = Inr ((hist, l, acc, predictions), evs)"
  shows "\<exists>model evs0 m.
     create_cardiotocographic_model (np_shape1 X_train) k (Some ''cardiotocographic-predictor'')
        = Inr (model, evs0) \<and>
     m = \<lparr>arch = model, fit_X = X_train, fit_y = y_train, epochs = ep, batch_size = None,
          validation_split = 2 / 10\<rparr> \<and>
     keras_train env m = Inr hist \<and>
     X_test \<noteq> [] \<and> keras_loss env m X_test y_test = Inr l \<and>
     (\<exists>P. forward env m X_test = Inr P \<and> acc = accuracy (metrics model) (as_tensor y_test) P) \<and>
     forward env m X_to_predict = Inr predictions \<and>
     write_error env (nm @ ''.h5'') = None \<and>
     evs = evs0 @ [E_fit X_train y_train ep None (2 / 10), E_evaluate X_test y_test,
                   E_predict X_to_predict, E_model_save m (nm @ ''.h5'')]"
  using assms
  by (auto simp: train_evaluate_save_model_def io_bind_Inr_iff call_Inr_iff io_return_Inr_iff
        fit_def training_def evaluate_def test_scores_def predict_def save_def write_file_def
        Let_def create_cardiotocographic_model_run
      split: sum.splits if_splits option.splits)

lemma length_labels: "length labels = 3"
  by (simp add: labels_def)

text \<open>
  Claim C9. In the cardiotocographic script the model is built with
  \<open>num_categories = len(labels) = 3\<close> output units, so for every row of the prediction the
  index computed by argmax lies in \<open>{0, 1, 2}\<close> and indexing the three labels never goes
  out of bounds: the printing loop of lines 157 and 158 prints one label per row.
\<close>

theorem label_index_in_range:
  assumes "train_evaluate_save_model env X_train y_train X_test y_test X_to_predict
             (length labels) nm ep = Inr ((hist, l, acc, predictions), evs)"
  shows "\<exists>indices. np_argmax_axis1 predictions = Inr indices \<and>
           length indices = length X_to_predict \<and>
           (\<forall>i \<in> set indices. i \<in> {0, 1, 2} \<and> py_index labels i = Inr (labels ! i)) \<and>
           print_labels labels indices = Inr ((), map (\<lambda>i. E_print [Text (labels ! i)]) indices)"
proof -
  from train_evaluate_save_model_run [OF assms]
  obtain model evs0 m where
    model: "create_cardiotocographic_model (np_shape1 X_train) (length labels)
              (Some ''cardiotocographic-predictor'') = Inr (model, evs0)" and
    arch: "m = \<lparr>arch = model, fit_X = X_train, fit_y = y_train, epochs = ep, batch_size = None,
          validation_split = 2 / 10\<rparr>" and
    P: "forward env m X_to_predict = Inr predictions"
    by blast
  have "layers (arch m) = [Dense 64 relu (Some (np_shape1 X_train)) ''Hidden1'',
          Dense 64 relu None ''Hidden2'', Dense (length labels) softmax None ''output'']"
    using model by (auto simp: arch create_cardiotocographic_model_run)
  then have m: "output_units (arch m) = 3"
    by (simp add: output_units_def Dense_def labels_def)
  from forward_rows [OF P] m
  have len: "length predictions = length X_to_predict" and rows3: "\<forall>r \<in> set predictions. length r = 3"
    by auto
  then have ne: "\<forall>r \<in> set predictions. r \<noteq> []" by auto
  have idx: "np_argmax_axis1 predictions = Inr (map argmax_row predictions)"
    using ne by (auto simp: np_argmax_axis1_def)
  have bound: "\<forall>i \<in> set (map argmax_row predictions). i < 3"
    using rows3 ne argmax_row_less by fastforce
  have in3: "\<forall>i \<in> set (map argmax_row predictions). i \<in> {0, 1, 2}"
    using bound by (auto simp: numeral_3_eq_3 less_Suc_eq)
  have inl: "\<forall>i \<in> set (map argmax_row predictions). i < length labels"
    using bound by (simp add: length_labels)
  have "\<forall>i \<in> set (map argmax_row predictions). py_index labels i = Inr (labels ! i)"
    using inl by (simp add: py_index_def)
  with idx len in3 print_labels_in_range [OF inl] show ?thesis
    by simp
qed

theorem label_index_in_range_witness:
  "train_evaluate_save_model example_env [[Some 0], [Some (1 / 2)], [Some 1]]
       (Array [[1, 0, 0], [0, 1, 0], [0, 0, 1]]) [[Some (1 / 4)]] (Array [[0, 1, 0]])
       [[Some (1 / 2)], [Some (3 / 4)]] (length labels) ''cardiotocographic-predictor'' 5
     = Inr (([(''loss'', replicate 5 (Some (1 / 2))), (''val_loss'', replicate 5 (Some (1 / 2))),
              (''categorical_accuracy'', replicate 5 (Some (1 / 2))),
              (''val_categorical_accuracy'', replicate 5 (Some (1 / 2)))],
             Some (1 / 2), 0,
             [[Some (8 / 10), Some (1 / 10), Some (1 / 10)],
              [Some (1 / 10), Some (8 / 10), Some (1 / 10)]]),
            [E_Sequential (Some ''cardiotocographic-predictor''),
             E_add (Dense 64 relu (Some 1) ''Hidden1''), E_add (Dense 64 relu None ''Hidden2''),
             E_add (Dense 3 softmax None ''output''), E_summary,
             E_compile ''categorical_crossentropy'' ''rmsprop'' [''categorical_accuracy''],
             E_fit [[Some 0], [Some (1 / 2)], [Some 1]] (Array [[1, 0, 0], [0, 1, 0], [0, 0, 1]])
               5 None (2 / 10),
             E_evaluate [[Some (1 / 4)]] (Array [[0, 1, 0]]),
             E_predict [[Some (1 / 2)], [Some (3 / 4)]],
             E_model_save
               \<lparr>arch = \<lparr>model_name = Some ''cardiotocographic-predictor'',
                         layers = [Dense 64 relu (Some 1) ''Hidden1'', Dense 64 relu None ''Hidden2'',
                                   Dense 3 softmax None ''output''],
                         loss = Some ''categorical_crossentropy'', optimizer = Some ''rmsprop'',
                         metrics = [''categorical_accuracy'']\<rparr>,
                fit_X = [[Some 0], [Some (1 / 2)], [Some 1]],
                fit_y = Array [[1, 0, 0], [0, 1, 0], [0, 0, 1]], epochs = 5, batch_size = None,
                validation_split = 2 / 10\<rparr>
               ''cardiotocographic-predictor.h5''])
   \<and> np_argmax_axis1 [[Some (8 / 10), Some (1 / 10), Some (1 / 10)],
                       [Some (1 / 10), Some (8 / 10), Some (1 / 10)]] = Inr [0, 1]
   \<and> print_labels labels [0, 1]
       = Inr ((), [E_print [Text ''Normal patient''], E_print [Text ''Suspect patient'']])"
proof -
  have run: "train_evaluate_save_model example_env [[Some 0], [Some (1 / 2)], [Some 1]]
       (Array [[1, 0, 0], [0, 1, 0], [0, 0, 1]]) [[Some (1 / 4)]] (Array [[0, 1, 0]])
       [[Some (1 / 2)], [Some (3 / 4)]] (length labels) ''cardiotocographic-predictor'' 5
     = Inr (([(''loss'', replicate 5 (Some (1 / 2))), (''val_loss'', replicate 5 (Some (1 / 2))),
              (''categorical_accuracy'', replicate 5 (Some (1 / 2))),
              (''val_categorical_accuracy'', replicate 5 (Some (1 / 2)))],
             Some (1 / 2), 0,
             [[Some (8 / 10), Some (1 / 10), Some (1 / 10)],
              [Some (1 / 10), Some (8 / 10), Some (1 / 10)]]),
            [E_Sequential (Some ''cardiotocographic-predictor''),
             E_add (Dense 64 relu (Some 1) ''Hidden1''), E_add (Dense 64 relu None ''Hidden2''),
             E_add (Dense 3 softmax None ''output''), E_summary,
             E_compile ''categorical_crossentropy'' ''rmsprop'' [''categorical_accuracy''],
             E_fit [[Some 0], [Some (1 / 2)], [Some 1]] (Array [[1, 0, 0], [0, 1, 0], [0, 0, 1]])
               5 None (2 / 10),
             E_evaluate [[Some (1 / 4)]] (Array [[0, 1, 0]]),
             E_predict [[Some (1 / 2)], [Some (3 / 4)]],
             E_model_save
               \<lparr>arch = \<lparr>model_name = Some ''cardiotocographic-predictor'',
                         layers = [Dense 64 relu (Some 1) ''Hidden1'', Dense 64 relu None ''Hidden2'',
                                   Dense 3 softmax None ''output''],
                         loss = Some ''categorical_crossentropy'', optimizer = Some ''rmsprop'',
                         metrics = [''categorical_accuracy'']\<rparr>,
                fit_X = [[Some 0], [Some (1 / 2)], [Some 1]],
                fit_y = Array [[1, 0, 0], [0, 1, 0], [0, 0, 1]], epochs = 5, batch_size = None,
                validation_split = 2 / 10\<rparr>
               ''cardiotocographic-predictor.h5''])"
    by code_simp
  have idx: "np_argmax_axis1 [[Some (8 / 10), Some (1 / 10), Some (1 / 10)],
                       [Some (1 / 10), Some (8 / 10), Some (1 / 10)]] = Inr [0, 1]"
    by code_simp
  from label_index_in_range [OF run] idx
  have "print_labels labels [0, 1] = Inr ((), map (\<lambda>i. E_print [Text (labels ! i)]) [0, 1])"
    by auto
  then have "print_labels labels [0, 1]
       = Inr ((), [E_print [Text ''Normal patient''], E_print [Text ''Suspect patient'']])"
    by (simp add: labels_def)
  with run idx show ?thesis by blast
qed

section \<open>Completed runs of the two scripts\<close>

text \<open>
  A run that completes went through every call of the script in order. The lemmas below
  list, for each script, what every call returned and the events it logged.
\<close>

lemma io_bindE:
  assumes "io_bind m f = Inr (b, l)"
  obtains a l1 l2 where "m = Inr (a, l1)" "f a = Inr (b, l2)" "l = l1 @ l2"
  using assms by (auto simp: io_bind_Inr_iff)

lemma io_bind_pairE:
  assumes "io_bind m (case_prod f) = Inr (b, l)"
  obtains a1 a2 l1 l2 where "m = Inr ((a1, a2), l1)" "f a1 a2 = Inr (b, l2)" "l = l1 @ l2"
  using assms by (auto simp: io_bind_Inr_iff)

lemma case_prodE_eq:
  assumes "case_prod f p = r"
  obtains a b where "p = (a, b)" "f a b = r"
  using assms by (cases p) auto

lemmas io_defs = pd_read_csv_def pd_read_excel_def train_test_split_def fit_def evaluate_def
  predict_def save_def savefig_def scaler_fit_transform_def scaler_transform_def
  encoder_fit_transform_def print_def plt_def pickle_dump_def

lemma accuracy_bounds: "0 \<le> accuracy ms Y P \<and> accuracy ms Y P \<le> 1"
proof -
  have "length (filter (\<lambda>(t, p). metric_hit ms t p) (zip Y P)) \<le> length (zip Y P)"
    by (rule length_filter_le)
  also have "\<dots> \<le> length P" by simp
  finally have le: "length (filter (\<lambda>(t, p). metric_hit ms t p) (zip Y P)) \<le> length P" .
  show ?thesis
  proof (cases "P = []")
    case True
    then show ?thesis by (simp add: accuracy_def)
  next
    case False
    then have "0 < real (length P)" by simp
    with le show ?thesis by (simp add: accuracy_def)
  qed
qed

lemma test_scores_bounds:
  "test_scores env m X y = Inr (l, acc) \<Longrightarrow> X \<noteq> [] \<and> 0 \<le> acc \<and> acc \<le> 1"
  by (auto simp: test_scores_def accuracy_bounds split: if_splits sum.splits)

lemma print_predictions_run:
  "print_predictions P = Inr (u, evs) \<Longrightarrow>
     \<exists>ss. evs = map (\<lambda>s. E_print [Text s]) ss \<and> length ss = length P"
proof (induction P arbitrary: evs)
  case Nil
  then show ?case by (simp add: io_return_def)
next
  case (Cons r P)
  from Cons.prems obtain s evs' where
    evs: "evs = E_print [Text s] # evs'"
    and rest: "print_predictions P = Inr (u, evs')"
    by (auto simp: io_bind_Inr_iff pure_Inr_iff print_def call_Inr_iff)
  from Cons.IH [OF rest] obtain ss where "evs' = map (\<lambda>s. E_print [Text s]) ss" "length ss = length P"
    by blast
  then have "evs = map (\<lambda>s. E_print [Text s]) (s # ss) \<and> length (s # ss) = length (r # P)"
    using evs by simp
  then show ?case by blast
qed

lemma print_labels_run:
  "print_labels ls indices = Inr (u, evs) \<Longrightarrow>
     \<exists>ss. evs = map (\<lambda>s. E_print [Text s]) ss \<and> length ss = length indices"
proof (induction indices arbitrary: evs)
  case Nil
  then show ?case by (simp add: io_return_def)
next
  case (Cons i indices)
  from Cons.prems obtain s evs' where
    evs: "evs = E_print [Text s] # evs'"
    and rest: "print_labels ls indices = Inr (u, evs')"
    by (auto simp: io_bind_Inr_iff pure_Inr_iff print_def call_Inr_iff)
  from Cons.IH [OF rest] obtain ss where "evs' = map (\<lambda>s. E_print [Text s]) ss" "length ss = length indices"
    by blast
  then have "evs = map (\<lambda>s. E_print [Text s]) (s # ss) \<and> length (s # ss) = length (i # indices)"
    using evs by simp
  then show ?case by blast
qed

lemma open_wb_Inr_iff:
  "open_wb env path = Inr (f, l) \<longleftrightarrow> write_file env path = Inr () \<and> f = path \<and> l = [E_open path]"
  by (auto simp: open_wb_def call_Inr_iff split: sum.splits)

lemma plot_metric_graph_run:
  assumes "plot_metric_graph env hist metric title = Inr (u, evs)"
  shows "evs = [E_plt ''figure'', E_plt ''plot'', E_plt ''plot'', E_plt ''title'', E_plt ''xlabel'',
                E_plt ''ylabel'', E_plt ''grid'', E_plt ''legend'', E_savefig (title @ ''.jpg''),
                E_plt ''show'']"
  using assms unfolding plot_metric_graph_def
  apply (elim io_bindE)
  apply (simp add: io_defs call_Inr_iff pure_Inr_iff)
  done

lemma keras_predictor_run:
  assumes "keras_predictor env = Inr ((), evs)"
  shows "\<exists>d train_dataset test_set y_train y_test model build hist m score df predictions ss.
    read_csv_file env (os_path_join (os_getcwd env) ''02-keras-2L-diabetes-predict/diabetes.csv'') = Inr d \<and>
    shuffle_split env d (1 - DIVIDE_RATIO) None = Inr (train_dataset, test_set) \<and>
    iloc_last train_dataset = Inr y_train \<and>
    iloc_last test_set = Inr y_test \<and>
    diabetes_model (shape1 (iloc_all_but_last train_dataset)) = Inr (model, build) \<and>
    training env model (rows (iloc_all_but_last train_dataset)) (Series y_train) 100 (Some 32) (2 / 10)
      = Inr (hist, m) \<and>
    test_scores env m (rows (iloc_all_but_last test_set)) (Series y_test) = Inr score \<and>
    read_csv_file env (os_path_join (os_getcwd env) ''02-keras-2L-diabetes-predict/predicted.csv'') = Inr df \<and>
    forward env m (to_numpy df) = Inr predictions \<and>
    length ss = length predictions \<and>
    evs = [E_read_csv (os_path_join (os_getcwd env) ''02-keras-2L-diabetes-predict/diabetes.csv''),
           E_train_test_split (1 - DIVIDE_RATIO) None]
          @ build
          @ [E_fit (rows (iloc_all_but_last train_dataset)) (Series y_train) 100 (Some 32) (2 / 10),
             E_evaluate (rows (iloc_all_but_last test_set)) (Series y_test),
             E_print [Text ''Test accuracy:'', Num (Some (snd score))],
             E_read_csv (os_path_join (os_getcwd env) ''02-keras-2L-diabetes-predict/predicted.csv''),
             E_predict (to_numpy df)] @ map (\<lambda>s. E_print [Text s]) ss"
  using assms unfolding keras_predictor_def Let_def
  apply (elim io_bind_pairE io_bindE)
  apply (drule print_predictions_run)
  apply (clarsimp simp add: io_defs call_Inr_iff pure_Inr_iff)
  apply blast
  done

lemma main_run:
  assumes "main env = Inr ((), evs)"
  shows "\<exists>sheet CTG_data training_set test_set y_train y_test scaler X_train X_test
           encoder y_train' encoder' y_test' df to_predict hist l acc predictions tevs pevs pevs'
           indices ss.
    read_excel_file env ''CTG.xls'' ''Raw Data'' ''G:AN'' = Inr sheet \<and>
    loc_columns (dropna sheet) CTG_columns = Inr CTG_data \<and>
    shuffle_split env CTG_data (2 / 10) None = Inr (training_set, test_set) \<and>
    iloc_last training_set = Inr y_train \<and>
    iloc_last test_set = Inr y_test \<and>
    minmax_fit_transform env MinMaxScaler_new (rows (iloc_all_but_last training_set))
      = Inr (scaler, X_train) \<and>
    minmax_transform env scaler (rows (iloc_all_but_last test_set)) = Inr X_test \<and>
    one_hot_fit_transform OneHotEncoder_new (reshape_col y_train) = Inr (encoder, y_train') \<and>
    one_hot_fit_transform encoder (reshape_col y_test) = Inr (encoder', y_test') \<and>
    read_csv_file env ''predicted.csv'' = Inr df \<and>
    minmax_transform env scaler (to_numpy df) = Inr to_predict \<and>
    train_evaluate_save_model env (astype_float16 env X_train) (Array y_train')
        (astype_float16 env X_test) (Array y_test') to_predict (length labels)
        ''cardiotocographic-predictor'' 5
      = Inr ((hist, l, acc, predictions), tevs) \<and>
    plot_metric_graph env hist ''loss'' ''Epoch-Loss Graph'' = Inr ((), pevs) \<and>
    plot_metric_graph env hist ''categorical_accuracy'' ''Epoch-Categorical Accuracy Graph''
      = Inr ((), pevs') \<and>
    np_argmax_axis1 predictions = Inr indices \<and>
    length ss = length indices \<and>
    write_file env ''cardiotocographic.pickle'' = Inr () \<and>
    evs = [E_read_excel ''CTG.xls'' ''Raw Data'' ''G:AN'',
           E_train_test_split (2 / 10) None,
           E_scaler_fit_transform (rows (iloc_all_but_last training_set)),
           E_scaler_transform (rows (iloc_all_but_last test_set)),
           E_encoder_fit_transform (reshape_col y_train),
           E_encoder_fit_transform (reshape_col y_test),
           E_read_csv ''predicted.csv'',
           E_scaler_transform (to_numpy df)]
          @ tevs @ pevs @ pevs'
          @ [E_print [Text ''################################''],
             E_print [Text ''Model Evaluation Metrics:''],
             E_print [Text ''loss: '', Num l, Text [CHR 0x0A], Text ''categorical_accuracy: '',
                      Num (Some acc)],
             E_print [Text ''################################'']]
          @ map (\<lambda>s. E_print [Text s]) ss
          @ [E_open ''cardiotocographic.pickle'',
             E_pickle_dump scaler ''cardiotocographic.pickle'']"
  apply (insert assms)
  apply (unfold main_def Let_def)
  apply ((erule io_bind_pairE | erule io_bindE | erule case_prodE_eq)+)
  apply (drule print_labels_run)
  apply (simp only: io_defs call_Inr_iff pure_Inr_iff open_wb_Inr_iff)
  apply (elim exE conjE)
  apply hypsubst
  apply (simp only: append_Cons append_Nil prod.inject sum.inject)
  apply (intro exI conjI)
  apply (assumption | rule refl | (simp (no_asm_simp); fail))+
  done

lemma train_evaluate_save_model_events:
  assumes "train_evaluate_save_model env X_train y_train X_test y_test X_to_predict k nm ep
             = Inr ((hist, l, acc, predictions), evs)"
  shows "\<exists>model m.
           create_cardiotocographic_model (np_shape1 X_train) k (Some ''cardiotocographic-predictor'')
             = Inr (model,
                    [E_Sequential (Some ''cardiotocographic-predictor''),
                     E_add (Dense 64 relu (Some (np_shape1 X_train)) ''Hidden1''),
                     E_add (Dense 64 relu None ''Hidden2''),
                     E_add (Dense k softmax None ''output''), E_summary,
                     E_compile ''categorical_crossentropy'' ''rmsprop'' [''categorical_accuracy'']]) \<and>
           training env model X_train y_train ep None (2 / 10) = Inr (hist, m) \<and>
           evs = [E_Sequential (Some ''cardiotocographic-predictor''),
                E_add (Dense 64 relu (Some (np_shape1 X_train)) ''Hidden1''),
                E_add (Dense 64 relu None ''Hidden2''),
                E_add (Dense k softmax None ''output''), E_summary,
                E_compile ''categorical_crossentropy'' ''rmsprop'' [''categorical_accuracy''],
                E_fit X_train y_train ep None (2 / 10), E_evaluate X_test y_test,
                E_predict X_to_predict, E_model_save m (nm @ ''.h5'')]"
    and "0 \<le> acc" and "acc \<le> 1" and "X_test \<noteq> []"
proof -
  from train_evaluate_save_model_run [OF assms] obtain model evs0 m P where
    model: "create_cardiotocographic_model (np_shape1 X_train) k (Some ''cardiotocographic-predictor'')
        = Inr (model, evs0)" and
    m: "m = \<lparr>arch = model, fit_X = X_train, fit_y = y_train, epochs = ep, batch_size = None,
          validation_split = 2 / 10\<rparr>" and
    hist: "keras_train env m = Inr hist" and
    ne: "X_test \<noteq> []" and
    acc: "acc = accuracy (metrics model) (as_tensor y_test) P" and
    evs: "evs = evs0 @ [E_fit X_train y_train ep None (2 / 10), E_evaluate X_test y_test,
                   E_predict X_to_predict, E_model_save m (nm @ ''.h5'')]"
    by blast
  from model have evs0: "evs0 = [E_Sequential (Some ''cardiotocographic-predictor''),
                E_add (Dense 64 relu (Some (np_shape1 X_train)) ''Hidden1''),
                E_add (Dense 64 relu None ''Hidden2''),
                E_add (Dense k softmax None ''output''), E_summary,
                E_compile ''categorical_crossentropy'' ''rmsprop'' [''categorical_accuracy'']]"
    by (auto simp: create_cardiotocographic_model_run)
  from hist have tr: "training env model X_train y_train ep None (2 / 10) = Inr (hist, m)"
    by (simp add: training_def m)
  from model tr evs
  show "\<exists>model m.
           create_cardiotocographic_model (np_shape1 X_train) k (Some ''cardiotocographic-predictor'')
             = Inr (model,
                    [E_Sequential (Some ''cardiotocographic-predictor''),
                     E_add (Dense 64 relu (Some (np_shape1 X_train)) ''Hidden1''),
                     E_add (Dense 64 relu None ''Hidden2''),
                     E_add (Dense k softmax None ''output''), E_summary,
                     E_compile ''categorical_crossentropy'' ''rmsprop'' [''categorical_accuracy'']]) \<and>
           training env model X_train y_train ep None (2 / 10) = Inr (hist, m) \<and>
           evs = [E_Sequential (Some ''cardiotocographic-predictor''),
                E_add (Dense 64 relu (Some (np_shape1 X_train)) ''Hidden1''),
                E_add (Dense 64 relu None ''Hidden2''),
                E_add (Dense k softmax None ''output''), E_summary,
                E_compile ''categorical_crossentropy'' ''rmsprop'' [''categorical_accuracy''],
                E_fit X_train y_train ep None (2 / 10), E_evaluate X_test y_test,
                E_predict X_to_predict, E_model_save m (nm @ ''.h5'')]"
    unfolding evs0 by (intro exI [of _ model] exI [of _ m]) simp
  show "0 \<le> acc" "acc \<le> 1" using accuracy_bounds by (simp_all add: acc)
  show "X_test \<noteq> []" by (rule ne)
qed

lemma remdups_adj_replicate_head:
  "remdups_adj (x # replicate n x @ ys) = remdups_adj (x # ys)"
  by (induction n) simp_all

lemma remdups_adj_replicate_mid:
  "remdups_adj (xs @ x # replicate n x @ ys) = remdups_adj (xs @ x # ys)"
proof -
  have "remdups_adj (xs @ x # replicate n x @ ys)
      = remdups_adj (xs @ [x]) @ tl (remdups_adj (x # replicate n x @ ys))"
    by (rule remdups_adj_append)
  also have "\<dots> = remdups_adj (xs @ [x]) @ tl (remdups_adj (x # ys))"
    by (simp only: remdups_adj_replicate_head)
  also have "\<dots> = remdups_adj (xs @ x # ys)"
    by (rule remdups_adj_append [symmetric])
  finally show ?thesis .
qed

lemma phase_of_prints: "map phase_of (map (\<lambda>s. E_print [Text s]) ss) = replicate (length ss) Report_save"
  by (induction ss) simp_all

lemma map_filter_append: "List.map_filter f (xs @ ys) = List.map_filter f xs @ List.map_filter f ys"
  by (simp add: List.map_filter_def)

lemma map_filter_prints:
  "(\<And>s. f (E_print [Text s]) = None) \<Longrightarrow>
     List.map_filter f (map (\<lambda>s. E_print [Text s]) ss) = []"
  by (induction ss) (simp_all add: List.map_filter_simps)

lemma main_events:
  assumes "main env = Inr ((), evs)"
  shows "\<exists>sheet CTG_data training_set test_set y_train y_test X_train X_test
           encoder y_train' encoder' y_test' df to_predict model hist m l acc ss.
    read_excel_file env ''CTG.xls'' ''Raw Data'' ''G:AN'' = Inr sheet \<and>
    loc_columns (dropna sheet) CTG_columns = Inr CTG_data \<and>
    shuffle_split env CTG_data (2 / 10) None = Inr (training_set, test_set) \<and>
    iloc_last training_set = Inr y_train \<and>
    iloc_last test_set = Inr y_test \<and>
    minmax_values env (rows (iloc_all_but_last training_set)) (rows (iloc_all_but_last training_set))
      = Inr X_train \<and>
    minmax_values env (rows (iloc_all_but_last training_set)) (rows (iloc_all_but_last test_set))
      = Inr X_test \<and>
    one_hot_fit_transform OneHotEncoder_new (reshape_col y_train) = Inr (encoder, y_train') \<and>
    one_hot_fit_transform encoder (reshape_col y_test) = Inr (encoder', y_test') \<and>
    read_csv_file env ''predicted.csv'' = Inr df \<and>
    minmax_values env (rows (iloc_all_but_last training_set)) (to_numpy df) = Inr to_predict \<and>
    create_cardiotocographic_model (np_shape1 (astype_float16 env X_train)) (length labels)
        (Some ''cardiotocographic-predictor'')
      = Inr (model,
            [E_Sequential (Some ''cardiotocographic-predictor''),
             E_add (Dense 64 relu (Some (np_shape1 (astype_float16 env X_train))) ''Hidden1''),
             E_add (Dense 64 relu None ''Hidden2''),
             E_add (Dense (length labels) softmax None ''output''), E_summary,
             E_compile ''categorical_crossentropy'' ''rmsprop'' [''categorical_accuracy'']]) \<and>
    training env model (astype_float16 env X_train) (Array y_train') 5 None (2 / 10)
      = Inr (hist, m) \<and>
    0 \<le> acc \<and> acc \<le> 1 \<and> length ss = length to_predict \<and>
    evs = [E_read_excel ''CTG.xls'' ''Raw Data'' ''G:AN'',
           E_train_test_split (2 / 10) None,
           E_scaler_fit_transform (rows (iloc_all_but_last training_set)),
           E_scaler_transform (rows (iloc_all_but_last test_set)),
           E_encoder_fit_transform (reshape_col y_train),
           E_encoder_fit_transform (reshape_col y_test),
           E_read_csv ''predicted.csv'',
           E_scaler_transform (to_numpy df),
           E_Sequential (Some ''cardiotocographic-predictor''),
           E_add (Dense 64 relu (Some (np_shape1 (astype_float16 env X_train))) ''Hidden1''),
           E_add (Dense 64 relu None ''Hidden2''),
           E_add (Dense (length labels) softmax None ''output''), E_summary,
           E_compile ''categorical_crossentropy'' ''rmsprop'' [''categorical_accuracy''],
           E_fit (astype_float16 env X_train) (Array y_train') 5 None (2 / 10),
           E_evaluate (astype_float16 env X_test) (Array y_test'),
           E_predict to_predict, E_model_save m ''cardiotocographic-predictor.h5'',
           E_plt ''figure'', E_plt ''plot'', E_plt ''plot'', E_plt ''title'', E_plt ''xlabel'',
           E_plt ''ylabel'', E_plt ''grid'', E_plt ''legend'', E_savefig ''Epoch-Loss Graph.jpg'',
           E_plt ''show'',
           E_plt ''figure'', E_plt ''plot'', E_plt ''plot'', E_plt ''title'', E_plt ''xlabel'',
           E_plt ''ylabel'', E_plt ''grid'', E_plt ''legend'',
           E_savefig ''Epoch-Categorical Accuracy Graph.jpg'', E_plt ''show'',
           E_print [Text ''################################''],
           E_print [Text ''Model Evaluation Metrics:''],
           E_print [Text ''loss: '', Num l, Text [CHR 0x0A], Text ''categorical_accuracy: '',
                    Num (Some acc)],
           E_print [Text ''################################'']]
          @ map (\<lambda>s. E_print [Text s]) ss
          @ [E_open ''cardiotocographic.pickle'',
             E_pickle_dump \<lparr>fitted_on = Some (rows (iloc_all_but_last training_set))\<rparr>
               ''cardiotocographic.pickle'']"
proof -
  from main_run [OF assms] obtain sheet CTG_data training_set test_set y_train y_test scaler
      X_train X_test encoder y_train' encoder' y_test' df to_predict hist l acc predictions
      tevs pevs pevs' indices ss where
    f1: "read_excel_file env ''CTG.xls'' ''Raw Data'' ''G:AN'' = Inr sheet" and
    f2: "loc_columns (dropna sheet) CTG_columns = Inr CTG_data" and
    f3: "shuffle_split env CTG_data (2 / 10) None = Inr (training_set, test_set)" and
    f4: "iloc_last training_set = Inr y_train" and
    f5: "iloc_last test_set = Inr y_test" and
    f6: "minmax_fit_transform env MinMaxScaler_new (rows (iloc_all_but_last training_set))
      = Inr (scaler, X_train)" and
    f7: "minmax_transform env scaler (rows (iloc_all_but_last test_set)) = Inr X_test" and
    f8: "one_hot_fit_transform OneHotEncoder_new (reshape_col y_train) = Inr (encoder, y_train')" and
    f9: "one_hot_fit_transform encoder (reshape_col y_test) = Inr (encoder', y_test')" and
    f10: "read_csv_file env ''predicted.csv'' = Inr df" and
    f11: "minmax_transform env scaler (to_numpy df) = Inr to_predict" and
    f12: "train_evaluate_save_model env (astype_float16 env X_train) (Array y_train')
        (astype_float16 env X_test) (Array y_test') to_predict (length labels)
        ''cardiotocographic-predictor'' 5
      = Inr ((hist, l, acc, predictions), tevs)" and
    f13: "plot_metric_graph env hist ''loss'' ''Epoch-Loss Graph'' = Inr ((), pevs)" and
    f14: "plot_metric_graph env hist ''categorical_accuracy'' ''Epoch-Categorical Accuracy Graph''
      = Inr ((), pevs')" and
    f15: "np_argmax_axis1 predictions = Inr indices" and
    f16: "length ss = length indices" and
    f17: "write_file env ''cardiotocographic.pickle'' = Inr ()" and
    evs: "evs = [E_read_excel ''CTG.xls'' ''Raw Data'' ''G:AN'',
           E_train_test_split (2 / 10) None,
           E_scaler_fit_transform (rows (iloc_all_but_last training_set)),
           E_scaler_transform (rows (iloc_all_but_last test_set)),
           E_encoder_fit_transform (reshape_col y_train),
           E_encoder_fit_transform (reshape_col y_test),
           E_read_csv ''predicted.csv'',
           E_scaler_transform (to_numpy df)]
          @ tevs @ pevs @ pevs'
          @ [E_print [Text ''################################''],
             E_print [Text ''Model Evaluation Metrics:''],
             E_print [Text ''loss: '', Num l, Text [CHR 0x0A], Text ''categorical_accuracy: '',
                      Num (Some acc)],
             E_print [Text ''################################'']]
          @ map (\<lambda>s. E_print [Text s]) ss
          @ [E_open ''cardiotocographic.pickle'',
             E_pickle_dump scaler ''cardiotocographic.pickle'']"
    by (elim exE conjE) (rule that; assumption)
  from f6 have scaler: "scaler = \<lparr>fitted_on = Some (rows (iloc_all_but_last training_set))\<rparr>"
    and g6: "minmax_values env (rows (iloc_all_but_last training_set))
               (rows (iloc_all_but_last training_set)) = Inr X_train"
    by (auto simp: minmax_fit_transform_def MinMaxScaler_new_def split: sum.splits)
  from f7 have g7: "minmax_values env (rows (iloc_all_but_last training_set))
               (rows (iloc_all_but_last test_set)) = Inr X_test"
    by (simp add: minmax_transform_def scaler)
  from f11 have g11: "minmax_values env (rows (iloc_all_but_last training_set)) (to_numpy df)
               = Inr to_predict"
    by (simp add: minmax_transform_def scaler)
  from train_evaluate_save_model_events(1) [OF f12] obtain model m where
    model: "create_cardiotocographic_model (np_shape1 (astype_float16 env X_train)) (length labels)
        (Some ''cardiotocographic-predictor'')
      = Inr (model,
            [E_Sequential (Some ''cardiotocographic-predictor''),
             E_add (Dense 64 relu (Some (np_shape1 (astype_float16 env X_train))) ''Hidden1''),
             E_add (Dense 64 relu None ''Hidden2''),
             E_add (Dense (length labels) softmax None ''output''), E_summary,
             E_compile ''categorical_crossentropy'' ''rmsprop'' [''categorical_accuracy'']])" and
    tr: "training env model (astype_float16 env X_train) (Array y_train') 5 None (2 / 10)
      = Inr (hist, m)" and
    tevs: "tevs = [E_Sequential (Some ''cardiotocographic-predictor''),
           E_add (Dense 64 relu (Some (np_shape1 (astype_float16 env X_train))) ''Hidden1''),
           E_add (Dense 64 relu None ''Hidden2''),
           E_add (Dense (length labels) softmax None ''output''), E_summary,
           E_compile ''categorical_crossentropy'' ''rmsprop'' [''categorical_accuracy''],
           E_fit (astype_float16 env X_train) (Array y_train') 5 None (2 / 10),
           E_evaluate (astype_float16 env X_test) (Array y_test'),
           E_predict to_predict, E_model_save m (''cardiotocographic-predictor'' @ ''.h5'')]"
    by (elim exE conjE) (rule that; assumption)
  note t = train_evaluate_save_model_events(2,3) [OF f12]
  from train_evaluate_save_model_run [OF f12] obtain m' where
    "forward env m' to_predict = Inr predictions" by blast
  from forward_rows [OF this] have "length predictions = length to_predict" by simp
  moreover from f15 have "length indices = length predictions"
    by (auto simp: np_argmax_axis1_def split: if_splits)
  ultimately have len: "length ss = length to_predict" using f16 by simp
  have e: "evs = [E_read_excel ''CTG.xls'' ''Raw Data'' ''G:AN'',
           E_train_test_split (2 / 10) None,
           E_scaler_fit_transform (rows (iloc_all_but_last training_set)),
           E_scaler_transform (rows (iloc_all_but_last test_set)),
           E_encoder_fit_transform (reshape_col y_train),
           E_encoder_fit_transform (reshape_col y_test),
           E_read_csv ''predicted.csv'',
           E_scaler_transform (to_numpy df),
           E_Sequential (Some ''cardiotocographic-predictor''),
           E_add (Dense 64 relu (Some (np_shape1 (astype_float16 env X_train))) ''Hidden1''),
           E_add (Dense 64 relu None ''Hidden2''),
           E_add (Dense (length labels) softmax None ''output''), E_summary,
           E_compile ''categorical_crossentropy'' ''rmsprop'' [''categorical_accuracy''],
           E_fit (astype_float16 env X_train) (Array y_train') 5 None (2 / 10),
           E_evaluate (astype_float16 env X_test) (Array y_test'),
           E_predict to_predict, E_model_save m ''cardiotocographic-predictor.h5'',
           E_plt ''figure'', E_plt ''plot'', E_plt ''plot'', E_plt ''title'', E_plt ''xlabel'',
           E_plt ''ylabel'', E_plt ''grid'', E_plt ''legend'', E_savefig ''Epoch-Loss Graph.jpg'',
           E_plt ''show'',
           E_plt ''figure'', E_plt ''plot'', E_plt ''plot'', E_plt ''title'', E_plt ''xlabel'',
           E_plt ''ylabel'', E_plt ''grid'', E_plt ''legend'',
           E_savefig ''Epoch-Categorical Accuracy Graph.jpg'', E_plt ''show'',
           E_print [Text ''################################''],
           E_print [Text ''Model Evaluation Metrics:''],
           E_print [Text ''loss: '', Num l, Text [CHR 0x0A], Text ''categorical_accuracy: '',
                    Num (Some acc)],
           E_print [Text ''################################'']]
          @ map (\<lambda>s. E_print [Text s]) ss
          @ [E_open ''cardiotocographic.pickle'',
             E_pickle_dump \<lparr>fitted_on = Some (rows (iloc_all_but_last training_set))\<rparr>
               ''cardiotocographic.pickle'']"
    unfolding evs tevs plot_metric_graph_run [OF f13] plot_metric_graph_run [OF f14] scaler
    by simp
  from f1 f2 f3 f4 f5 g6 g7 f8 f9 f10 g11 model tr t(1) t(2) len e show ?thesis by blast
qed

lemma keras_predictor_events:
  assumes "keras_predictor env = Inr ((), evs)"
  shows "\<exists>d train_dataset test_set y_train y_test acc df ss.
    read_csv_file env (os_path_join (os_getcwd env) ''02-keras-2L-diabetes-predict/diabetes.csv'') = Inr d \<and>
    shuffle_split env d (1 - DIVIDE_RATIO) None = Inr (train_dataset, test_set) \<and>
    iloc_last train_dataset = Inr y_train \<and>
    iloc_last test_set = Inr y_test \<and>
    read_csv_file env (os_path_join (os_getcwd env) ''02-keras-2L-diabetes-predict/predicted.csv'') = Inr df \<and>
    0 \<le> acc \<and> acc \<le> 1 \<and> length ss = length (rows df) \<and>
    evs = [E_read_csv (os_path_join (os_getcwd env) ''02-keras-2L-diabetes-predict/diabetes.csv''),
           E_train_test_split (1 - DIVIDE_RATIO) None,
           E_Sequential (Some ''Pima-Indians-Diabetes-X_test''),
           E_add (Dense 64 relu (Some (shape1 (iloc_all_but_last train_dataset))) ''hidden-1''),
           E_add (Dense 64 relu None ''hidden-2''),
           E_add (Dense 1 sigmoid None ''output''), E_summary,
           E_compile ''binary_crossentropy'' ''adam'' [''binary_accuracy''],
           E_fit (rows (iloc_all_but_last train_dataset)) (Series y_train) 100 (Some 32) (2 / 10),
           E_evaluate (rows (iloc_all_but_last test_set)) (Series y_test),
           E_print [Text ''Test accuracy:'', Num (Some acc)],
           E_read_csv (os_path_join (os_getcwd env) ''02-keras-2L-diabetes-predict/predicted.csv''),
           E_predict (rows df)] @ map (\<lambda>s. E_print [Text s]) ss"
proof -
  from keras_predictor_run [OF assms] obtain d train_dataset test_set y_train y_test model build
      hist m score df predictions ss where
    f1: "read_csv_file env (os_path_join (os_getcwd env) ''02-keras-2L-diabetes-predict/diabetes.csv'') = Inr d" and
    f2: "shuffle_split env d (1 - DIVIDE_RATIO) None = Inr (train_dataset, test_set)" and
    f3: "iloc_last train_dataset = Inr y_train" and
    f4: "iloc_last test_set = Inr y_test" and
    f5: "diabetes_model (shape1 (iloc_all_but_last train_dataset)) = Inr (model, build)" and
    f6: "training env model (rows (iloc_all_but_last train_dataset)) (Series y_train) 100 (Some 32) (2 / 10)
      = Inr (hist, m)" and
    f7: "test_scores env m (rows (iloc_all_but_last test_set)) (Series y_test) = Inr score" and
    f8: "read_csv_file env (os_path_join (os_getcwd env) ''02-keras-2L-diabetes-predict/predicted.csv'') = Inr df" and
    f9: "forward env m (to_numpy df) = Inr predictions" and
    f10: "length ss = length predictions" and
    evs: "evs = [E_read_csv (os_path_join (os_getcwd env) ''02-keras-2L-diabetes-predict/diabetes.csv''),
           E_train_test_split (1 - DIVIDE_RATIO) None]
          @ build
          @ [E_fit (rows (iloc_all_but_last train_dataset)) (Series y_train) 100 (Some 32) (2 / 10),
             E_evaluate (rows (iloc_all_but_last test_set)) (Series y_test),
             E_print [Text ''Test accuracy:'', Num (Some (snd score))],
             E_read_csv (os_path_join (os_getcwd env) ''02-keras-2L-diabetes-predict/predicted.csv''),
             E_predict (to_numpy df)] @ map (\<lambda>s. E_print [Text s]) ss"
    by (elim exE conjE) (rule that; assumption)
  from f5 have build: "build = [E_Sequential (Some ''Pima-Indians-Diabetes-X_test''),
           E_add (Dense 64 relu (Some (shape1 (iloc_all_but_last train_dataset))) ''hidden-1''),
           E_add (Dense 64 relu None ''hidden-2''),
           E_add (Dense 1 sigmoid None ''output''), E_summary,
           E_compile ''binary_crossentropy'' ''adam'' [''binary_accuracy'']]"
    by (auto simp: diabetes_model_run)
  from f7 have acc: "0 \<le> snd score" "snd score \<le> 1"
    using test_scores_bounds [of env m _ _ "fst score" "snd score"] by simp_all
  from forward_rows [OF f9] f10 have len: "length ss = length (rows df)"
    by (simp add: to_numpy_def)
  have e: "evs = [E_read_csv (os_path_join (os_getcwd env) ''02-keras-2L-diabetes-predict/diabetes.csv''),
           E_train_test_split (1 - DIVIDE_RATIO) None,
           E_Sequential (Some ''Pima-Indians-Diabetes-X_test''),
           E_add (Dense 64 relu (Some (shape1 (iloc_all_but_last train_dataset))) ''hidden-1''),
           E_add (Dense 64 relu None ''hidden-2''),
           E_add (Dense 1 sigmoid None ''output''), E_summary,
           E_compile ''binary_crossentropy'' ''adam'' [''binary_accuracy''],
           E_fit (rows (iloc_all_but_last train_dataset)) (Series y_train) 100 (Some 32) (2 / 10),
           E_evaluate (rows (iloc_all_but_last test_set)) (Series y_test),
           E_print [Text ''Test accuracy:'', Num (Some (snd score))],
           E_read_csv (os_path_join (os_getcwd env) ''02-keras-2L-diabetes-predict/predicted.csv''),
           E_predict (rows df)] @ map (\<lambda>s. E_print [Text s]) ss"
    unfolding evs build by (simp add: to_numpy_def)
  from f1 f2 f3 f4 f8 acc len e show ?thesis by blast
qed

section \<open>Files written\<close>

text \<open>
  Claim C1 says that every script serializes the fitted model and the fitted scaler. The
  diabetes script has no scaler and calls neither \<^verbatim>\<open>model.save\<close> nor \<^verbatim>\<open>pickle.dump\<close>:
  on the example machine its run completes and writes no file at all.
\<close>

theorem diabetes_run_writes_no_file:
  "completes (keras_predictor example_env) \<and>
   files_written (log_of (keras_predictor example_env)) = [] \<and>
   model_files (log_of (keras_predictor example_env)) = [] \<and>
   scaler_files (log_of (keras_predictor example_env)) = []"
  by code_simp

text \<open>
  Claim C1, amended. A complete run of the cardiotocographic script saves exactly one
  model, to \<^verbatim>\<open>cardiotocographic-predictor.h5\<close>, and it is the fitted model: the one that
  training returned for the network of the script, the scaled training features and the
  encoded training labels. It pickles exactly one scaler, to
  \<^verbatim>\<open>cardiotocographic.pickle\<close>, and it is the scaler fitted on the features of the
  training set that the split returned. It also writes two JPEG plots, and no other file. A
  complete run of the diabetes script writes no file: it has no scaler, and its model is
  not saved.
\<close>

theorem files_of_complete_runs:
  "(main env = Inr ((), evs) \<longrightarrow>
      (\<exists>sheet CTG_data training_set test_set y_train X_train encoder y_train' model build hist m.
         read_excel_file env ''CTG.xls'' ''Raw Data'' ''G:AN'' = Inr sheet \<and>
         loc_columns (dropna sheet) CTG_columns = Inr CTG_data \<and>
         shuffle_split env CTG_data (2 / 10) None = Inr (training_set, test_set) \<and>
         iloc_last training_set = Inr y_train \<and>
         minmax_fit_transform env MinMaxScaler_new (rows (iloc_all_but_last training_set))
           = Inr (\<lparr>fitted_on = Some (rows (iloc_all_but_last training_set))\<rparr>, X_train) \<and>
         one_hot_fit_transform OneHotEncoder_new (reshape_col y_train) = Inr (encoder, y_train') \<and>
         create_cardiotocographic_model (np_shape1 (astype_float16 env X_train)) (length labels)
             (Some ''cardiotocographic-predictor'')
           = Inr (model, build) \<and>
         training env model (astype_float16 env X_train) (Array y_train') 5 None (2 / 10)
           = Inr (hist, m) \<and>
         fitted_with evs = [(fit_X m, fit_y m)] \<and>
         model_files evs = [(m, ''cardiotocographic-predictor.h5'')] \<and>
         scaler_files evs
           = [(\<lparr>fitted_on = Some (rows (iloc_all_but_last training_set))\<rparr>,
               ''cardiotocographic.pickle'')] \<and>
         plot_files evs = [''Epoch-Loss Graph.jpg'', ''Epoch-Categorical Accuracy Graph.jpg''] \<and>
         files_written evs
           = [''cardiotocographic-predictor.h5'', ''Epoch-Loss Graph.jpg'',
              ''Epoch-Categorical Accuracy Graph.jpg'', ''cardiotocographic.pickle''])) \<and>
   (keras_predictor env = Inr ((), evs') \<longrightarrow>
      files_written evs' = [] \<and> model_files evs' = [] \<and> scaler_files evs' = [])"
proof (intro conjI impI)
  assume "main env = Inr ((), evs)"
  from main_events [OF this] obtain sheet CTG_data training_set test_set y_train X_train
      encoder y_train' model build hist m ss pre where
    f1: "read_excel_file env ''CTG.xls'' ''Raw Data'' ''G:AN'' = Inr sheet" and
    f2: "loc_columns (dropna sheet) CTG_columns = Inr CTG_data" and
    f3: "shuffle_split env CTG_data (2 / 10) None = Inr (training_set, test_set)" and
    f4: "iloc_last training_set = Inr y_train" and
    f5: "minmax_values env (rows (iloc_all_but_last training_set))
           (rows (iloc_all_but_last training_set)) = Inr X_train" and
    f6: "one_hot_fit_transform OneHotEncoder_new (reshape_col y_train) = Inr (encoder, y_train')" and
    f7: "create_cardiotocographic_model (np_shape1 (astype_float16 env X_train)) (length labels)
             (Some ''cardiotocographic-predictor'')
           = Inr (model, build)" and
    f8: "training env model (astype_float16 env X_train) (Array y_train') 5 None (2 / 10)
           = Inr (hist, m)" and
    evs: "evs = pre @ map (\<lambda>s. E_print [Text s]) ss
          @ [E_open ''cardiotocographic.pickle'',
             E_pickle_dump \<lparr>fitted_on = Some (rows (iloc_all_but_last training_set))\<rparr>
               ''cardiotocographic.pickle'']"
    and ft: "fitted_with pre = [(astype_float16 env X_train, Array y_train')]"
    and mf: "model_files pre = [(m, ''cardiotocographic-predictor.h5'')]"
    and sc: "scaler_files pre = []"
    and pl: "plot_files pre = [''Epoch-Loss Graph.jpg'', ''Epoch-Categorical Accuracy Graph.jpg'']"
    and fw: "files_written pre = [''cardiotocographic-predictor.h5'', ''Epoch-Loss Graph.jpg'',
              ''Epoch-Categorical Accuracy Graph.jpg'']"
    by (elim exE conjE)
       (rule that, assumption, assumption, assumption, assumption, assumption, assumption,
        assumption, assumption, assumption,
        simp_all add: fitted_with_def model_files_def scaler_files_def plot_files_def
          files_written_def List.map_filter_simps)
  from f8 have m: "fit_X m = astype_float16 env X_train" "fit_y m = Array y_train'"
    by (auto simp: training_def Let_def split: sum.splits)
  from f5 have g5: "minmax_fit_transform env MinMaxScaler_new (rows (iloc_all_but_last training_set))
           = Inr (\<lparr>fitted_on = Some (rows (iloc_all_but_last training_set))\<rparr>, X_train)"
    by (simp add: minmax_fit_transform_def MinMaxScaler_new_def)
  have e1: "fitted_with evs = [(fit_X m, fit_y m)]"
    using ft by (simp add: evs m fitted_with_def map_filter_append map_filter_prints List.map_filter_simps)
  have e2: "model_files evs = [(m, ''cardiotocographic-predictor.h5'')]"
    using mf by (simp add: evs model_files_def map_filter_append map_filter_prints List.map_filter_simps)
  have e3: "scaler_files evs = [(\<lparr>fitted_on = Some (rows (iloc_all_but_last training_set))\<rparr>,
           ''cardiotocographic.pickle'')]"
    using sc by (simp add: evs scaler_files_def map_filter_append map_filter_prints List.map_filter_simps)
  have e4: "plot_files evs = [''Epoch-Loss Graph.jpg'', ''Epoch-Categorical Accuracy Graph.jpg'']"
    using pl by (simp add: evs plot_files_def map_filter_append map_filter_prints List.map_filter_simps)
  have e5: "files_written evs
           = [''cardiotocographic-predictor.h5'', ''Epoch-Loss Graph.jpg'',
              ''Epoch-Categorical Accuracy Graph.jpg'', ''cardiotocographic.pickle'']"
    using fw by (simp add: evs files_written_def map_filter_append map_filter_prints List.map_filter_simps)
  from f1 f2 f3 f4 g5 f6 f7 f8 e1 e2 e3 e4 e5
  show "\<exists>sheet CTG_data training_set test_set y_train X_train encoder y_train' model build hist m.
         read_excel_file env ''CTG.xls'' ''Raw Data'' ''G:AN'' = Inr sheet \<and>
         loc_columns (dropna sheet) CTG_columns = Inr CTG_data \<and>
         shuffle_split env CTG_data (2 / 10) None = Inr (training_set, test_set) \<and>
         iloc_last training_set = Inr y_train \<and>
         minmax_fit_transform env MinMaxScaler_new (rows (iloc_all_but_last training_set))
           = Inr (\<lparr>fitted_on = Some (rows (iloc_all_but_last training_set))\<rparr>, X_train) \<and>
         one_hot_fit_transform OneHotEncoder_new (reshape_col y_train) = Inr (encoder, y_train') \<and>
         create_cardiotocographic_model (np_shape1 (astype_float16 env X_train)) (length labels)
             (Some ''cardiotocographic-predictor'')
           = Inr (model, build) \<and>
         training env model (astype_float16 env X_train) (Array y_train') 5 None (2 / 10)
           = Inr (hist, m) \<and>
         fitted_with evs = [(fit_X m, fit_y m)] \<and>
         model_files evs = [(m, ''cardiotocographic-predictor.h5'')] \<and>
         scaler_files evs
           = [(\<lparr>fitted_on = Some (rows (iloc_all_but_last training_set))\<rparr>,
               ''cardiotocographic.pickle'')] \<and>
         plot_files evs = [''Epoch-Loss Graph.jpg'', ''Epoch-Categorical Accuracy Graph.jpg''] \<and>
         files_written evs
           = [''cardiotocographic-predictor.h5'', ''Epoch-Loss Graph.jpg'',
              ''Epoch-Categorical Accuracy Graph.jpg'', ''cardiotocographic.pickle'']"
    by blast
next
  assume "keras_predictor env = Inr ((), evs')"
  from keras_predictor_events [OF this] obtain ss pre where
    evs: "evs' = pre @ map (\<lambda>s. E_print [Text s]) ss"
    and f: "files_written pre = []" "model_files pre = []" "scaler_files pre = []"
    by (elim exE conjE)
       (rule that, assumption,
        simp_all add: files_written_def model_files_def scaler_files_def List.map_filter_simps)
  show "files_written evs' = []"
    using f by (simp add: evs files_written_def map_filter_append map_filter_prints)
  show "model_files evs' = []"
    using f by (simp add: evs model_files_def map_filter_append map_filter_prints)
  show "scaler_files evs' = []"
    using f by (simp add: evs scaler_files_def map_filter_append map_filter_prints)
qed

theorem files_of_complete_runs_witness:
  "completes (main example_env) \<and>
   map snd (model_files (log_of (main example_env))) = [''cardiotocographic-predictor.h5''] \<and>
   map (\<lambda>(m, p). (fit_X m, fit_y m)) (model_files (log_of (main example_env)))
     = fitted_with (log_of (main example_env)) \<and>
   plot_files (log_of (main example_env))
     = [''Epoch-Loss Graph.jpg'', ''Epoch-Categorical Accuracy Graph.jpg''] \<and>
   map snd (scaler_files (log_of (main example_env))) = [''cardiotocographic.pickle''] \<and>
   files_written (log_of (main example_env))
     = [''cardiotocographic-predictor.h5'', ''Epoch-Loss Graph.jpg'',
        ''Epoch-Categorical Accuracy Graph.jpg'', ''cardiotocographic.pickle''] \<and>
   completes (keras_predictor example_env) \<and>
   files_written (log_of (keras_predictor example_env)) = []"
proof -
  have c1: "completes (main example_env)" by code_simp
  have c2: "completes (keras_predictor example_env)" by code_simp
  obtain evs where r1: "main example_env = Inr ((), evs)"
    using c1 by (cases "main example_env") (auto simp: completes_def)
  obtain evs' where r2: "keras_predictor example_env = Inr ((), evs')"
    using c2 by (cases "keras_predictor example_env") (auto simp: completes_def)
  from files_of_complete_runs [of example_env evs evs'] r1 r2
  have "\<exists>m. fitted_with evs = [(fit_X m, fit_y m)] \<and>
            model_files evs = [(m, ''cardiotocographic-predictor.h5'')]"
    and "\<exists>X. scaler_files evs = [(\<lparr>fitted_on = Some X\<rparr>, ''cardiotocographic.pickle'')]"
    and "plot_files evs = [''Epoch-Loss Graph.jpg'', ''Epoch-Categorical Accuracy Graph.jpg'']"
    and "files_written evs
           = [''cardiotocographic-predictor.h5'', ''Epoch-Loss Graph.jpg'',
              ''Epoch-Categorical Accuracy Graph.jpg'', ''cardiotocographic.pickle'']"
    and "files_written evs' = []"
    by blast+
  then show ?thesis using c1 c2 by (auto simp: r1 r2 log_of_def)
qed

section \<open>The order of the steps\<close>

lemma phase_of_prints':
  "map (phase_of \<circ> (\<lambda>s. E_print [Text s])) ss = replicate (length ss) Report_save"
  by (induction ss) simp_all

text \<open>
  Claim C3 says that every run of either script is the single sequence load, split,
  scale/encode, build, fit, evaluate, predict, report/save. On the example machine both
  runs complete and neither has these phases: the cardiotocographic script loads and
  scales the file to predict after the encoding, and the diabetes script never scales or
  encodes, prints the accuracy before it loads the file to predict, and saves nothing.
\<close>

theorem order_of_operations_as_stated_fails:
  "completes (main example_env) \<and>
   phases (log_of (main example_env))
     = [Load, Split, Scale_encode, Load, Scale_encode, Build, Fit, Evaluate, Predict, Report_save] \<and>
   phases (log_of (main example_env)) \<noteq> pipeline \<and>
   completes (keras_predictor example_env) \<and>
   phases (log_of (keras_predictor example_env))
     = [Load, Split, Build, Fit, Evaluate, Report_save, Load, Predict, Report_save] \<and>
   phases (log_of (keras_predictor example_env)) \<noteq> pipeline"
  by code_simp

text \<open>
  Claim C3, amended. A complete run of the cardiotocographic script goes through load,
  split, scale/encode, load (the file to predict), scale (the file to predict), build,
  fit, evaluate, predict, report/save, in this order. A complete run of the diabetes
  script goes through load, split, build, fit, evaluate, report (the accuracy), load (the
  file to predict), predict, and then report (one line for each row to predict, if there
  is one); it has no scale/encode step.
\<close>

theorem order_of_operations:
  "(main env = Inr ((), evs) \<longrightarrow>
      phases evs
        = [Load, Split, Scale_encode, Load, Scale_encode, Build, Fit, Evaluate, Predict,
           Report_save]) \<and>
   (keras_predictor env = Inr ((), evs') \<longrightarrow>
      (\<exists>df. read_csv_file env
               (os_path_join (os_getcwd env) ''02-keras-2L-diabetes-predict/predicted.csv'')
             = Inr df \<and>
            phases evs'
              = [Load, Split, Build, Fit, Evaluate, Report_save, Load, Predict]
                @ (if rows df = [] then [] else [Report_save])))"
proof (intro conjI impI)
  assume "main env = Inr ((), evs)"
  from main_events [OF this] obtain training_set ss pre where
    evs: "evs = pre @ map (\<lambda>s. E_print [Text s]) ss
          @ [E_open ''cardiotocographic.pickle'',
             E_pickle_dump \<lparr>fitted_on = Some (rows (iloc_all_but_last training_set))\<rparr>
               ''cardiotocographic.pickle'']"
    and pre: "map phase_of pre = [Load, Split, Scale_encode, Scale_encode, Scale_encode, Scale_encode, Load, Scale_encode,
        Build, Build, Build, Build, Build, Build, Fit, Evaluate, Predict,
        Report_save, Report_save, Report_save, Report_save, Report_save, Report_save, Report_save, Report_save,
        Report_save, Report_save, Report_save, Report_save, Report_save, Report_save, Report_save, Report_save,
        Report_save, Report_save, Report_save, Report_save, Report_save, Report_save, Report_save, Report_save] @ [Report_save]"
    by (elim exE conjE) (rule that, assumption, simp)
  have "phases evs = remdups_adj
       ([Load, Split, Scale_encode, Scale_encode, Scale_encode, Scale_encode, Load, Scale_encode,
        Build, Build, Build, Build, Build, Build, Fit, Evaluate, Predict,
        Report_save, Report_save, Report_save, Report_save, Report_save, Report_save, Report_save, Report_save,
        Report_save, Report_save, Report_save, Report_save, Report_save, Report_save, Report_save, Report_save,
        Report_save, Report_save, Report_save, Report_save, Report_save, Report_save, Report_save, Report_save]
       @ Report_save # replicate (length ss) Report_save @ [Report_save, Report_save])"
    by (simp add: phases_def evs pre phase_of_prints phase_of_prints' del: remdups_adj.simps)
  also have "\<dots> = remdups_adj
       ([Load, Split, Scale_encode, Scale_encode, Scale_encode, Scale_encode, Load, Scale_encode,
        Build, Build, Build, Build, Build, Build, Fit, Evaluate, Predict,
        Report_save, Report_save, Report_save, Report_save, Report_save, Report_save, Report_save, Report_save,
        Report_save, Report_save, Report_save, Report_save, Report_save, Report_save, Report_save, Report_save,
        Report_save, Report_save, Report_save, Report_save, Report_save, Report_save, Report_save, Report_save]
       @ Report_save # [Report_save, Report_save])"
    by (rule remdups_adj_replicate_mid)
  also have "\<dots> = [Load, Split, Scale_encode, Load, Scale_encode, Build, Fit, Evaluate, Predict,
           Report_save]"
    by simp
  finally show "phases evs
        = [Load, Split, Scale_encode, Load, Scale_encode, Build, Fit, Evaluate, Predict,
           Report_save]" .
next
  assume "keras_predictor env = Inr ((), evs')"
  from keras_predictor_events [OF this] obtain df ss pre where
    df: "read_csv_file env
               (os_path_join (os_getcwd env) ''02-keras-2L-diabetes-predict/predicted.csv'')
             = Inr df" and
    len: "length ss = length (rows df)" and
    evs: "evs' = pre @ map (\<lambda>s. E_print [Text s]) ss" and
    pre: "map phase_of pre =
       [Load, Split, Build, Build, Build, Build, Build, Build, Fit, Evaluate, Report_save, Load,
        Predict]"
    by (elim exE conjE) (rule that, assumption, assumption, assumption, simp)
  have ph: "map phase_of evs' =
       [Load, Split, Build, Build, Build, Build, Build, Build, Fit, Evaluate, Report_save, Load,
        Predict] @ replicate (length ss) Report_save"
    by (simp add: evs pre phase_of_prints phase_of_prints')
  have "phases evs' = [Load, Split, Build, Fit, Evaluate, Report_save, Load, Predict]
                @ (if rows df = [] then [] else [Report_save])"
  proof (cases "rows df")
    case Nil
    with len ph show ?thesis by (simp add: phases_def)
  next
    case (Cons r rs)
    with len obtain n where n: "length ss = Suc n" by (cases ss) auto
    have "phases evs' = remdups_adj
        ([Load, Split, Build, Build, Build, Build, Build, Build, Fit, Evaluate, Report_save, Load,
        Predict] @ Report_save # replicate n Report_save @ [])"
      by (simp add: phases_def ph n)
    also have "\<dots> = remdups_adj
        ([Load, Split, Build, Build, Build, Build, Build, Build, Fit, Evaluate, Report_save, Load,
        Predict] @ Report_save # [])"
      by (rule remdups_adj_replicate_mid)
    finally show ?thesis using Cons by simp
  qed
  with df show "\<exists>df. read_csv_file env
               (os_path_join (os_getcwd env) ''02-keras-2L-diabetes-predict/predicted.csv'')
             = Inr df \<and>
            phases evs'
              = [Load, Split, Build, Fit, Evaluate, Report_save, Load, Predict]
                @ (if rows df = [] then [] else [Report_save])"
    by blast
qed

theorem order_of_operations_witness:
  "completes (main example_env) \<and>
   phases (log_of (main example_env))
     = [Load, Split, Scale_encode, Load, Scale_encode, Build, Fit, Evaluate, Predict, Report_save] \<and>
   completes (keras_predictor example_env) \<and>
   read_csv_file example_env
     (os_path_join (os_getcwd example_env) ''02-keras-2L-diabetes-predict/predicted.csv'')
     = Inr example_diabetes_predicted \<and>
   phases (log_of (keras_predictor example_env))
     = [Load, Split, Build, Fit, Evaluate, Report_save, Load, Predict, Report_save]"
proof -
  have c1: "completes (main example_env)" by code_simp
  have c2: "completes (keras_predictor example_env)" by code_simp
  have rd: "read_csv_file example_env
     (os_path_join (os_getcwd example_env) ''02-keras-2L-diabetes-predict/predicted.csv'')
     = Inr example_diabetes_predicted"
    by code_simp
  have ne: "rows example_diabetes_predicted \<noteq> []" by (simp add: example_diabetes_predicted_def)
  obtain evs where r1: "main example_env = Inr ((), evs)"
    using c1 by (cases "main example_env") (auto simp: completes_def)
  obtain evs' where r2: "keras_predictor example_env = Inr ((), evs')"
    using c2 by (cases "keras_predictor example_env") (auto simp: completes_def)
  from order_of_operations [of example_env evs evs'] r1 r2 rd ne
  have "phases evs
     = [Load, Split, Scale_encode, Load, Scale_encode, Build, Fit, Evaluate, Predict, Report_save]"
    and "phases evs' = [Load, Split, Build, Fit, Evaluate, Report_save, Load, Predict, Report_save]"
    by auto
  then show ?thesis using c1 c2 rd by (simp add: r1 r2 log_of_def)
qed

section \<open>The held-out test set\<close>

lemma split_indices_partition:
  assumes perm: "sort perm = [0..<n]"
    and split: "split_indices perm n t = (ind_train, ind_test)"
  shows "ind_test @ ind_train = perm" and "distinct perm" and "set perm = {0..<n}"
proof -
  have m: "mset perm = mset [0..<n]"
    using perm by (metis mset_sort)
  then have len: "length perm = n"
    by (metis length_upt mset_eq_length minus_nat.diff_0)
  define k where "k = nat \<lceil>t * real n\<rceil>"
  from split have te: "ind_test = take k perm" and tr: "ind_train = take (n - k) (drop k perm)"
    by (simp_all add: split_indices_def Let_def k_def)
  have "take (n - k) (drop k perm) = drop k perm"
    by (simp add: len)
  with te tr show "ind_test @ ind_train = perm" by simp
  show "distinct perm"
    using m by (metis distinct_upt mset_eq_imp_distinct_iff)
  show "set perm = {0..<n}"
    using m by (metis mset_eq_setD set_upt)
qed

lemma split_rows_partition:
  assumes perm: "sort perm = [0..<length xs]"
    and split: "split_indices perm (length xs) t = (ind_train, ind_test)"
  shows "set ind_train \<inter> set ind_test = {}"
    and "set ind_train \<union> set ind_test = {0..<length xs}"
    and "mset (map (\<lambda>i. xs ! i) ind_train) + mset (map (\<lambda>i. xs ! i) ind_test) = mset xs"
proof -
  note p = split_indices_partition [OF perm split]
  from p(1) p(2) have "distinct (ind_test @ ind_train)" by simp
  then show "set ind_train \<inter> set ind_test = {}" by auto
  from p(1) p(3) have "set (ind_test @ ind_train) = {0..<length xs}" by simp
  then show "set ind_train \<union> set ind_test = {0..<length xs}" by auto
  have "mset (map (\<lambda>i. xs ! i) ind_train) + mset (map (\<lambda>i. xs ! i) ind_test)
      = mset (map (\<lambda>i. xs ! i) (ind_test @ ind_train))"
    by simp
  also have "\<dots> = image_mset (\<lambda>i. xs ! i) (mset perm)"
    by (simp only: p(1) mset_map)
  also have "mset perm = mset [0..<length xs]"
    using perm by (metis mset_sort)
  also have "image_mset (\<lambda>i. xs ! i) (mset [0..<length xs]) = mset (map (\<lambda>i. xs ! i) [0..<length xs])"
    by simp
  also have "\<dots> = mset xs"
    by (simp only: map_nth)
  finally show "mset (map (\<lambda>i. xs ! i) ind_train) + mset (map (\<lambda>i. xs ! i) ind_test) = mset xs" .
qed

lemma shuffle_split_None:
  assumes "shuffle_split env df t None = Inr (train, test)"
  shows "train = safe_indexing df (fst (split_indices (rng_permutation env (length (rows df)))
                                     (length (rows df)) t))"
    and "test = safe_indexing df (snd (split_indices (rng_permutation env (length (rows df)))
                                     (length (rows df)) t))"
  using assms by (auto simp: shuffle_split_def Let_def split: if_splits prod.splits)

lemma rows_features: "rows (iloc_all_but_last (safe_indexing df ind)) = map butlast (map (\<lambda>i. rows df ! i) ind)"
  by (simp add: iloc_all_but_last_def safe_indexing_def)

lemma iloc_last_safe_indexing:
  "iloc_last (safe_indexing df ind) = Inr y \<Longrightarrow> y = map last (map (\<lambda>i. rows df ! i) ind)"
  by (auto simp: iloc_last_def safe_indexing_def split: if_splits)

lemma fitted_with_prints: "fitted_with (pre @ map (\<lambda>s. E_print [Text s]) ss @ post) = fitted_with pre @ fitted_with post"
  by (simp add: fitted_with_def map_filter_append map_filter_prints)

lemma evaluated_on_prints: "evaluated_on (pre @ map (\<lambda>s. E_print [Text s]) ss @ post) = evaluated_on pre @ evaluated_on post"
  by (simp add: evaluated_on_def map_filter_append map_filter_prints)

text \<open>
  Claim C8. In both scripts the evaluation data is held out. Whenever the library's random
  state yields a permutation of the row positions, the training positions and the test
  positions of the split are disjoint, together they are all positions of the loaded
  table (so the rows of the two sets together are the rows of the table, each once; in
  the cardiotocographic script the table is the sheet after \<^verbatim>\<open>dropna\<close> and the selection
  of its 22 columns), and
  the one call of \<^verbatim>\<open>fit\<close> receives the training rows only: their features and labels
  in the diabetes script; in the cardiotocographic script their features scaled by the
  scaler fitted on themselves and their labels one-hot encoded. The test rows go to
  \<^verbatim>\<open>evaluate\<close>. Rows are told apart by position: a table may hold the same values twice.
\<close>

theorem held_out_test_set:
  "(keras_predictor env = Inr ((), evs) \<and>
    read_csv_file env (os_path_join (os_getcwd env) ''02-keras-2L-diabetes-predict/diabetes.csv'')
      = Inr d \<and>
    sort (rng_permutation env (length (rows d))) = [0..<length (rows d)] \<longrightarrow>
      (\<exists>ind_train ind_test.
         split_indices (rng_permutation env (length (rows d))) (length (rows d)) (1 - DIVIDE_RATIO)
           = (ind_train, ind_test) \<and>
         set ind_train \<inter> set ind_test = {} \<and>
         set ind_train \<union> set ind_test = {0..<length (rows d)} \<and>
         mset (map (\<lambda>i. rows d ! i) ind_train) + mset (map (\<lambda>i. rows d ! i) ind_test)
           = mset (rows d) \<and>
         fitted_with evs = [(map butlast (map (\<lambda>i. rows d ! i) ind_train),
                             Series (map last (map (\<lambda>i. rows d ! i) ind_train)))] \<and>
         evaluated_on evs = [(map butlast (map (\<lambda>i. rows d ! i) ind_test),
                              Series (map last (map (\<lambda>i. rows d ! i) ind_test)))])) \<and>
   (main env' = Inr ((), evs') \<and>
    read_excel_file env' ''CTG.xls'' ''Raw Data'' ''G:AN'' = Inr sheet \<and>
    loc_columns (dropna sheet) CTG_columns = Inr CTG_data \<and>
    sort (rng_permutation env' (length (rows CTG_data))) = [0..<length (rows CTG_data)] \<longrightarrow>
      (\<exists>ind_train ind_test X_train X_test encoder y_train encoder' y_test.
         split_indices (rng_permutation env' (length (rows CTG_data))) (length (rows CTG_data))
             (2 / 10)
           = (ind_train, ind_test) \<and>
         set ind_train \<inter> set ind_test = {} \<and>
         set ind_train \<union> set ind_test = {0..<length (rows CTG_data)} \<and>
         mset (map (\<lambda>i. rows CTG_data ! i) ind_train)
             + mset (map (\<lambda>i. rows CTG_data ! i) ind_test)
           = mset (rows CTG_data) \<and>
         minmax_values env' (map butlast (map (\<lambda>i. rows CTG_data ! i) ind_train))
             (map butlast (map (\<lambda>i. rows CTG_data ! i) ind_train)) = Inr X_train \<and>
         one_hot_fit_transform OneHotEncoder_new
             (reshape_col (map last (map (\<lambda>i. rows CTG_data ! i) ind_train)))
           = Inr (encoder, y_train) \<and>
         minmax_values env' (map butlast (map (\<lambda>i. rows CTG_data ! i) ind_train))
             (map butlast (map (\<lambda>i. rows CTG_data ! i) ind_test)) = Inr X_test \<and>
         one_hot_fit_transform encoder
             (reshape_col (map last (map (\<lambda>i. rows CTG_data ! i) ind_test)))
           = Inr (encoder', y_test) \<and>
         fitted_with evs' = [(astype_float16 env' X_train, Array y_train)] \<and>
         evaluated_on evs' = [(astype_float16 env' X_test, Array y_test)]))"
proof (intro conjI impI; elim conjE)
  assume run: "keras_predictor env = Inr ((), evs)"
    and d: "read_csv_file env (os_path_join (os_getcwd env) ''02-keras-2L-diabetes-predict/diabetes.csv'')
      = Inr d"
    and perm: "sort (rng_permutation env (length (rows d))) = [0..<length (rows d)]"
  obtain ind_train ind_test where
    si: "split_indices (rng_permutation env (length (rows d))) (length (rows d)) (1 - DIVIDE_RATIO)
           = (ind_train, ind_test)"
    by (cases "split_indices (rng_permutation env (length (rows d))) (length (rows d)) (1 - DIVIDE_RATIO)")
  from keras_predictor_events [OF run] obtain d' train_dataset test_set y_train y_test ss pre where
    d': "read_csv_file env (os_path_join (os_getcwd env) ''02-keras-2L-diabetes-predict/diabetes.csv'') = Inr d'" and
    sp: "shuffle_split env d' (1 - DIVIDE_RATIO) None = Inr (train_dataset, test_set)" and
    ytr: "iloc_last train_dataset = Inr y_train" and
    yte: "iloc_last test_set = Inr y_test" and
    evs: "evs = pre @ map (\<lambda>s. E_print [Text s]) ss" and
    fw: "fitted_with pre = [(rows (iloc_all_but_last train_dataset), Series y_train)]" and
    eo: "evaluated_on pre = [(rows (iloc_all_but_last test_set), Series y_test)]"
    by (elim exE conjE)
       (rule that, assumption, assumption, assumption, assumption, assumption,
        simp_all add: fitted_with_def evaluated_on_def List.map_filter_simps)
  from d d' have dd: "d' = d" by simp
  from shuffle_split_None [OF sp] si
  have tr: "train_dataset = safe_indexing d ind_train" and te: "test_set = safe_indexing d ind_test"
    by (simp_all add: dd)
  note part = split_rows_partition [OF perm si]
  have "fitted_with evs = [(map butlast (map (\<lambda>i. rows d ! i) ind_train),
                             Series (map last (map (\<lambda>i. rows d ! i) ind_train)))]"
    using iloc_last_safe_indexing [OF ytr [unfolded tr]]
    by (simp only: evs fitted_with_prints [where post = "[]", simplified] fw tr rows_features)
       (simp add: fitted_with_def)
  moreover have "evaluated_on evs = [(map butlast (map (\<lambda>i. rows d ! i) ind_test),
                              Series (map last (map (\<lambda>i. rows d ! i) ind_test)))]"
    using iloc_last_safe_indexing [OF yte [unfolded te]]
    by (simp only: evs evaluated_on_prints [where post = "[]", simplified] eo te rows_features)
       (simp add: evaluated_on_def)
  ultimately show "\<exists>ind_train ind_test.
         split_indices (rng_permutation env (length (rows d))) (length (rows d)) (1 - DIVIDE_RATIO)
           = (ind_train, ind_test) \<and>
         set ind_train \<inter> set ind_test = {} \<and>
         set ind_train \<union> set ind_test = {0..<length (rows d)} \<and>
         mset (map (\<lambda>i. rows d ! i) ind_train) + mset (map (\<lambda>i. rows d ! i) ind_test)
           = mset (rows d) \<and>
         fitted_with evs = [(map butlast (map (\<lambda>i. rows d ! i) ind_train),
                             Series (map last (map (\<lambda>i. rows d ! i) ind_train)))] \<and>
         evaluated_on evs = [(map butlast (map (\<lambda>i. rows d ! i) ind_test),
                              Series (map last (map (\<lambda>i. rows d ! i) ind_test)))]"
    using si part by blast
next
  assume run: "main env' = Inr ((), evs')"
    and sh: "read_excel_file env' ''CTG.xls'' ''Raw Data'' ''G:AN'' = Inr sheet"
    and lc: "loc_columns (dropna sheet) CTG_columns = Inr CTG_data"
    and perm: "sort (rng_permutation env' (length (rows CTG_data))) = [0..<length (rows CTG_data)]"
  obtain ind_train ind_test where
    si: "split_indices (rng_permutation env' (length (rows CTG_data))) (length (rows CTG_data)) (2 / 10)
           = (ind_train, ind_test)"
    by (cases "split_indices (rng_permutation env' (length (rows CTG_data))) (length (rows CTG_data)) (2 / 10)")
  from main_events [OF run] obtain sheet' CTG_data' training_set test_set y_train y_test
      X_train X_test encoder y_train' encoder' y_test' ss pre post where
    f1: "read_excel_file env' ''CTG.xls'' ''Raw Data'' ''G:AN'' = Inr sheet'" and
    f2: "loc_columns (dropna sheet') CTG_columns = Inr CTG_data'" and
    sp: "shuffle_split env' CTG_data' (2 / 10) None = Inr (training_set, test_set)" and
    ytr: "iloc_last training_set = Inr y_train" and
    yte: "iloc_last test_set = Inr y_test" and
    xtr: "minmax_values env' (rows (iloc_all_but_last training_set)) (rows (iloc_all_but_last training_set))
      = Inr X_train" and
    xte: "minmax_values env' (rows (iloc_all_but_last training_set)) (rows (iloc_all_but_last test_set))
      = Inr X_test" and
    e1: "one_hot_fit_transform OneHotEncoder_new (reshape_col y_train) = Inr (encoder, y_train')" and
    e2: "one_hot_fit_transform encoder (reshape_col y_test) = Inr (encoder', y_test')" and
    evs: "evs' = pre @ map (\<lambda>s. E_print [Text s]) ss @ post" and
    fw: "fitted_with pre = [(astype_float16 env' X_train, Array y_train')]" "fitted_with post = []" and
    eo: "evaluated_on pre = [(astype_float16 env' X_test, Array y_test')]" "evaluated_on post = []"
    by (elim exE conjE)
       (rule that, assumption, assumption, assumption, assumption, assumption, assumption,
        assumption, assumption, assumption, assumption,
        simp_all add: fitted_with_def evaluated_on_def List.map_filter_simps)
  from sh lc f1 f2 have dd: "CTG_data' = CTG_data" by simp
  from shuffle_split_None [OF sp] si
  have tr: "training_set = safe_indexing CTG_data ind_train"
    and te: "test_set = safe_indexing CTG_data ind_test"
    by (simp_all add: dd)
  note part = split_rows_partition [OF perm si]
  have ytr': "y_train = map last (map (\<lambda>i. rows CTG_data ! i) ind_train)"
    using iloc_last_safe_indexing [OF ytr [unfolded tr]] .
  have yte': "y_test = map last (map (\<lambda>i. rows CTG_data ! i) ind_test)"
    using iloc_last_safe_indexing [OF yte [unfolded te]] .
  have "fitted_with evs' = [(astype_float16 env' X_train, Array y_train')]"
    by (simp only: evs fitted_with_prints fw) simp
  moreover have "evaluated_on evs' = [(astype_float16 env' X_test, Array y_test')]"
    by (simp only: evs evaluated_on_prints eo) simp
  ultimately show "\<exists>ind_train ind_test X_train X_test encoder y_train encoder' y_test.
         split_indices (rng_permutation env' (length (rows CTG_data))) (length (rows CTG_data))
             (2 / 10)
           = (ind_train, ind_test) \<and>
         set ind_train \<inter> set ind_test = {} \<and>
         set ind_train \<union> set ind_test = {0..<length (rows CTG_data)} \<and>
         mset (map (\<lambda>i. rows CTG_data ! i) ind_train)
             + mset (map (\<lambda>i. rows CTG_data ! i) ind_test)
           = mset (rows CTG_data) \<and>
         minmax_values env' (map butlast (map (\<lambda>i. rows CTG_data ! i) ind_train))
             (map butlast (map (\<lambda>i. rows CTG_data ! i) ind_train)) = Inr X_train \<and>
         one_hot_fit_transform OneHotEncoder_new
             (reshape_col (map last (map (\<lambda>i. rows CTG_data ! i) ind_train)))
           = Inr (encoder, y_train) \<and>
         minmax_values env' (map butlast (map (\<lambda>i. rows CTG_data ! i) ind_train))
             (map butlast (map (\<lambda>i. rows CTG_data ! i) ind_test)) = Inr X_test \<and>
         one_hot_fit_transform encoder
             (reshape_col (map last (map (\<lambda>i. rows CTG_data ! i) ind_test)))
           = Inr (encoder', y_test) \<and>
         fitted_with evs' = [(astype_float16 env' X_train, Array y_train)] \<and>
         evaluated_on evs' = [(astype_float16 env' X_test, Array y_test)]"
    using si part xtr xte e1 e2 unfolding tr te rows_features ytr' yte' by blast
qed

theorem held_out_test_set_witness:
  "completes (keras_predictor example_env) \<and>
   sort (rng_permutation example_env 5) = [0..<5] \<and>
   split_indices (rng_permutation example_env 5) 5 (1 - DIVIDE_RATIO) = ([0, 4, 1, 2], [3]) \<and>
   fitted_with (log_of (keras_predictor example_env))
     = [([[Some 148, Some 33], [Some 137, Some 43], [Some 85, Some 26], [Some 183, Some 23]],
         Series [Some 1, Some 1, Some 0, Some 1])] \<and>
   evaluated_on (log_of (keras_predictor example_env)) = [([[Some 89, Some 28]], Series [Some 0])] \<and>
   completes (main example_env) \<and>
   sort (rng_permutation example_env 15) = [0..<15] \<and>
   split_indices (rng_permutation example_env 15) 15 (2 / 10)
     = ([0, 2, 3, 4, 6, 7, 8, 9, 10, 11, 13, 14], [1, 5, 12]) \<and>
   length (fitted_with (log_of (main example_env))) = 1 \<and>
   length (evaluated_on (log_of (main example_env))) = 1"
proof -
  have c1: "completes (keras_predictor example_env)" by code_simp
  have c2: "completes (main example_env)" by code_simp
  have rd: "read_csv_file example_env
      (os_path_join (os_getcwd example_env) ''02-keras-2L-diabetes-predict/diabetes.csv'')
      = Inr example_diabetes_csv"
    by code_simp
  have len: "length (rows example_diabetes_csv) = 5" by (simp add: example_diabetes_csv_def)
  have pm: "sort (rng_permutation example_env 5) = [0..<5]" by code_simp
  have si: "split_indices (rng_permutation example_env 5) 5 (1 - DIVIDE_RATIO) = ([0, 4, 1, 2], [3])"
    by code_simp
  have sh: "read_excel_file example_env ''CTG.xls'' ''Raw Data'' ''G:AN'' = Inr example_CTG_xls"
    by code_simp
  have "map_sum id (\<lambda>f. length (rows f)) (loc_columns (dropna example_CTG_xls) CTG_columns) = Inr 15"
    by code_simp
  then obtain CTG_data where lc: "loc_columns (dropna example_CTG_xls) CTG_columns = Inr CTG_data"
    and len2: "length (rows CTG_data) = 15"
    by (cases "loc_columns (dropna example_CTG_xls) CTG_columns") auto
  have pm2: "sort (rng_permutation example_env 15) = [0..<15]" by code_simp
  have si2: "split_indices (rng_permutation example_env 15) 15 (2 / 10)
     = ([0, 2, 3, 4, 6, 7, 8, 9, 10, 11, 13, 14], [1, 5, 12])"
    by code_simp
  obtain evs where r1: "keras_predictor example_env = Inr ((), evs)"
    using c1 by (cases "keras_predictor example_env") (auto simp: completes_def)
  obtain evs' where r2: "main example_env = Inr ((), evs')"
    using c2 by (cases "main example_env") (auto simp: completes_def)
  note inst = held_out_test_set [of example_env evs example_diabetes_csv example_env evs'
      example_CTG_xls CTG_data]
  from inst r1 rd pm si have
    "fitted_with evs = [(map butlast (map (\<lambda>i. rows example_diabetes_csv ! i) [0, 4, 1, 2]),
                         Series (map last (map (\<lambda>i. rows example_diabetes_csv ! i) [0, 4, 1, 2])))]"
    and "evaluated_on evs = [(map butlast (map (\<lambda>i. rows example_diabetes_csv ! i) [3]),
                         Series (map last (map (\<lambda>i. rows example_diabetes_csv ! i) [3])))]"
    by (auto simp: len)
  then have d: "fitted_with evs
     = [([[Some 148, Some 33], [Some 137, Some 43], [Some 85, Some 26], [Some 183, Some 23]],
         Series [Some 1, Some 1, Some 0, Some 1])]"
    "evaluated_on evs = [([[Some 89, Some 28]], Series [Some 0])]"
    by (simp_all add: example_diabetes_csv_def)
  from inst r2 sh lc pm2 have "length (fitted_with evs') = 1" and "length (evaluated_on evs') = 1"
    by (auto simp: len2)
  with d c1 c2 pm pm2 si si2 show ?thesis
    by (simp add: r1 r2 log_of_def)
qed

section \<open>Seeds, splits and the reported accuracy\<close>

lemma printed_numbers_prints:
  "printed_numbers (pre @ map (\<lambda>s. E_print [Text s]) ss @ post)
     = printed_numbers pre @ printed_numbers post"
  by (induction ss) (simp_all add: printed_numbers_def List.map_filter_simps)

lemma seeds_passed_prints:
  "seeds_passed (pre @ map (\<lambda>s. E_print [Text s]) ss @ post) = seeds_passed pre @ seeds_passed post"
  by (simp add: seeds_passed_def map_filter_append map_filter_prints)

lemma keras_predictor_data:
  assumes "keras_predictor env = Inr ((), evs)"
  shows "\<exists>d train_dataset test_set y_train y_test acc.
    read_csv_file env (os_path_join (os_getcwd env) ''02-keras-2L-diabetes-predict/diabetes.csv'') = Inr d \<and>
    shuffle_split env d (1 - DIVIDE_RATIO) None = Inr (train_dataset, test_set) \<and>
    iloc_last train_dataset = Inr y_train \<and>
    iloc_last test_set = Inr y_test \<and>
    0 \<le> acc \<and> acc \<le> 1 \<and>
    fitted_with evs = [(rows (iloc_all_but_last train_dataset), Series y_train)] \<and>
    evaluated_on evs = [(rows (iloc_all_but_last test_set), Series y_test)] \<and>
    seeds_passed evs = [None] \<and>
    printed_numbers evs = [Some acc]"
proof -
  from keras_predictor_events [OF assms] obtain d train_dataset test_set y_train y_test acc ss pre where
    f: "read_csv_file env (os_path_join (os_getcwd env) ''02-keras-2L-diabetes-predict/diabetes.csv'') = Inr d"
       "shuffle_split env d (1 - DIVIDE_RATIO) None = Inr (train_dataset, test_set)"
       "iloc_last train_dataset = Inr y_train"
       "iloc_last test_set = Inr y_test"
       "0 \<le> acc" "acc \<le> 1" and
    evs: "evs = pre @ map (\<lambda>s. E_print [Text s]) ss" and
    g: "fitted_with pre = [(rows (iloc_all_but_last train_dataset), Series y_train)]"
       "evaluated_on pre = [(rows (iloc_all_but_last test_set), Series y_test)]"
       "seeds_passed pre = [None]"
       "printed_numbers pre = [Some acc]"
    by (elim exE conjE)
       (rule that, assumption, assumption, assumption, assumption, assumption, assumption,
        assumption,
        simp_all add: fitted_with_def evaluated_on_def seeds_passed_def printed_numbers_def
          List.map_filter_simps)
  have "fitted_with evs = [(rows (iloc_all_but_last train_dataset), Series y_train)]"
    using g(1) fitted_with_prints [of pre ss "[]"] by (simp add: evs fitted_with_def)
  moreover have "evaluated_on evs = [(rows (iloc_all_but_last test_set), Series y_test)]"
    using g(2) evaluated_on_prints [of pre ss "[]"] by (simp add: evs evaluated_on_def)
  moreover have "seeds_passed evs = [None]"
    using g(3) seeds_passed_prints [of pre ss "[]"] by (simp add: evs seeds_passed_def)
  moreover have "printed_numbers evs = [Some acc]"
    using g(4) printed_numbers_prints [of pre ss "[]"] by (simp add: evs printed_numbers_def)
  ultimately show ?thesis using f by blast
qed

lemma main_data:
  assumes "main env = Inr ((), evs)"
  shows "\<exists>sheet CTG_data training_set test_set y_train y_test X_train X_test
           encoder y_train' encoder' y_test' l acc.
    read_excel_file env ''CTG.xls'' ''Raw Data'' ''G:AN'' = Inr sheet \<and>
    loc_columns (dropna sheet) CTG_columns = Inr CTG_data \<and>
    shuffle_split env CTG_data (2 / 10) None = Inr (training_set, test_set) \<and>
    iloc_last training_set = Inr y_train \<and>
    iloc_last test_set = Inr y_test \<and>
    minmax_values env (rows (iloc_all_but_last training_set)) (rows (iloc_all_but_last training_set))
      = Inr X_train \<and>
    minmax_values env (rows (iloc_all_but_last training_set)) (rows (iloc_all_but_last test_set))
      = Inr X_test \<and>
    one_hot_fit_transform OneHotEncoder_new (reshape_col y_train) = Inr (encoder, y_train') \<and>
    one_hot_fit_transform encoder (reshape_col y_test) = Inr (encoder', y_test') \<and>
    0 \<le> acc \<and> acc \<le> 1 \<and>
    fitted_with evs = [(astype_float16 env X_train, Array y_train')] \<and>
    evaluated_on evs = [(astype_float16 env X_test, Array y_test')] \<and>
    seeds_passed evs = [None] \<and>
    printed_numbers evs = [l, Some acc]"
proof -
  from main_events [OF assms] obtain sheet CTG_data training_set test_set y_train y_test
      X_train X_test encoder y_train' encoder' y_test' l acc ss pre post where
    f: "read_excel_file env ''CTG.xls'' ''Raw Data'' ''G:AN'' = Inr sheet"
       "loc_columns (dropna sheet) CTG_columns = Inr CTG_data"
       "shuffle_split env CTG_data (2 / 10) None = Inr (training_set, test_set)"
       "iloc_last training_set = Inr y_train"
       "iloc_last test_set = Inr y_test"
       "minmax_values env (rows (iloc_all_but_last training_set)) (rows (iloc_all_but_last training_set))
      = Inr X_train"
       "minmax_values env (rows (iloc_all_but_last training_set)) (rows (iloc_all_but_last test_set))
      = Inr X_test"
       "one_hot_fit_transform OneHotEncoder_new (reshape_col y_train) = Inr (encoder, y_train')"
       "one_hot_fit_transform encoder (reshape_col y_test) = Inr (encoder', y_test')"
       "0 \<le> acc" "acc \<le> 1" and
    evs: "evs = pre @ map (\<lambda>s. E_print [Text s]) ss @ post" and
    g: "fitted_with pre = [(astype_float16 env X_train, Array y_train')]" "fitted_with post = []"
       "evaluated_on pre = [(astype_float16 env X_test, Array y_test')]" "evaluated_on post = []"
       "seeds_passed pre = [None]" "seeds_passed post = []"
       "printed_numbers pre = [l, Some acc]" "printed_numbers post = []"
    by (elim exE conjE)
       (rule that, assumption, assumption, assumption, assumption, assumption, assumption,
        assumption, assumption, assumption, assumption, assumption, assumption,
        simp_all add: fitted_with_def evaluated_on_def seeds_passed_def printed_numbers_def
          List.map_filter_simps)
  have "fitted_with evs = [(astype_float16 env X_train, Array y_train')]"
    by (simp only: evs fitted_with_prints g) simp
  moreover have "evaluated_on evs = [(astype_float16 env X_test, Array y_test')]"
    by (simp only: evs evaluated_on_prints g) simp
  moreover have "seeds_passed evs = [None]"
    by (simp only: evs seeds_passed_prints g) simp
  moreover have "printed_numbers evs = [l, Some acc]"
    by (simp only: evs printed_numbers_prints g) simp
  ultimately show ?thesis using f by blast
qed

lemma shuffle_split_same_draw:
  "rng_permutation env1 = rng_permutation env2 \<Longrightarrow>
     shuffle_split env1 df t None = shuffle_split env2 df t None"
  by (simp add: shuffle_split_def)

text \<open>
  Claim C4 says that every run on a fixed dataset and seed executes without error and
  reports an accuracy in [0,1], the scripts accepting a seed that fixes the split. Neither
  script takes a seed: \<^verbatim>\<open>train_test_split\<close> is called with \<^verbatim>\<open>test_size\<close> only, so
  \<^verbatim>\<open>random_state\<close> is \<^verbatim>\<open>None\<close> and the permutation comes from the global random
  state. On two machines that hold the same files and differ in that state only, both
  scripts complete and evaluate on different test sets. A run can also fail on a fixed
  dataset: on a diabetes table of one row the split raises ValueError.
\<close>

theorem seed_and_split_as_stated_fail:
  "os_getcwd example_env_reshuffled = os_getcwd example_env \<and>
   read_csv_file example_env_reshuffled = read_csv_file example_env \<and>
   read_excel_file example_env_reshuffled = read_excel_file example_env \<and>
   completes (keras_predictor example_env) \<and>
   completes (keras_predictor example_env_reshuffled) \<and>
   seeds_passed (log_of (keras_predictor example_env)) = [None] \<and>
   evaluated_on (log_of (keras_predictor example_env)) = [([[Some 89, Some 28]], Series [Some 0])] \<and>
   evaluated_on (log_of (keras_predictor example_env_reshuffled))
     = [([[Some 148, Some 33]], Series [Some 1])] \<and>
   completes (main example_env) \<and>
   completes (main example_env_reshuffled) \<and>
   seeds_passed (log_of (main example_env)) = [None] \<and>
   map snd (evaluated_on (log_of (main example_env))) = [Array [[0, 1, 0], [0, 0, 1], [1, 0, 0]]] \<and>
   map snd (evaluated_on (log_of (main example_env_reshuffled)))
     = [Array [[1, 0, 0], [0, 1, 0], [0, 0, 1]]] \<and>
   keras_predictor example_env_one_row = Inl ValueError"
proof -
  have a: "os_getcwd example_env_reshuffled = os_getcwd example_env"
    "read_csv_file example_env_reshuffled = read_csv_file example_env"
    "read_excel_file example_env_reshuffled = read_excel_file example_env"
    by (simp_all add: example_env_reshuffled_def)
  have b: "completes (keras_predictor example_env)"
    "completes (keras_predictor example_env_reshuffled)"
    "seeds_passed (log_of (keras_predictor example_env)) = [None]"
    "evaluated_on (log_of (keras_predictor example_env)) = [([[Some 89, Some 28]], Series [Some 0])]"
    "evaluated_on (log_of (keras_predictor example_env_reshuffled))
     = [([[Some 148, Some 33]], Series [Some 1])]"
    by code_simp+
  have c: "completes (main example_env)"
    "completes (main example_env_reshuffled)"
    "seeds_passed (log_of (main example_env)) = [None]"
    "map snd (evaluated_on (log_of (main example_env))) = [Array [[0, 1, 0], [0, 0, 1], [1, 0, 0]]]"
    "map snd (evaluated_on (log_of (main example_env_reshuffled)))
     = [Array [[1, 0, 0], [0, 1, 0], [0, 0, 1]]]"
    by code_simp+
  have d: "keras_predictor example_env_one_row = Inl ValueError"
    by code_simp
  from a b c d show ?thesis by blast
qed


text \<open>
  Claim C4, amended. Neither script accepts or passes a seed: the split is called with
  \<^verbatim>\<open>random_state=None\<close>. Two complete runs of a script on the same data for which the
  library draws the same permutation (and, for the cardiotocographic script, scales and
  rounds alike) train and evaluate on the same split, whatever else differs. Every
  complete run reports one accuracy, and it lies in [0,1]: the only number the diabetes
  script prints, and the second of the two numbers (loss, accuracy) the cardiotocographic
  script prints.
\<close>

theorem reported_accuracy_and_split:
  "(keras_predictor env = Inr ((), evs) \<longrightarrow>
      seeds_passed evs = [None] \<and>
      (\<exists>acc. printed_numbers evs = [Some acc] \<and> 0 \<le> acc \<and> acc \<le> 1)) \<and>
   (main env = Inr ((), evs') \<longrightarrow>
      seeds_passed evs' = [None] \<and>
      (\<exists>l acc. printed_numbers evs' = [l, Some acc] \<and> 0 \<le> acc \<and> acc \<le> 1)) \<and>
   (keras_predictor env1 = Inr ((), evs1) \<and> keras_predictor env2 = Inr ((), evs2) \<and>
    os_getcwd env1 = os_getcwd env2 \<and> read_csv_file env1 = read_csv_file env2 \<and>
    rng_permutation env1 = rng_permutation env2 \<longrightarrow>
      evaluated_on evs1 = evaluated_on evs2 \<and> fitted_with evs1 = fitted_with evs2) \<and>
   (main env1 = Inr ((), evs1') \<and> main env2 = Inr ((), evs2') \<and>
    read_excel_file env1 = read_excel_file env2 \<and>
    rng_permutation env1 = rng_permutation env2 \<and>
    minmax_values env1 = minmax_values env2 \<and> float16 env1 = float16 env2 \<longrightarrow>
      evaluated_on evs1' = evaluated_on evs2' \<and> fitted_with evs1' = fitted_with evs2')"
proof (intro conjI impI; (elim conjE)?)
  assume "keras_predictor env = Inr ((), evs)"
  from keras_predictor_data [OF this]
  show "seeds_passed evs = [None]"
    and "\<exists>acc. printed_numbers evs = [Some acc] \<and> 0 \<le> acc \<and> acc \<le> 1"
    by blast+
next
  assume "main env = Inr ((), evs')"
  from main_data [OF this]
  show "seeds_passed evs' = [None]"
    and "\<exists>l acc. printed_numbers evs' = [l, Some acc] \<and> 0 \<le> acc \<and> acc \<le> 1"
    by blast+
next
  assume r1: "keras_predictor env1 = Inr ((), evs1)" and r2: "keras_predictor env2 = Inr ((), evs2)"
    and same: "os_getcwd env1 = os_getcwd env2" "read_csv_file env1 = read_csv_file env2"
      "rng_permutation env1 = rng_permutation env2"
  from keras_predictor_data [OF r1] obtain d tr te ytr yte where
    a: "read_csv_file env1 (os_path_join (os_getcwd env1) ''02-keras-2L-diabetes-predict/diabetes.csv'') = Inr d"
       "shuffle_split env1 d (1 - DIVIDE_RATIO) None = Inr (tr, te)"
       "iloc_last tr = Inr ytr" "iloc_last te = Inr yte"
       "fitted_with evs1 = [(rows (iloc_all_but_last tr), Series ytr)]"
       "evaluated_on evs1 = [(rows (iloc_all_but_last te), Series yte)]"
    by blast
  from keras_predictor_data [OF r2] obtain d' tr' te' ytr' yte' where
    b: "read_csv_file env2 (os_path_join (os_getcwd env2) ''02-keras-2L-diabetes-predict/diabetes.csv'') = Inr d'"
       "shuffle_split env2 d' (1 - DIVIDE_RATIO) None = Inr (tr', te')"
       "iloc_last tr' = Inr ytr'" "iloc_last te' = Inr yte'"
       "fitted_with evs2 = [(rows (iloc_all_but_last tr'), Series ytr')]"
       "evaluated_on evs2 = [(rows (iloc_all_but_last te'), Series yte')]"
    by blast
  from a(1) b(1) same have d: "d' = d" by simp
  from a(2) b(2) shuffle_split_same_draw [OF same(3)] have "tr' = tr" "te' = te"
    by (simp_all add: d)
  with a b show "evaluated_on evs1 = evaluated_on evs2" and "fitted_with evs1 = fitted_with evs2"
    by simp_all
next
  assume r1: "main env1 = Inr ((), evs1')" and r2: "main env2 = Inr ((), evs2')"
    and same: "read_excel_file env1 = read_excel_file env2"
      "rng_permutation env1 = rng_permutation env2"
      "minmax_values env1 = minmax_values env2" "float16 env1 = float16 env2"
  from main_data [OF r1] obtain sheet d tr te ytr yte X_train X_test enc Ytr enc' Yte where
    a: "read_excel_file env1 ''CTG.xls'' ''Raw Data'' ''G:AN'' = Inr sheet"
       "loc_columns (dropna sheet) CTG_columns = Inr d"
       "shuffle_split env1 d (2 / 10) None = Inr (tr, te)"
       "iloc_last tr = Inr ytr" "iloc_last te = Inr yte"
       "minmax_values env1 (rows (iloc_all_but_last tr)) (rows (iloc_all_but_last tr)) = Inr X_train"
       "minmax_values env1 (rows (iloc_all_but_last tr)) (rows (iloc_all_but_last te)) = Inr X_test"
       "one_hot_fit_transform OneHotEncoder_new (reshape_col ytr) = Inr (enc, Ytr)"
       "one_hot_fit_transform enc (reshape_col yte) = Inr (enc', Yte)"
       "fitted_with evs1' = [(astype_float16 env1 X_train, Array Ytr)]"
       "evaluated_on evs1' = [(astype_float16 env1 X_test, Array Yte)]"
    by blast
  from main_data [OF r2] obtain sheet2 d2 tr2 te2 ytr2 yte2 X_train2 X_test2 enc2 Ytr2 enc2' Yte2 where
    b: "read_excel_file env2 ''CTG.xls'' ''Raw Data'' ''G:AN'' = Inr sheet2"
       "loc_columns (dropna sheet2) CTG_columns = Inr d2"
       "shuffle_split env2 d2 (2 / 10) None = Inr (tr2, te2)"
       "iloc_last tr2 = Inr ytr2" "iloc_last te2 = Inr yte2"
       "minmax_values env2 (rows (iloc_all_but_last tr2)) (rows (iloc_all_but_last tr2)) = Inr X_train2"
       "minmax_values env2 (rows (iloc_all_but_last tr2)) (rows (iloc_all_but_last te2)) = Inr X_test2"
       "one_hot_fit_transform OneHotEncoder_new (reshape_col ytr2) = Inr (enc2, Ytr2)"
       "one_hot_fit_transform enc2 (reshape_col yte2) = Inr (enc2', Yte2)"
       "fitted_with evs2' = [(astype_float16 env2 X_train2, Array Ytr2)]"
       "evaluated_on evs2' = [(astype_float16 env2 X_test2, Array Yte2)]"
    by blast
  from a(1) b(1) same(1) have "sheet2 = sheet" by simp
  with a(2) b(2) have d: "d2 = d" by simp
  from a(3) b(3) shuffle_split_same_draw [OF same(2)] have t: "tr2 = tr" "te2 = te"
    by (simp_all add: d)
  with a(4,5) b(4,5) have y: "ytr2 = ytr" "yte2 = yte" by simp_all
  from a(6,7) b(6,7) have x: "X_train2 = X_train" "X_test2 = X_test"
    by (simp_all add: t same(3))
  from a(8) b(8) have e: "enc2 = enc" "Ytr2 = Ytr" by (simp_all add: y)
  with a(9) b(9) have "Yte2 = Yte" by (simp add: y)
  with a(10,11) b(10,11) x e
  show "evaluated_on evs1' = evaluated_on evs2'" and "fitted_with evs1' = fitted_with evs2'"
    by (simp_all add: astype_float16_def same(4))
qed

theorem reported_accuracy_and_split_witness:
  "completes (keras_predictor example_env) \<and>
   seeds_passed (log_of (keras_predictor example_env)) = [None] \<and>
   printed_numbers (log_of (keras_predictor example_env)) = [Some 0] \<and>
   completes (main example_env) \<and>
   seeds_passed (log_of (main example_env)) = [None] \<and>
   printed_numbers (log_of (main example_env)) = [Some (1 / 2), Some 0] \<and>
   completes (keras_predictor example_env_retrained) \<and>
   completes (main example_env_retrained) \<and>
   rng_permutation example_env_retrained = rng_permutation example_env \<and>
   evaluated_on (log_of (keras_predictor example_env_retrained))
     = evaluated_on (log_of (keras_predictor example_env)) \<and>
   evaluated_on (log_of (main example_env_retrained)) = evaluated_on (log_of (main example_env))"
proof -
  have c: "completes (keras_predictor example_env)" "completes (main example_env)"
    "completes (keras_predictor example_env_retrained)" "completes (main example_env_retrained)"
    by code_simp+
  have p: "printed_numbers (log_of (keras_predictor example_env)) = [Some 0]"
    "printed_numbers (log_of (main example_env)) = [Some (1 / 2), Some 0]"
    by code_simp+
  have same: "os_getcwd example_env_retrained = os_getcwd example_env"
    "read_csv_file example_env_retrained = read_csv_file example_env"
    "read_excel_file example_env_retrained = read_excel_file example_env"
    "rng_permutation example_env_retrained = rng_permutation example_env"
    "minmax_values example_env_retrained = minmax_values example_env"
    "float16 example_env_retrained = float16 example_env"
    by (simp_all add: example_env_retrained_def)
  obtain evs where r1: "keras_predictor example_env = Inr ((), evs)"
    using c(1) by (cases "keras_predictor example_env") (auto simp: completes_def)
  obtain evs' where r2: "main example_env = Inr ((), evs')"
    using c(2) by (cases "main example_env") (auto simp: completes_def)
  obtain evs2 where r3: "keras_predictor example_env_retrained = Inr ((), evs2)"
    using c(3) by (cases "keras_predictor example_env_retrained") (auto simp: completes_def)
  obtain evs2' where r4: "main example_env_retrained = Inr ((), evs2')"
    using c(4) by (cases "main example_env_retrained") (auto simp: completes_def)
  note inst = reported_accuracy_and_split [where env = example_env and evs = evs and evs' = evs'
      and ?env1.0 = example_env_retrained and ?evs1.0 = evs2 and ?env2.0 = example_env
      and ?evs2.0 = evs and evs1' = evs2' and evs2' = evs']
  from inst r1 r2 have s: "seeds_passed evs = [None]" "seeds_passed evs' = [None]"
    by blast+
  from inst r1 r3 same have e1: "evaluated_on evs2 = evaluated_on evs"
    by blast
  from inst r2 r4 same have e2: "evaluated_on evs2' = evaluated_on evs'"
    by blast
  from c p s e1 e2 same(4) show ?thesis
    by (simp add: r1 r2 r3 r4 log_of_def)
qed


section \<open>The encoder is fitted again on the test labels\<close>

lemma first_index_map: "first_index P (map f xs) = first_index (\<lambda>x. P (f x)) xs"
  by (induction xs) simp_all

lemma first_index_append: "\<exists>x \<in> set xs. P x \<Longrightarrow> first_index P (xs @ ys) = first_index P xs"
  by (induction xs) auto

lemma first_index_sorted:
  fixes v :: "'a::linorder"
  shows "sorted xs \<Longrightarrow> distinct xs \<Longrightarrow> v \<in> set xs \<Longrightarrow>
     first_index (\<lambda>u. u = v) xs = card {u \<in> set xs. u < v}"
proof (induction xs)
  case Nil
  then show ?case by simp
next
  case (Cons a xs)
  show ?case
  proof (cases "a = v")
    case True
    with Cons.prems have "{u \<in> set (a # xs). u < v} = {}" by auto
    with True show ?thesis by simp
  next
    case False
    with Cons.prems have v: "v \<in> set xs" and lt: "a < v" and a: "a \<notin> set xs" by auto
    have "{u \<in> set (a # xs). u < v} = insert a {u \<in> set xs. u < v}"
      using lt by auto
    moreover have "a \<notin> {u \<in> set xs. u < v}" using a by simp
    ultimately have "card {u \<in> set (a # xs). u < v} = Suc (card {u \<in> set xs. u < v})"
      by simp
    moreover have "first_index (\<lambda>u. u = v) xs = card {u \<in> set xs. u < v}"
      using Cons.IH Cons.prems v by simp
    ultimately show ?thesis using False by simp
  qed
qed

lemma set_present: "set (List.map_filter (\<lambda>c. c) ys) = {u. Some u \<in> set ys}"
  by (induction ys) (auto simp: List.map_filter_simps split: option.splits)

lemma unique_sorted_by_set:
  "unique_sorted ys = map Some (sorted_list_of_set {u. Some u \<in> set ys})
                       @ (if None \<in> set ys then [None] else [])"
  by (simp add: unique_sorted_def sorted_list_of_set_sort_remdups [symmetric] set_present)

lemma label_column_index: "label_column ys l = first_index (\<lambda>k. k = l) (unique_sorted ys)"
proof -
  have "(\<lambda>x. (if l = x then 1 else (0::nat)) = 1) = (\<lambda>k. k = l)" by auto
  then show ?thesis by (simp add: label_column_def encode_single first_index_map)
qed

lemma label_column_count:
  assumes "Some v \<in> set ys"
  shows "label_column ys (Some v) = card {u. Some u \<in> set ys \<and> u < v}"
proof -
  let ?S = "sorted_list_of_set {u. Some u \<in> set ys}"
  have fin: "finite {u. Some u \<in> set ys}"
    by (metis List.finite_set set_present)
  have v: "v \<in> set ?S" using assms fin by simp
  have "label_column ys (Some v)
      = first_index (\<lambda>k. k = Some v) (map Some ?S @ (if None \<in> set ys then [None] else []))"
    by (simp only: label_column_index unique_sorted_by_set)
  also have "\<dots> = first_index (\<lambda>k. k = Some v) (map Some ?S)"
    using v by (intro first_index_append) auto
  also have "\<dots> = first_index (\<lambda>u. u = v) ?S"
    by (simp add: first_index_map)
  also have "\<dots> = card {u \<in> set ?S. u < v}"
    using v by (intro first_index_sorted) simp_all
  also have "{u \<in> set ?S. u < v} = {u. Some u \<in> set ys \<and> u < v}"
    using fin by auto
  finally show ?thesis .
qed

text \<open>
  Claim C10 says that, the encoder being fitted afresh on \<open>y_test\<close>, a label gets the same
  column in the encoded \<open>y_test\<close> as in the encoded \<open>y_train\<close> if and only if the two sets
  of distinct labels are equal. The "only if" fails: with training labels 1, 2, 3 and
  test labels 1, 2, every test label keeps its column, and the sets differ.
\<close>

theorem equal_columns_without_equal_label_sets:
  "label_column [Some 1, Some 2] (Some 1) = label_column [Some 1, Some 2, Some 3] (Some 1) \<and>
   label_column [Some 1, Some 2] (Some 2) = label_column [Some 1, Some 2, Some 3] (Some 2) \<and>
   set [Some 1, Some 2] \<noteq> set [Some 1, Some 2, Some (3::real)]"
proof -
  have "label_column [Some 1, Some 2] (Some 1) = label_column [Some 1, Some 2, Some 3] (Some 1)"
    by code_simp
  moreover have "label_column [Some 1, Some 2] (Some 2) = label_column [Some 1, Some 2, Some 3] (Some 2)"
    by code_simp
  moreover have "set [Some 1, Some 2] \<noteq> set [Some 1, Some 2, Some (3::real)]"
  proof -
    have "Some (3::real) \<in> set [Some 1, Some 2, Some 3]" by simp
    moreover have "Some (3::real) \<notin> set [Some 1, Some 2]" by simp
    ultimately show ?thesis by metis
  qed
  ultimately show ?thesis by blast
qed

text \<open>
  Claim C10, amended. In the cardiotocographic script the encoding of \<open>y_test\<close> comes from
  \<^verbatim>\<open>fit_transform\<close> on \<open>y_test\<close>: whatever the encoder was fitted on before, its
  categories become the sorted distinct labels of \<open>y_test\<close>, and each row is encoded
  against them. If the sets of distinct labels of \<open>y_train\<close> and \<open>y_test\<close> are equal, every
  label has the same column in both encodings. Equal label sets are not necessary: a
  label that occurs in both has the same column in both encodings exactly when as many
  distinct smaller labels occur in \<open>y_test\<close> as in \<open>y_train\<close>.
\<close>

theorem test_labels_encoded_afresh:
  "(one_hot_fit_transform encoder (reshape_col y_test) = Inr (encoder', Y) \<longrightarrow>
      categories encoder' = Some [unique_sorted y_test] \<and>
      Y = map (\<lambda>y. encode_row [unique_sorted y_test] [y]) y_test) \<and>
   (set y_train = set y_test \<longrightarrow> label_column y_test l = label_column y_train l) \<and>
   (Some v \<in> set y_train \<and> Some v \<in> set y_test \<longrightarrow>
      (label_column y_test (Some v) = label_column y_train (Some v) \<longleftrightarrow>
       card {u. Some u \<in> set y_test \<and> u < v} = card {u. Some u \<in> set y_train \<and> u < v}))"
proof (intro conjI impI)
  assume "one_hot_fit_transform encoder (reshape_col y_test) = Inr (encoder', Y)"
  then have "encoder_fit_transform encoder (reshape_col y_test)
      = Inr ((encoder', Y), [E_encoder_fit_transform (reshape_col y_test)])"
    by (simp add: encoder_fit_transform_def call_def)
  from encoder_fit_transform_column [OF this]
  show "categories encoder' = Some [unique_sorted y_test]"
    and "Y = map (\<lambda>y. encode_row [unique_sorted y_test] [y]) y_test"
    by (simp_all add: encode_single)
next
  assume "set y_train = set y_test"
  then have "unique_sorted y_train = unique_sorted y_test"
    by (simp add: unique_sorted_by_set)
  then show "label_column y_test l = label_column y_train l"
    by (simp add: label_column_index)
next
  assume "Some v \<in> set y_train \<and> Some v \<in> set y_test"
  then show "label_column y_test (Some v) = label_column y_train (Some v) \<longleftrightarrow>
       card {u. Some u \<in> set y_test \<and> u < v} = card {u. Some u \<in> set y_train \<and> u < v}"
    by (simp add: label_column_count)
qed

theorem test_labels_encoded_afresh_witness:
  "one_hot_fit_transform \<lparr>categories = Some [[Some 1, Some 2, Some 3]]\<rparr>
       (reshape_col [Some 3, Some 1, Some 3])
     = Inr (\<lparr>categories = Some [[Some 1, Some 3]]\<rparr>, [[0, 1], [1, 0], [0, 1]]) \<and>
   set [Some 1, Some 3, Some 1, Some (2::real)] = set [Some 2, Some 3, Some 1] \<and>
   label_column [Some 2, Some 3, Some 1] (Some 3) = label_column [Some 1, Some 3, Some 1, Some 2] (Some 3) \<and>
   Some 3 \<in> set [Some 1, Some 2, Some (3::real)] \<and> Some 3 \<in> set [Some 3, Some 1, Some (3::real)] \<and>
   label_column [Some 3, Some 1, Some 3] (Some 3) \<noteq> label_column [Some 1, Some 2, Some 3] (Some 3) \<and>
   card {u. Some u \<in> set [Some 3, Some 1, Some 3] \<and> u < (3::real)}
     \<noteq> card {u. Some u \<in> set [Some 1, Some 2, Some 3] \<and> u < (3::real)}"
proof -
  have run: "one_hot_fit_transform \<lparr>categories = Some [[Some 1, Some 2, Some 3]]\<rparr>
       (reshape_col [Some 3, Some 1, Some 3])
     = Inr (\<lparr>categories = Some [[Some 1, Some 3]]\<rparr>, [[0, 1], [1, 0], [0, 1]])"
    by code_simp
  have sets: "set [Some 1, Some 3, Some 1, Some (2::real)] = set [Some 2, Some 3, Some 1]"
    by auto
  have mem: "Some 3 \<in> set [Some 1, Some 2, Some (3::real)]"
    "Some 3 \<in> set [Some 3, Some 1, Some (3::real)]"
    by simp_all
  have ne: "label_column [Some 3, Some 1, Some 3] (Some 3) \<noteq> label_column [Some 1, Some 2, Some 3] (Some 3)"
    by code_simp
  from test_labels_encoded_afresh [where y_train = "[Some 1, Some 3, Some 1, Some 2]"
      and y_test = "[Some 2, Some 3, Some 1]" and l = "Some 3"] sets
  have eq: "label_column [Some 2, Some 3, Some 1] (Some 3)
      = label_column [Some 1, Some 3, Some 1, Some 2] (Some 3)"
    by blast
  from test_labels_encoded_afresh [where y_train = "[Some 1, Some 2, Some 3]"
      and y_test = "[Some 3, Some 1, Some 3]" and v = 3] mem ne
  have cards: "card {u. Some u \<in> set [Some 3, Some 1, Some 3] \<and> u < (3::real)}
     \<noteq> card {u. Some u \<in> set [Some 1, Some 2, Some 3] \<and> u < (3::real)}"
    by blast
  from run sets eq mem ne cards show ?thesis by blast
qed

section \<open>Exceptions\<close>

text \<open>
  Neither script has a \<^verbatim>\<open>try\<close> statement. The only way two steps are put together is
  \<open>io_bind\<close>, which fails exactly when one of its two parts fails, and with that part's
  exception (\<open>io_bind_Inl_iff\<close>). A library call and a pure operation fail exactly when
  the library or the operation does.
\<close>

lemma io_bind_Inl_iff:
  "io_bind m f = Inl e \<longleftrightarrow> m = Inl e \<or> (\<exists>a l. m = Inr (a, l) \<and> f a = Inl e)"
  by (auto simp: io_bind_def split: sum.splits prod.splits)

lemma call_Inl_iff: "call ev r = Inl e \<longleftrightarrow> r = Inl e"
  by (simp add: call_def split: sum.splits)

lemma pure_Inl_iff: "pure r = Inl e \<longleftrightarrow> r = Inl e"
  by (simp add: pure_def split: sum.splits)

lemma array_truth_Inl_iff: "array_truth bs = Inl e \<longleftrightarrow> e = ValueError \<and> length bs \<noteq> 1"
proof (cases bs)
  case Nil
  then show ?thesis by (auto simp: array_truth_def)
next
  case (Cons b bs')
  then show ?thesis by (cases bs') (auto simp: array_truth_def)
qed

lemma array_truth_Inr_iff: "(\<exists>b. array_truth bs = Inr b) \<longleftrightarrow> length bs = 1"
proof (cases bs)
  case Nil
  then show ?thesis by (auto simp: array_truth_def)
next
  case (Cons b bs')
  then show ?thesis by (cases bs') (auto simp: array_truth_def)
qed

lemma print_predictions_Inl_iff:
  "print_predictions P = Inl e \<longleftrightarrow> e = ValueError \<and> (\<exists>r \<in> set P. length r \<noteq> 1)"
proof (induction P)
  case Nil
  show ?case by (simp add: io_return_def)
next
  case (Cons r P)
  have "print_predictions (r # P) = Inl e \<longleftrightarrow>
          array_truth (map (\<lambda>p. cell_gt p (5 / 10)) r) = Inl e \<or>
          ((\<exists>b. array_truth (map (\<lambda>p. cell_gt p (5 / 10)) r) = Inr b) \<and> print_predictions P = Inl e)"
    by (auto simp: io_bind_Inl_iff pure_Inl_iff pure_Inr_iff call_Inl_iff call_Inr_iff print_def)
  also have "\<dots> \<longleftrightarrow> (e = ValueError \<and> length r \<noteq> 1) \<or>
                    (length r = 1 \<and> e = ValueError \<and> (\<exists>r \<in> set P. length r \<noteq> 1))"
    by (simp only: array_truth_Inl_iff array_truth_Inr_iff Cons.IH length_map)
  also have "\<dots> \<longleftrightarrow> e = ValueError \<and> (\<exists>r' \<in> set (r # P). length r' \<noteq> 1)"
    by auto
  finally show ?case .
qed

lemma print_labels_Inl_iff:
  "print_labels ls indices = Inl e \<longleftrightarrow> e = IndexError \<and> (\<exists>i \<in> set indices. length ls \<le> i)"
proof (induction indices)
  case Nil
  show ?case by (simp add: io_return_def)
next
  case (Cons i indices)
  show ?case
    by (auto simp: io_bind_Inl_iff pure_Inl_iff pure_Inr_iff call_Inl_iff call_Inr_iff print_def
        py_index_def Cons.IH split: if_splits)
qed

lemma keras_predictor_Inl_iff:
  "keras_predictor env = Inl e \<longleftrightarrow>
     read_csv_file env (os_path_join (os_getcwd env) ''02-keras-2L-diabetes-predict/diabetes.csv'') = Inl e \<or>
     (\<exists>diabetes_data.
        read_csv_file env (os_path_join (os_getcwd env) ''02-keras-2L-diabetes-predict/diabetes.csv'') = Inr diabetes_data \<and>
        (shuffle_split env diabetes_data (1 - DIVIDE_RATIO) None = Inl e \<or>
        (\<exists>train_dataset test_set.
           shuffle_split env diabetes_data (1 - DIVIDE_RATIO) None = Inr (train_dataset, test_set) \<and>
           (iloc_last train_dataset = Inl e \<or>
           (\<exists>y_train.
              iloc_last train_dataset = Inr y_train \<and>
              (iloc_last test_set = Inl e \<or>
              (\<exists>y_test.
                 iloc_last test_set = Inr y_test \<and>
                 ((\<exists>model build.
                    diabetes_model (shape1 (iloc_all_but_last train_dataset)) = Inr (model, build) \<and>
                    (training env model (rows (iloc_all_but_last train_dataset)) (Series y_train) 100 (Some 32) (2 / 10) = Inl e \<or>
                    (\<exists>hist m.
                       training env model (rows (iloc_all_but_last train_dataset)) (Series y_train) 100 (Some 32) (2 / 10) = Inr (hist, m) \<and>
                       (test_scores env m (rows (iloc_all_but_last test_set)) (Series y_test) = Inl e \<or>
                       (\<exists>score.
                          test_scores env m (rows (iloc_all_but_last test_set)) (Series y_test) = Inr score \<and>
                          (read_csv_file env (os_path_join (os_getcwd env) ''02-keras-2L-diabetes-predict/predicted.csv'') = Inl e \<or>
                          (\<exists>df.
                             read_csv_file env (os_path_join (os_getcwd env) ''02-keras-2L-diabetes-predict/predicted.csv'') = Inr df \<and>
                             (forward env m (to_numpy df) = Inl e \<or>
                             (\<exists>predictions.
                                forward env m (to_numpy df) = Inr predictions \<and>
                                (print_predictions predictions = Inl e))))))))))))))))))"
  by (simp add: keras_predictor_def Let_def io_bind_Inl_iff io_defs call_Inl_iff call_Inr_iff
      pure_Inl_iff pure_Inr_iff diabetes_model_run)

lemma train_evaluate_save_model_Inl_iff:
  "train_evaluate_save_model env X_train y_train X_test y_test X_to_predict num_categories nm ep = Inl e \<longleftrightarrow>
     (\<exists>model build.
        create_cardiotocographic_model (np_shape1 X_train) num_categories (Some ''cardiotocographic-predictor'') = Inr (model, build) \<and>
        (training env model X_train y_train ep None (2 / 10) = Inl e \<or>
        (\<exists>hist m.
           training env model X_train y_train ep None (2 / 10) = Inr (hist, m) \<and>
           (test_scores env m X_test y_test = Inl e \<or>
           (\<exists>score.
              test_scores env m X_test y_test = Inr score \<and>
              (forward env m X_to_predict = Inl e \<or>
              (\<exists>predictions.
                 forward env m X_to_predict = Inr predictions \<and>
                 (write_file env (nm @ ''.h5'') = Inl e))))))))"
  by (simp add: train_evaluate_save_model_def Let_def io_bind_Inl_iff io_defs call_Inl_iff call_Inr_iff
      pure_Inl_iff pure_Inr_iff io_return_def create_cardiotocographic_model_run)

lemma plot_metric_graph_Inl_iff:
  "plot_metric_graph env hist' metric title = Inl e \<longleftrightarrow>
     history_get hist' metric = Inl e \<or>
     (\<exists>training_values.
        history_get hist' metric = Inr training_values \<and>
        (history_get hist' (''val_'' @ metric) = Inl e \<or>
        (\<exists>validation_values.
           history_get hist' (''val_'' @ metric) = Inr validation_values \<and>
           (write_file env (title @ ''.jpg'') = Inl e))))"
  by (simp add: plot_metric_graph_def Let_def io_bind_Inl_iff io_defs call_Inl_iff call_Inr_iff
      pure_Inl_iff pure_Inr_iff)

lemma open_wb_Inl_iff: "open_wb env path = Inl e \<longleftrightarrow> write_file env path = Inl e"
  by (simp add: open_wb_def call_Inl_iff split: sum.splits)

lemma main_Inl_iff:
  "main env = Inl e \<longleftrightarrow>
     read_excel_file env ''CTG.xls'' ''Raw Data'' ''G:AN'' = Inl e \<or>
     (\<exists>sheet.
        read_excel_file env ''CTG.xls'' ''Raw Data'' ''G:AN'' = Inr sheet \<and>
        (loc_columns (dropna sheet) CTG_columns = Inl e \<or>
        (\<exists>CTG_data.
           loc_columns (dropna sheet) CTG_columns = Inr CTG_data \<and>
           (shuffle_split env CTG_data (2 / 10) None = Inl e \<or>
           (\<exists>training_set test_set.
              shuffle_split env CTG_data (2 / 10) None = Inr (training_set, test_set) \<and>
              (iloc_last training_set = Inl e \<or>
              (\<exists>y_train.
                 iloc_last training_set = Inr y_train \<and>
                 (iloc_last test_set = Inl e \<or>
                 (\<exists>y_test.
                    iloc_last test_set = Inr y_test \<and>
                    (minmax_fit_transform env MinMaxScaler_new (rows (iloc_all_but_last training_set)) = Inl e \<or>
                    (\<exists>scaler X_train.
                       minmax_fit_transform env MinMaxScaler_new (rows (iloc_all_but_last training_set)) = Inr (scaler, X_train) \<and>
                       (minmax_transform env scaler (rows (iloc_all_but_last test_set)) = Inl e \<or>
                       (\<exists>X_test.
                          minmax_transform env scaler (rows (iloc_all_but_last test_set)) = Inr X_test \<and>
                          (one_hot_fit_transform OneHotEncoder_new (reshape_col y_train) = Inl e \<or>
                          (\<exists>encoder y_train'.
                             one_hot_fit_transform OneHotEncoder_new (reshape_col y_train) = Inr (encoder, y_train') \<and>
                             (one_hot_fit_transform encoder (reshape_col y_test) = Inl e \<or>
                             (\<exists>encoder' y_test'.
                                one_hot_fit_transform encoder (reshape_col y_test) = Inr (encoder', y_test') \<and>
                                (read_csv_file env ''predicted.csv'' = Inl e \<or>
                                (\<exists>df.
                                   read_csv_file env ''predicted.csv'' = Inr df \<and>
                                   (minmax_transform env scaler (to_numpy df) = Inl e \<or>
                                   (\<exists>to_predict.
                                      minmax_transform env scaler (to_numpy df) = Inr to_predict \<and>
                                      (train_evaluate_save_model env (astype_float16 env X_train) (Array y_train') (astype_float16 env X_test) (Array y_test') to_predict (length labels) ''cardiotocographic-predictor'' 5 = Inl e \<or>
                                      (\<exists>hist l acc predictions tevs.
                                         train_evaluate_save_model env (astype_float16 env X_train) (Array y_train') (astype_float16 env X_test) (Array y_test') to_predict (length labels) ''cardiotocographic-predictor'' 5 = Inr ((hist, l, acc, predictions), tevs) \<and>
                                         (plot_metric_graph env hist ''loss'' ''Epoch-Loss Graph'' = Inl e \<or>
                                         (\<exists>pevs.
                                            plot_metric_graph env hist ''loss'' ''Epoch-Loss Graph'' = Inr ((), pevs) \<and>
                                            (plot_metric_graph env hist ''categorical_accuracy'' ''Epoch-Categorical Accuracy Graph'' = Inl e \<or>
                                            (\<exists>pevs'.
                                               plot_metric_graph env hist ''categorical_accuracy'' ''Epoch-Categorical Accuracy Graph'' = Inr ((), pevs') \<and>
                                               (np_argmax_axis1 predictions = Inl e \<or>
                                               (\<exists>indices.
                                                  np_argmax_axis1 predictions = Inr indices \<and>
                                                  (print_labels labels indices = Inl e \<or>
                                                  (\<exists>levs.
                                                     print_labels labels indices = Inr ((), levs) \<and>
                                                     (write_file env ''cardiotocographic.pickle'' = Inl e))))))))))))))))))))))))))))))))"
  by (simp add: main_def Let_def io_bind_Inl_iff io_defs call_Inl_iff call_Inr_iff
      pure_Inl_iff pure_Inr_iff open_wb_Inl_iff)

lemma returned_and:
  "(case r of Inl x \<Rightarrow> False | Inr v \<Rightarrow> P v) \<longleftrightarrow> (\<exists>v. r = Inr v \<and> P v)"
  by (cases r) simp_all

lemma returned_pair_and:
  "(case r of Inl x \<Rightarrow> False | Inr (a, b) \<Rightarrow> P a b) \<longleftrightarrow> (\<exists>a b. r = Inr (a, b) \<and> P a b)"
  by (cases r) auto

text \<open>
  Claim C5. Neither script handles, recovers from or retries a failure. A run of either
  script aborts with the exception \<open>e\<close> exactly when one of its calls raised \<open>e\<close> after all
  the calls before it had returned; the calls are listed in the order of the script, each
  with the values that the earlier calls returned. So an exception raised by any call
  while the input is loaded or processed (reading a file, selecting the columns, the
  split, taking the label column, scaling, encoding, training, evaluation, prediction,
  plotting, saving a file, indexing the labels) reaches the caller unchanged, and nothing
  else makes a run abort. The same holds of the functions that \<^verbatim>\<open>main\<close> calls and of the
  two printing loops.
\<close>

theorem exceptions_propagate:
  "(keras_predictor env = Inl e \<longleftrightarrow>
        read_csv_file env (os_path_join (os_getcwd env) ''02-keras-2L-diabetes-predict/diabetes.csv'') = Inl e \<or>
        (\<exists>diabetes_data.
           read_csv_file env (os_path_join (os_getcwd env) ''02-keras-2L-diabetes-predict/diabetes.csv'') = Inr diabetes_data \<and>
           (shuffle_split env diabetes_data (1 - DIVIDE_RATIO) None = Inl e \<or>
           (\<exists>train_dataset test_set.
              shuffle_split env diabetes_data (1 - DIVIDE_RATIO) None = Inr (train_dataset, test_set) \<and>
              (iloc_last train_dataset = Inl e \<or>
              (\<exists>y_train.
                 iloc_last train_dataset = Inr y_train \<and>
                 (iloc_last test_set = Inl e \<or>
                 (\<exists>y_test.
                    iloc_last test_set = Inr y_test \<and>
                    ((\<exists>model build.
                       diabetes_model (shape1 (iloc_all_but_last train_dataset)) = Inr (model, build) \<and>
                       (training env model (rows (iloc_all_but_last train_dataset)) (Series y_train) 100 (Some 32) (2 / 10) = Inl e \<or>
                       (\<exists>hist m.
                          training env model (rows (iloc_all_but_last train_dataset)) (Series y_train) 100 (Some 32) (2 / 10) = Inr (hist, m) \<and>
                          (test_scores env m (rows (iloc_all_but_last test_set)) (Series y_test) = Inl e \<or>
                          (\<exists>score.
                             test_scores env m (rows (iloc_all_but_last test_set)) (Series y_test) = Inr score \<and>
                             (read_csv_file env (os_path_join (os_getcwd env) ''02-keras-2L-diabetes-predict/predicted.csv'') = Inl e \<or>
                             (\<exists>df.
                                read_csv_file env (os_path_join (os_getcwd env) ''02-keras-2L-diabetes-predict/predicted.csv'') = Inr df \<and>
                                (forward env m (to_numpy df) = Inl e \<or>
                                (\<exists>predictions.
                                   forward env m (to_numpy df) = Inr predictions \<and>
                                   (print_predictions predictions = Inl e))))))))))))))))))) \<and>
   (print_predictions predictions' = Inl e \<longleftrightarrow>
      e = ValueError \<and> (\<exists>prediction \<in> set predictions'. length prediction \<noteq> 1)) \<and>
   (main env = Inl e \<longleftrightarrow>
        read_excel_file env ''CTG.xls'' ''Raw Data'' ''G:AN'' = Inl e \<or>
        (\<exists>sheet.
           read_excel_file env ''CTG.xls'' ''Raw Data'' ''G:AN'' = Inr sheet \<and>
           (loc_columns (dropna sheet) CTG_columns = Inl e \<or>
           (\<exists>CTG_data.
              loc_columns (dropna sheet) CTG_columns = Inr CTG_data \<and>
              (shuffle_split env CTG_data (2 / 10) None = Inl e \<or>
              (\<exists>training_set test_set.
                 shuffle_split env CTG_data (2 / 10) None = Inr (training_set, test_set) \<and>
                 (iloc_last training_set = Inl e \<or>
                 (\<exists>y_train.
                    iloc_last training_set = Inr y_train \<and>
                    (iloc_last test_set = Inl e \<or>
                    (\<exists>y_test.
                       iloc_last test_set = Inr y_test \<and>
                       (minmax_fit_transform env MinMaxScaler_new (rows (iloc_all_but_last training_set)) = Inl e \<or>
                       (\<exists>scaler X_train.
                          minmax_fit_transform env MinMaxScaler_new (rows (iloc_all_but_last training_set)) = Inr (scaler, X_train) \<and>
                          (minmax_transform env scaler (rows (iloc_all_but_last test_set)) = Inl e \<or>
                          (\<exists>X_test.
                             minmax_transform env scaler (rows (iloc_all_but_last test_set)) = Inr X_test \<and>
                             (one_hot_fit_transform OneHotEncoder_new (reshape_col y_train) = Inl e \<or>
                             (\<exists>encoder y_train'.
                                one_hot_fit_transform OneHotEncoder_new (reshape_col y_train) = Inr (encoder, y_train') \<and>
                                (one_hot_fit_transform encoder (reshape_col y_test) = Inl e \<or>
                                (\<exists>encoder' y_test'.
                                   one_hot_fit_transform encoder (reshape_col y_test) = Inr (encoder', y_test') \<and>
                                   (read_csv_file env ''predicted.csv'' = Inl e \<or>
                                   (\<exists>df.
                                      read_csv_file env ''predicted.csv'' = Inr df \<and>
                                      (minmax_transform env scaler (to_numpy df) = Inl e \<or>
                                      (\<exists>to_predict.
                                         minmax_transform env scaler (to_numpy df) = Inr to_predict \<and>
                                         (train_evaluate_save_model env (astype_float16 env X_train) (Array y_train') (astype_float16 env X_test) (Array y_test') to_predict (length labels) ''cardiotocographic-predictor'' 5 = Inl e \<or>
                                         (\<exists>hist l acc predictions tevs.
                                            train_evaluate_save_model env (astype_float16 env X_train) (Array y_train') (astype_float16 env X_test) (Array y_test') to_predict (length labels) ''cardiotocographic-predictor'' 5 = Inr ((hist, l, acc, predictions), tevs) \<and>
                                            (plot_metric_graph env hist ''loss'' ''Epoch-Loss Graph'' = Inl e \<or>
                                            (\<exists>pevs.
                                               plot_metric_graph env hist ''loss'' ''Epoch-Loss Graph'' = Inr ((), pevs) \<and>
                                               (plot_metric_graph env hist ''categorical_accuracy'' ''Epoch-Categorical Accuracy Graph'' = Inl e \<or>
                                               (\<exists>pevs'.
                                                  plot_metric_graph env hist ''categorical_accuracy'' ''Epoch-Categorical Accuracy Graph'' = Inr ((), pevs') \<and>
                                                  (np_argmax_axis1 predictions = Inl e \<or>
                                                  (\<exists>indices.
                                                     np_argmax_axis1 predictions = Inr indices \<and>
                                                     (print_labels labels indices = Inl e \<or>
                                                     (\<exists>levs.
                                                        print_labels labels indices = Inr ((), levs) \<and>
                                                        (write_file env ''cardiotocographic.pickle'' = Inl e))))))))))))))))))))))))))))))))) \<and>
   (train_evaluate_save_model env X_train y_train X_test y_test X_to_predict num_categories nm ep = Inl e \<longleftrightarrow>
        (\<exists>model build.
           create_cardiotocographic_model (np_shape1 X_train) num_categories (Some ''cardiotocographic-predictor'') = Inr (model, build) \<and>
           (training env model X_train y_train ep None (2 / 10) = Inl e \<or>
           (\<exists>hist m.
              training env model X_train y_train ep None (2 / 10) = Inr (hist, m) \<and>
              (test_scores env m X_test y_test = Inl e \<or>
              (\<exists>score.
                 test_scores env m X_test y_test = Inr score \<and>
                 (forward env m X_to_predict = Inl e \<or>
                 (\<exists>predictions.
                    forward env m X_to_predict = Inr predictions \<and>
                    (write_file env (nm @ ''.h5'') = Inl e))))))))) \<and>
   (plot_metric_graph env hist' metric title = Inl e \<longleftrightarrow>
        history_get hist' metric = Inl e \<or>
        (\<exists>training_values.
           history_get hist' metric = Inr training_values \<and>
           (history_get hist' (''val_'' @ metric) = Inl e \<or>
           (\<exists>validation_values.
              history_get hist' (''val_'' @ metric) = Inr validation_values \<and>
              (write_file env (title @ ''.jpg'') = Inl e))))) \<and>
   (print_labels ls indices' = Inl e \<longleftrightarrow>
      e = IndexError \<and> (\<exists>prediction \<in> set indices'. length ls \<le> prediction))"
  by (simp only: keras_predictor_Inl_iff print_predictions_Inl_iff main_Inl_iff
      train_evaluate_save_model_Inl_iff plot_metric_graph_Inl_iff print_labels_Inl_iff simp_thms)

theorem exceptions_propagate_witness:
  "keras_predictor
     (unreadable example_env ''/home/user/repo/02-keras-2L-diabetes-predict/diabetes.csv''
        FileNotFoundError) = Inl FileNotFoundError \<and>
   keras_predictor example_env_one_row = Inl ValueError \<and>
   keras_predictor
     (unreadable example_env ''/home/user/repo/02-keras-2L-diabetes-predict/predicted.csv''
        ParserError) = Inl ParserError \<and>
   print_predictions [[Some 1], [Some 1, Some 0]] = Inl ValueError \<and>
   main example_env_no_sheet = Inl FileNotFoundError \<and>
   main example_env_wrong_sheet = Inl KeyError \<and>
   main example_env_scaler_raises = Inl ValueError \<and>
   train_evaluate_save_model example_env_read_only [[Some 0], [Some (1 / 2)], [Some 1]]
       (Array [[1, 0, 0], [0, 1, 0], [0, 0, 1]]) [[Some (1 / 4)]] (Array [[0, 1, 0]])
       [[Some (1 / 2)], [Some (3 / 4)]] (length labels) ''cardiotocographic-predictor'' 5
     = Inl OSError \<and>
   plot_metric_graph example_env [(''loss'', [Some 1])] ''loss'' ''Epoch-Loss Graph'' = Inl KeyError \<and>
   print_labels labels [0, 3] = Inl IndexError"
proof -
  let ?gone = "unreadable example_env ''/home/user/repo/02-keras-2L-diabetes-predict/diabetes.csv''
        FileNotFoundError"
  let ?late = "unreadable example_env ''/home/user/repo/02-keras-2L-diabetes-predict/predicted.csv''
        ParserError"
  have a1: "keras_predictor ?gone = Inl FileNotFoundError"
  proof -
    have "read_csv_file ?gone
        (os_path_join (os_getcwd ?gone) ''02-keras-2L-diabetes-predict/diabetes.csv'')
        = Inl FileNotFoundError"
      by code_simp
    with exceptions_propagate [where env = ?gone and e = FileNotFoundError, THEN conjunct1]
    show ?thesis by blast
  qed
  have a2: "keras_predictor example_env_one_row = Inl ValueError"
  proof -
    have "case read_csv_file example_env_one_row
             (os_path_join (os_getcwd example_env_one_row)
                ''02-keras-2L-diabetes-predict/diabetes.csv'') of
            Inl _ \<Rightarrow> False
          | Inr d \<Rightarrow> shuffle_split example_env_one_row d (1 - DIVIDE_RATIO) None = Inl ValueError"
      by code_simp
    with exceptions_propagate [where env = example_env_one_row and e = ValueError, THEN conjunct1]
    show ?thesis by (auto split: sum.splits)
  qed
  have a3: "keras_predictor ?late = Inl ParserError"
  proof -
    have "case read_csv_file ?late
             (os_path_join (os_getcwd ?late) ''02-keras-2L-diabetes-predict/diabetes.csv'') of
            Inl _ \<Rightarrow> False
          | Inr d \<Rightarrow>
         (case shuffle_split ?late d (1 - DIVIDE_RATIO) None of
            Inl _ \<Rightarrow> False
          | Inr (train_dataset, test_set) \<Rightarrow>
         (case iloc_last train_dataset of
            Inl _ \<Rightarrow> False
          | Inr y_train \<Rightarrow>
         (case iloc_last test_set of
            Inl _ \<Rightarrow> False
          | Inr y_test \<Rightarrow>
         (case diabetes_model (shape1 (iloc_all_but_last train_dataset)) of
            Inl _ \<Rightarrow> False
          | Inr (model, build) \<Rightarrow>
         (case training ?late model (rows (iloc_all_but_last train_dataset)) (Series y_train)
                 100 (Some 32) (2 / 10) of
            Inl _ \<Rightarrow> False
          | Inr (hist, m) \<Rightarrow>
         (case test_scores ?late m (rows (iloc_all_but_last test_set)) (Series y_test) of
            Inl _ \<Rightarrow> False
          | Inr score \<Rightarrow>
              read_csv_file ?late
                (os_path_join (os_getcwd ?late) ''02-keras-2L-diabetes-predict/predicted.csv'')
                = Inl ParserError))))))"
      by code_simp
    then have "\<exists>d train_dataset test_set y_train y_test model build hist m score.
        read_csv_file ?late
          (os_path_join (os_getcwd ?late) ''02-keras-2L-diabetes-predict/diabetes.csv'') = Inr d \<and>
        shuffle_split ?late d (1 - DIVIDE_RATIO) None = Inr (train_dataset, test_set) \<and>
        iloc_last train_dataset = Inr y_train \<and>
        iloc_last test_set = Inr y_test \<and>
        diabetes_model (shape1 (iloc_all_but_last train_dataset)) = Inr (model, build) \<and>
        training ?late model (rows (iloc_all_but_last train_dataset)) (Series y_train)
            100 (Some 32) (2 / 10) = Inr (hist, m) \<and>
        test_scores ?late m (rows (iloc_all_but_last test_set)) (Series y_test) = Inr score \<and>
        read_csv_file ?late
          (os_path_join (os_getcwd ?late) ''02-keras-2L-diabetes-predict/predicted.csv'')
          = Inl ParserError"
      unfolding returned_and returned_pair_and by blast
    with exceptions_propagate [where env = ?late and e = ParserError, THEN conjunct1]
    show ?thesis by blast
  qed
  have a4: "print_predictions [[Some 1], [Some 1, Some 0]] = Inl ValueError"
    using exceptions_propagate
      [where predictions' = "[[Some 1], [Some 1, Some 0]]" and e = ValueError,
       THEN conjunct2, THEN conjunct1]
    by simp
  have a5: "main example_env_no_sheet = Inl FileNotFoundError"
  proof -
    have "read_excel_file example_env_no_sheet ''CTG.xls'' ''Raw Data'' ''G:AN''
            = Inl FileNotFoundError"
      by code_simp
    with exceptions_propagate [where env = example_env_no_sheet and e = FileNotFoundError,
        THEN conjunct2, THEN conjunct2, THEN conjunct1]
    show ?thesis by blast
  qed
  have a6: "main example_env_wrong_sheet = Inl KeyError"
  proof -
    have "case read_excel_file example_env_wrong_sheet ''CTG.xls'' ''Raw Data'' ''G:AN'' of
            Inl _ \<Rightarrow> False
          | Inr sheet \<Rightarrow> loc_columns (dropna sheet) CTG_columns = Inl KeyError"
      by code_simp
    with exceptions_propagate [where env = example_env_wrong_sheet and e = KeyError,
        THEN conjunct2, THEN conjunct2, THEN conjunct1]
    show ?thesis by (auto split: sum.splits)
  qed
  have a7: "main example_env_scaler_raises = Inl ValueError"
  proof -
    have "case read_excel_file example_env_scaler_raises ''CTG.xls'' ''Raw Data'' ''G:AN'' of
            Inl _ \<Rightarrow> False
          | Inr sheet \<Rightarrow>
         (case loc_columns (dropna sheet) CTG_columns of
            Inl _ \<Rightarrow> False
          | Inr CTG_data \<Rightarrow>
         (case shuffle_split example_env_scaler_raises CTG_data (2 / 10) None of
            Inl _ \<Rightarrow> False
          | Inr (training_set, test_set) \<Rightarrow>
         (case iloc_last training_set of
            Inl _ \<Rightarrow> False
          | Inr y_train \<Rightarrow>
         (case iloc_last test_set of
            Inl _ \<Rightarrow> False
          | Inr y_test \<Rightarrow>
              minmax_fit_transform example_env_scaler_raises MinMaxScaler_new
                (rows (iloc_all_but_last training_set)) = Inl ValueError))))"
      by code_simp
    then have "\<exists>sheet CTG_data training_set test_set y_train y_test.
        read_excel_file example_env_scaler_raises ''CTG.xls'' ''Raw Data'' ''G:AN'' = Inr sheet \<and>
        loc_columns (dropna sheet) CTG_columns = Inr CTG_data \<and>
        shuffle_split example_env_scaler_raises CTG_data (2 / 10) None
          = Inr (training_set, test_set) \<and>
        iloc_last training_set = Inr y_train \<and>
        iloc_last test_set = Inr y_test \<and>
        minmax_fit_transform example_env_scaler_raises MinMaxScaler_new
          (rows (iloc_all_but_last training_set)) = Inl ValueError"
      unfolding returned_and returned_pair_and by blast
    with exceptions_propagate [where env = example_env_scaler_raises and e = ValueError,
        THEN conjunct2, THEN conjunct2, THEN conjunct1]
    show ?thesis by blast
  qed
  have a8: "train_evaluate_save_model example_env_read_only [[Some 0], [Some (1 / 2)], [Some 1]]
       (Array [[1, 0, 0], [0, 1, 0], [0, 0, 1]]) [[Some (1 / 4)]] (Array [[0, 1, 0]])
       [[Some (1 / 2)], [Some (3 / 4)]] (length labels) ''cardiotocographic-predictor'' 5
     = Inl OSError"
  proof -
    have "case create_cardiotocographic_model (np_shape1 [[Some 0], [Some (1 / 2)], [Some 1]])
                 (length labels) (Some ''cardiotocographic-predictor'') of
            Inl _ \<Rightarrow> False
          | Inr (model, build) \<Rightarrow>
         (case training example_env_read_only model [[Some 0], [Some (1 / 2)], [Some 1]]
                 (Array [[1, 0, 0], [0, 1, 0], [0, 0, 1]]) 5 None (2 / 10) of
            Inl _ \<Rightarrow> False
          | Inr (hist, m) \<Rightarrow>
         (case test_scores example_env_read_only m [[Some (1 / 4)]] (Array [[0, 1, 0]]) of
            Inl _ \<Rightarrow> False
          | Inr score \<Rightarrow>
         (case forward example_env_read_only m [[Some (1 / 2)], [Some (3 / 4)]] of
            Inl _ \<Rightarrow> False
          | Inr predictions \<Rightarrow>
              write_file example_env_read_only (''cardiotocographic-predictor'' @ ''.h5'')
                = Inl OSError)))"
      by code_simp
    then have "\<exists>model build hist m score predictions.
        create_cardiotocographic_model (np_shape1 [[Some 0], [Some (1 / 2)], [Some 1]])
          (length labels) (Some ''cardiotocographic-predictor'') = Inr (model, build) \<and>
        training example_env_read_only model [[Some 0], [Some (1 / 2)], [Some 1]]
          (Array [[1, 0, 0], [0, 1, 0], [0, 0, 1]]) 5 None (2 / 10) = Inr (hist, m) \<and>
        test_scores example_env_read_only m [[Some (1 / 4)]] (Array [[0, 1, 0]]) = Inr score \<and>
        forward example_env_read_only m [[Some (1 / 2)], [Some (3 / 4)]] = Inr predictions \<and>
        write_file example_env_read_only (''cardiotocographic-predictor'' @ ''.h5'') = Inl OSError"
      unfolding returned_and returned_pair_and by blast
    with exceptions_propagate [where env = example_env_read_only and e = OSError
        and X_train = "[[Some 0], [Some (1 / 2)], [Some 1]]"
        and y_train = "Array [[1, 0, 0], [0, 1, 0], [0, 0, 1]]"
        and X_test = "[[Some (1 / 4)]]" and y_test = "Array [[0, 1, 0]]"
        and X_to_predict = "[[Some (1 / 2)], [Some (3 / 4)]]" and num_categories = "length labels"
        and nm = "''cardiotocographic-predictor''" and ep = 5,
        THEN conjunct2, THEN conjunct2, THEN conjunct2, THEN conjunct1]
    show ?thesis by blast
  qed
  have a9: "plot_metric_graph example_env [(''loss'', [Some 1])] ''loss'' ''Epoch-Loss Graph''
      = Inl KeyError"
  proof -
    have "history_get [(''loss'', [Some 1])] ''loss'' = Inr [Some 1]"
      "history_get [(''loss'', [Some 1])] (''val_'' @ ''loss'') = Inl KeyError"
      by code_simp+
    with exceptions_propagate [where env = example_env and e = KeyError
        and hist' = "[(''loss'', [Some 1])]" and metric = "''loss''" and title = "''Epoch-Loss Graph''",
        THEN conjunct2, THEN conjunct2, THEN conjunct2, THEN conjunct2, THEN conjunct1]
    show ?thesis by blast
  qed
  have a10: "print_labels labels [0, 3] = Inl IndexError"
    using exceptions_propagate
      [where ls = labels and indices' = "[0, 3]" and e = IndexError,
       THEN conjunct2, THEN conjunct2, THEN conjunct2, THEN conjunct2, THEN conjunct2]
    by (simp add: labels_def)
  from a1 a2 a3 a4 a5 a6 a7 a8 a9 a10 show ?thesis by (intro conjI)
qed

end
